theory Spec2Isabelle
  imports Main "HOL-Library.AList"
begin

section \<open>JavaScript values used by the extractor\<close>

text \<open>
  Strings are lists of characters; one element stands for one UTF-16 code unit, which is
  what \<^verbatim>\<open>length\<close>, \<^verbatim>\<open>slice\<close>, \<^verbatim>\<open>substring\<close> and \<^verbatim>\<open>lastIndexOf\<close> count in JavaScript.
  Every exception the code can raise is a value of \<open>error\<close>: a \<open>TypeError\<close> (a property
  read on \<^verbatim>\<open>undefined\<close>) or a behaviour this development does not describe.
\<close>

datatype error = TypeError string | OutsideModel string

definition read_of_undefined :: "string \<Rightarrow> error" where
  "read_of_undefined p = TypeError (''Cannot read properties of undefined (reading '' @ p @ '')'')"

definition set_of_undefined :: "string \<Rightarrow> error" where
  "set_of_undefined p = TypeError (''Cannot set properties of undefined (setting '' @ p @ '')'')"

definition bind_err :: "'e + 'a \<Rightarrow> ('a \<Rightarrow> 'e + 'b) \<Rightarrow> 'e + 'b" where
  "bind_err r f = (case r of Inl e \<Rightarrow> Inl e | Inr v \<Rightarrow> f v)"

text \<open>The results of a list of computations, or the first error in list order.\<close>

fun sequence :: "('e + 'a) list \<Rightarrow> 'e + 'a list" where
  "sequence [] = Inr []"
| "sequence (r # rs) =
     (case r of Inl e \<Rightarrow> Inl e
      | Inr v \<Rightarrow> (case sequence rs of Inl e \<Rightarrow> Inl e | Inr vs \<Rightarrow> Inr (v # vs)))"

text \<open>\<^verbatim>\<open>x && f(x)\<close> on an optional node: absent stays absent, an error of \<open>f\<close> is raised.\<close>

fun sequence_option :: "('e + 'a) option \<Rightarrow> 'e + 'a option" where
  "sequence_option None = Inr None"
| "sequence_option (Some r) = (case r of Inl e \<Rightarrow> Inl e | Inr v \<Rightarrow> Inr (Some v))"

subsection \<open>String and array methods\<close>

text \<open>\<^verbatim>\<open>s.lastIndexOf(c)\<close> for a one-character search string: the last index, or -1.\<close>

fun lastIndexOf :: "'a list \<Rightarrow> 'a \<Rightarrow> int" where
  "lastIndexOf [] c = - 1"
| "lastIndexOf (x # xs) c =
     (let r = lastIndexOf xs c in if 0 \<le> r then r + 1 else if x = c then 0 else - 1)"

text \<open>\<^verbatim>\<open>xs.indexOf(v)\<close>: the first index, or -1.\<close>

fun indexOf :: "'a list \<Rightarrow> 'a \<Rightarrow> int" where
  "indexOf [] v = - 1"
| "indexOf (x # xs) v =
     (if x = v then 0 else (let r = indexOf xs v in if 0 \<le> r then r + 1 else - 1))"

text \<open>\<^verbatim>\<open>s.substring(start)\<close>: the start index is clamped to the string.\<close>

definition substring :: "'a list \<Rightarrow> int \<Rightarrow> 'a list" where
  "substring s start = drop (nat (max 0 (min start (int (length s))))) s"

text \<open>\<^verbatim>\<open>s.slice(start, end)\<close> and \<^verbatim>\<open>xs.slice(start)\<close>: a negative index counts from the end.\<close>

definition slice_index :: "nat \<Rightarrow> int \<Rightarrow> nat" where
  "slice_index len i = (if i < 0 then nat (max (int len + i) 0) else min (nat i) len)"

definition slice :: "'a list \<Rightarrow> int \<Rightarrow> int \<Rightarrow> 'a list" where
  "slice s start stop =
     (let from = slice_index (length s) start; to = slice_index (length s) stop
      in take (to - from) (drop from s))"

definition slice_from :: "'a list \<Rightarrow> int \<Rightarrow> 'a list" where
  "slice_from s start = drop (slice_index (length s) start) s"

text \<open>\<^verbatim>\<open>s.split(sep)\<close> for a one-character separator.\<close>

fun split :: "'a list \<Rightarrow> 'a \<Rightarrow> 'a list list" where
  "split [] sep = [[]]"
| "split (x # xs) sep =
     (if x = sep then [] # split xs sep
      else (case split xs sep of [] \<Rightarrow> [[x]] | w # ws \<Rightarrow> (x # w) # ws))"

text \<open>
  A natural number in a template literal: its decimal digits. \<open>digit_char\<close> is only
  applied to a number below ten.
\<close>

definition digit_char :: "nat \<Rightarrow> char" where
  "digit_char d = ''0123456789'' ! d"

fun digits :: "nat \<Rightarrow> nat \<Rightarrow> string" where
  "digits 0 n = [digit_char (n mod 10)]"
| "digits (Suc fuel) n =
     (if n < 10 then [digit_char n] else digits fuel (n div 10) @ [digit_char (n mod 10)])"

definition number_toString :: "nat \<Rightarrow> string" where
  "number_toString n = digits n n"

text \<open>An optional string in a template literal: \<^verbatim>\<open>undefined\<close> prints as the word.\<close>

definition template :: "string option \<Rightarrow> string" where
  "template s = (case s of None \<Rightarrow> ''undefined'' | Some t \<Rightarrow> t)"

subsection \<open>The util module\<close>

definition backslash :: char where
  "backslash = CHR 0x5C"

definition getLastItemFromPath :: "string \<Rightarrow> int \<Rightarrow> string" where
  "getLastItemFromPath path offset = substring path (lastIndexOf path backslash + offset)"

subsection \<open>Map objects\<close>

text \<open>
  A \<^verbatim>\<open>Map\<close> keeps its entries in insertion order; \<^verbatim>\<open>set\<close> on a key that is present
  replaces the value where it stands, and appends the entry otherwise.
\<close>

type_synonym ('k, 'v) jsmap = "('k \<times> 'v) list"

definition Map_get :: "('k, 'v) jsmap \<Rightarrow> 'k \<Rightarrow> 'v option" where
  "Map_get m k = map_of m k"

definition Map_has :: "('k, 'v) jsmap \<Rightarrow> 'k \<Rightarrow> bool" where
  "Map_has m k = (map_of m k \<noteq> None)"

definition Map_set :: "('k, 'v) jsmap \<Rightarrow> 'k \<Rightarrow> 'v \<Rightarrow> ('k, 'v) jsmap" where
  "Map_set m k v = AList.update k v m"

definition Map_values :: "('k, 'v) jsmap \<Rightarrow> 'v list" where
  "Map_values m = map snd m"

section \<open>The documentation model\<close>

text \<open>
  The module \<^verbatim>\<open>../structure\<close> is imported by the extractor. The shapes below are the
  object literals the extractor builds, field by field; an optional field
  (\<^verbatim>\<open>undefined\<close> when absent) is an \<open>option\<close>.
\<close>

datatype TypeKinds =
    TypeKinds_REFERENCE | TypeKinds_ARROW_FUNCTION | TypeKinds_OBJECT_LITERAL
  | TypeKinds_UNION | TypeKinds_INTERSECTION | TypeKinds_TUPLE
  | TypeKinds_UNIQUE_OPERATOR | TypeKinds_KEYOF_OPERATOR | TypeKinds_READONLY_OPERATOR
  | TypeKinds_ARRAY_TYPE
  | TypeKinds_NUMBER | TypeKinds_STRING | TypeKinds_BOOLEAN | TypeKinds_TRUE | TypeKinds_FALSE
  | TypeKinds_UNDEFINED | TypeKinds_NULL | TypeKinds_VOID | TypeKinds_ANY | TypeKinds_UNKNOWN
  | TypeKinds_NUMBER_LITERAL | TypeKinds_STRING_LITERAL | TypeKinds_STRINGIFIED_UNKNOWN

datatype TypeReferenceKinds =
    TypeReferenceKinds_STRINGIFIED_UNKNOWN
  | TypeReferenceKinds_DEFAULT_API
  | TypeReferenceKinds_ENUM_MEMBER
  | TypeReferenceKinds_OTHER nat

text \<open>
  A reference, as the reference index returns it and as the extractor builds it:
  name, module path, externality, kind, and the display name of an enum member.
\<close>

record Reference =
  name :: string
  path :: "string list option"
  external :: "bool option"
  kind :: TypeReferenceKinds
  displayName :: "string option"

text \<open>
  A \<^verbatim>\<open>Type\<close> object, by the fields it is built with:
  \<^item> \<open>ReferenceType r ps\<close> is \<^verbatim>\<open>{type: r, typeParameters: ps, kind: REFERENCE}\<close>;
  \<^item> \<open>BasicType n k\<close> is \<^verbatim>\<open>{name: n, kind: k}\<close>;
  \<^item> \<open>ArrowFunction ps r xs\<close> is \<^verbatim>\<open>{typeParameters: ps, returnType: r, parameters: xs, kind: ARROW_FUNCTION}\<close>;
  \<^item> \<open>ObjectLiteral ps\<close> is \<^verbatim>\<open>{properties: ps, kind: OBJECT_LITERAL}\<close>;
  \<^item> \<open>TypeList ts k\<close> is \<^verbatim>\<open>{types: ts, kind: k}\<close>;
  \<^item> \<open>WrappedType k t\<close> is \<^verbatim>\<open>{kind: k, type: t}\<close>.
\<close>

datatype Type =
    ReferenceType Reference "Type list option"
  | BasicType "string option" TypeKinds
  | ArrowFunction "TypeParameter list option" Type "FunctionParameter list"
  | ObjectLiteral "Property list"
  | TypeList "Type list" TypeKinds
  | WrappedType "TypeKinds option" Type
and TypeParameter =
    TypeParameter (tp_name: string) (tp_default: "Type option") (tp_constraint: "Type option")
and FunctionParameter =
    FunctionParameter (fp_name: string) (fp_isOptional: bool) (fp_rest: bool)
      (fp_type: "Type option") (fp_defaultValue: "Type option") (fp_jsDoc_comment: "string option")
and Property =
    InterfaceProperty string "Type option" bool "bool option"
  | IndexSignature "Type option" Type int int

record LineAndCharacter =
  line :: nat
  character :: nat

record Loc =
  pos :: LineAndCharacter
  sourceFile :: "string option"

record JSDocTag =
  name :: string
  comment :: "string option"
  arg :: "string option"
  type :: "Type option"

record JSDocData =
  comment :: "string option"
  tags :: "JSDocTag list option"

record ConstantDecl =
  name :: string
  loc :: Loc
  type :: "Type option"
  content :: string
  jsDoc :: "JSDocData list option"

record FunctionSignature =
  name :: "string option"
  parameters :: "FunctionParameter list"
  typeParameters :: "TypeParameter list option"
  returnType :: "Type option"
  loc :: Loc
  jsDoc :: "JSDocData list option"

record FunctionDecl =
  name :: string
  signatures :: "FunctionSignature list"
  loc :: Loc
  jsDoc :: "JSDocData list option"

record TypeDecl =
  name :: string
  loc :: Loc
  jsDoc :: "JSDocData list option"
  isExported :: "bool option"
  value_type :: "Type option"

record EnumMember =
  name :: string
  initializer :: "Type option"
  loc :: Loc

record EnumDecl =
  name :: string
  const :: bool
  members :: "EnumMember list"
  loc :: "Loc list"
  jsDoc :: "JSDocData list option"
  isExported :: "bool option"

record InterfaceDecl =
  name :: string
  typeParameters :: "TypeParameter list option"
  loc :: "Loc list"
  properties :: "Property list"
  jsDoc :: "JSDocData list option"
  isExported :: "bool option"
  extends :: "Type option"
  implements :: "Type list option"

record ClassProperty =
  name :: string
  type :: "Type option"
  loc :: Loc
  isOptional :: bool
  isPrivate :: "bool option"
  isProtected :: "bool option"
  isStatic :: "bool option"
  isReadonly :: "bool option"
  isAbstract :: "bool option"
  jsDoc :: "JSDocData list option"

record MethodSignature =
  returnType :: "Type option"
  typeParameters :: "TypeParameter list option"
  parameters :: "FunctionParameter list option"
  loc :: Loc
  jsDoc :: "JSDocData list option"

record ClassMethod =
  name :: string
  loc :: Loc
  isPrivate :: "bool option"
  isProtected :: "bool option"
  isStatic :: "bool option"
  isAbstract :: "bool option"
  jsDoc :: "JSDocData list option"
  signatures :: "MethodSignature list"
  isGetter :: "bool option"
  isSetter :: "bool option"

record ClassDecl =
  name :: string
  typeParameters :: "TypeParameter list option"
  properties :: "ClassProperty list"
  methods :: "ClassMethod list"
  loc :: Loc
  constructor :: "FunctionParameter list option"
  isAbstract :: "bool option"
  jsDoc :: "JSDocData list option"
  isExported :: "bool option"
  extends :: "Type option"
  implements :: "Type list option"

text \<open>
  A value held where the code expects a \<^verbatim>\<open>Module\<close>: the address of a Module object
  in the heap, or a member that a plain object inherits from \<^verbatim>\<open>Object.prototype\<close>
  (named by its key), which has none of a Module's fields.
\<close>

datatype modref = ModuleObj nat | ObjectPrototypeMember string

record Module =
  name :: string
  repository :: "string option"
  isGlobal :: bool
  isNamespace :: bool
  classes :: "(string, ClassDecl) jsmap"
  interfaces :: "(string, InterfaceDecl) jsmap"
  enums :: "(string, EnumDecl) jsmap"
  types :: "(string, TypeDecl) jsmap"
  "functions" :: "(string, FunctionDecl) jsmap"
  constants :: "ConstantDecl list"
  modules :: "(string, modref) jsmap"

text \<open>
  Modelled from the spec: \<^verbatim>\<open>createModule\<close> of \<^verbatim>\<open>../structure\<close> is missing from the
  sources. A module has a name, an owning repository identifier, the namespace flag, and
  its collections, all empty at creation; the arguments are those of the two calls in
  the extractor (name, a flag passed as \<^verbatim>\<open>false\<close>, repository, namespace flag).
\<close>

definition createModule :: "string \<Rightarrow> bool \<Rightarrow> string option \<Rightarrow> bool \<Rightarrow> Module" where
  "createModule n g repo ns =
     \<lparr> Module.name = n, repository = repo, isGlobal = g, isNamespace = ns,
       classes = [], interfaces = [], enums = [], types = [], functions = [],
       constants = [], modules = [] \<rparr>"

section \<open>Syntax trees and the type checker\<close>

text \<open>
  The parser and the type checker are outside the extractor. A node carries what the
  extractor reads from it: its kind, its children, its raw source text where
  \<^verbatim>\<open>getText()\<close> is called, its start position where a location is taken, and the
  checker's answer where the checker is asked about it.
\<close>

datatype SyntaxKind =
    ExportKeyword | AbstractKeyword | ConstKeyword | StaticKeyword | ProtectedKeyword
  | PrivateKeyword | ReadonlyKeyword | ExtendsKeyword | ImplementsKeyword
  | UniqueKeyword | KeyOfKeyword
  | NumberKeyword | StringKeyword | BooleanKeyword | TrueKeyword | FalseKeyword
  | UndefinedKeyword | NullKeyword | VoidKeyword | AnyKeyword | UnknownKeyword
  | BigIntLiteral | NumericLiteral | StringLiteral
  | ExpressionWithTypeArgumentsKind
  | OtherKind nat

datatype SymbolFlags = SymbolFlags_TypeParameter | SymbolFlags_EnumMember | SymbolFlags_Module

text \<open>
  A checker symbol: its flags, its name, and the name of the enum declaration that is the
  parent of its value declaration, when it has a value declaration with such a parent.
\<close>

record Symbol =
  flags :: "SymbolFlags list"
  name :: string
  valueDeclaration_parent_enum :: "string option"

text \<open>
  Modelled from the spec: \<^verbatim>\<open>hasBit\<close> of \<^verbatim>\<open>../util\<close> is missing from the sources; a symbol
  is flagged as a type parameter, an enum member or a module.
\<close>

definition hasBit :: "SymbolFlags list \<Rightarrow> SymbolFlags \<Rightarrow> bool" where
  "hasBit fs f = (f \<in> set fs)"

text \<open>An entity name: an identifier (its text), or a qualified name (raw text, left, right text).\<close>

datatype EntityName = Identifier string | QualifiedName string EntityName string

fun EntityName_getText :: "EntityName \<Rightarrow> string" where
  "EntityName_getText (Identifier t) = t"
| "EntityName_getText (QualifiedName raw l r) = raw"

text \<open>
  The nodes \<open>resolveType\<close> and its helpers walk.
  \<^item> \<open>TypeReferenceNode raw typeName symbol typeArguments\<close>: \<open>symbol\<close> is the checker's symbol at
    \<open>typeName\<close>.
  \<^item> \<open>FunctionTypeNode typeParameters type parameters\<close>.
  \<^item> \<open>TypeOperatorNode operator type\<close>.
  \<^item> \<open>ThisTypeNode raw symbol\<close>.
  \<^item> \<open>LiteralTypeNode literal\<close>.
  \<^item> \<open>OtherNode kind raw\<close>: a node of any other kind.
  \<^item> \<open>TypeParameterDeclaration name default constraint\<close>.
  \<^item> \<open>ParameterDeclaration name questionToken dotDotDotToken type initializer tags\<close>: \<open>name\<close> is
    the identifier's text, absent for a binding pattern; \<open>tags\<close> are the comments of the
    parameter's JSDoc parameter tags.
  \<^item> \<open>PropertySignature name type questionToken modifiers\<close>; \<open>SignatureElement parameters type pos end\<close>
    is any other member of a type literal or interface (index, method, call and construct
    signatures).
  \<^item> \<open>NewExpression raw expression typeArguments\<close>;
    \<open>PropertyAccessExpression raw expression symbol name\<close> with the checker's symbol at \<open>expression\<close>;
    \<open>IdentifierExpression raw text\<close>; \<open>OtherExpression kind raw\<close>.
\<close>

datatype TypeNode =
    TypeReferenceNode string EntityName "Symbol option" "TypeNode list option"
  | FunctionTypeNode "TypeParameterDeclaration list option" TypeNode "ParameterDeclaration list"
  | TypeLiteralNode "TypeElement list"
  | UnionTypeNode "TypeNode list"
  | IntersectionTypeNode "TypeNode list"
  | TupleTypeNode "TypeNode list"
  | TypeOperatorNode SyntaxKind TypeNode
  | ArrayTypeNode TypeNode
  | ParenthesizedTypeNode TypeNode
  | ThisTypeNode string "Symbol option"
  | LiteralTypeNode TypeNode
  | OtherNode SyntaxKind string
and TypeParameterDeclaration =
    TypeParameterDeclaration string "TypeNode option" "TypeNode option"
and ParameterDeclaration =
    ParameterDeclaration "string option" bool bool "TypeNode option" "Expression option"
      "string option list"
and TypeElement =
    PropertySignature string "TypeNode option" bool "SyntaxKind list option"
  | SignatureElement "ParameterDeclaration list" "TypeNode option" int int
and Expression =
    NewExpression string Expression "TypeNode list option"
  | PropertyAccessExpression string Expression "Symbol option" string
  | IdentifierExpression string string
  | OtherExpression SyntaxKind string

section \<open>The reference index\<close>

text \<open>
  The reference manager is outside the extractor. Its two operations are parameters:
  \<^verbatim>\<open>resolveSymbol(symbolOrName, extractor, moduleName)\<close>, already applied to the extractor,
  and \<^verbatim>\<open>isDefault(identifier)\<close>, on the identifier's text.
\<close>

datatype symbol_or_name = BySymbol Symbol | ByName string

record references =
  references_resolveSymbol :: "symbol_or_name \<Rightarrow> string option \<Rightarrow> Reference option"
  references_isDefault :: "string \<Rightarrow> bool"

section \<open>The type resolver\<close>

definition stringified_reference :: "string \<Rightarrow> Reference" where
  "stringified_reference n =
     \<lparr> Reference.name = n, path = None, external = None,
       kind = TypeReferenceKinds_STRINGIFIED_UNKNOWN, displayName = None \<rparr>"

definition resolveSymbol ::
  "references \<Rightarrow> symbol_or_name \<Rightarrow> Type list option \<Rightarrow> string option \<Rightarrow> Type" where
  "resolveSymbol R symbol tparams moduleName =
     (let by_index =
        (case references_resolveSymbol R symbol moduleName of
           Some symbolRef \<Rightarrow> ReferenceType symbolRef tparams
         | None \<Rightarrow>
             BasicType (Some (case symbol of ByName s \<Rightarrow> s | BySymbol smb \<Rightarrow> Symbol.name smb))
               TypeKinds_UNKNOWN)
      in case symbol of
           ByName s \<Rightarrow> by_index
         | BySymbol smb \<Rightarrow>
             if hasBit (flags smb) SymbolFlags_TypeParameter
             then ReferenceType (stringified_reference (Symbol.name smb)) tparams
             else (case (if hasBit (flags smb) SymbolFlags_EnumMember
                         then valueDeclaration_parent_enum smb else None) of
                     Some parent \<Rightarrow>
                       (case references_resolveSymbol R (ByName parent) None of
                          None \<Rightarrow> BasicType None TypeKinds_UNKNOWN
                        | Some thing \<Rightarrow>
                            ReferenceType
                              \<lparr> Reference.name = Reference.name thing, path = path thing,
                                external = external thing, kind = TypeReferenceKinds_ENUM_MEMBER,
                                displayName = Some (Symbol.name smb) \<rparr> None)
                   | None \<Rightarrow> by_index))"

text \<open>The final \<^verbatim>\<open>switch (type.kind)\<close> of \<open>resolveType\<close>, for a node of kind \<open>k\<close> and text \<open>raw\<close>.\<close>

fun resolveType_switch :: "SyntaxKind \<Rightarrow> string \<Rightarrow> Type" where
  "resolveType_switch NumberKeyword raw = BasicType (Some ''number'') TypeKinds_NUMBER"
| "resolveType_switch StringKeyword raw = BasicType (Some ''string'') TypeKinds_STRING"
| "resolveType_switch BooleanKeyword raw = BasicType (Some ''boolean'') TypeKinds_BOOLEAN"
| "resolveType_switch TrueKeyword raw = BasicType (Some ''true'') TypeKinds_TRUE"
| "resolveType_switch FalseKeyword raw = BasicType (Some ''false'') TypeKinds_FALSE"
| "resolveType_switch UndefinedKeyword raw = BasicType (Some ''undefined'') TypeKinds_UNDEFINED"
| "resolveType_switch NullKeyword raw = BasicType (Some ''null'') TypeKinds_NULL"
| "resolveType_switch VoidKeyword raw = BasicType (Some ''void'') TypeKinds_VOID"
| "resolveType_switch AnyKeyword raw = BasicType (Some ''any'') TypeKinds_ANY"
| "resolveType_switch UnknownKeyword raw = BasicType (Some ''unknown'') TypeKinds_UNKNOWN"
| "resolveType_switch BigIntLiteral raw = BasicType (Some raw) TypeKinds_NUMBER_LITERAL"
| "resolveType_switch NumericLiteral raw = BasicType (Some raw) TypeKinds_NUMBER_LITERAL"
| "resolveType_switch StringLiteral raw = BasicType (Some raw) TypeKinds_STRING_LITERAL"
| "resolveType_switch k raw = BasicType (Some raw) TypeKinds_STRINGIFIED_UNKNOWN"

text \<open>The \<^verbatim>\<open>switch (exp.kind)\<close> of \<open>resolveExpressionToType\<close>.\<close>

fun resolveExpressionToType_switch :: "SyntaxKind \<Rightarrow> string \<Rightarrow> Type" where
  "resolveExpressionToType_switch BigIntLiteral raw = BasicType (Some raw) TypeKinds_NUMBER_LITERAL"
| "resolveExpressionToType_switch NumericLiteral raw = BasicType (Some raw) TypeKinds_NUMBER_LITERAL"
| "resolveExpressionToType_switch FalseKeyword raw = BasicType (Some ''false'') TypeKinds_FALSE"
| "resolveExpressionToType_switch TrueKeyword raw = BasicType (Some ''true'') TypeKinds_TRUE"
| "resolveExpressionToType_switch StringLiteral raw = BasicType (Some raw) TypeKinds_STRING_LITERAL"
| "resolveExpressionToType_switch NullKeyword raw = BasicType (Some ''null'') TypeKinds_NULL"
| "resolveExpressionToType_switch UndefinedKeyword raw =
     BasicType (Some ''undefined'') TypeKinds_UNDEFINED"
| "resolveExpressionToType_switch k raw = BasicType (Some raw) TypeKinds_STRINGIFIED_UNKNOWN"

fun typeOperator_kind :: "SyntaxKind \<Rightarrow> TypeKinds option" where
  "typeOperator_kind UniqueKeyword = Some TypeKinds_UNIQUE_OPERATOR"
| "typeOperator_kind KeyOfKeyword = Some TypeKinds_KEYOF_OPERATOR"
| "typeOperator_kind ReadonlyKeyword = Some TypeKinds_READONLY_OPERATOR"
| "typeOperator_kind k = None"

text \<open>
  \<open>resolveType\<close> and the helpers it is mutually recursive with. The resolvers have no side
  effect, so the results of a \<^verbatim>\<open>map\<close> are computed for every element and the first error
  in order is the one raised.
\<close>

fun resolveType :: "references \<Rightarrow> TypeNode \<Rightarrow> error + Type"
  and resolveGenerics :: "references \<Rightarrow> TypeParameterDeclaration \<Rightarrow> error + TypeParameter"
  and resolveParameter :: "references \<Rightarrow> ParameterDeclaration \<Rightarrow> error + FunctionParameter"
  and resolveProperty :: "references \<Rightarrow> TypeElement \<Rightarrow> error + Property"
  and resolveExpressionToType :: "references \<Rightarrow> Expression \<Rightarrow> error + Type"
where
  "resolveType R (TypeReferenceNode raw typeName symbol typeArguments) =
     bind_err (sequence_option (map_option sequence (map_option (map (resolveType R)) typeArguments)))
       (\<lambda>tparams.
          case symbol of
            None \<Rightarrow>
              (case typeName of
                 Identifier t \<Rightarrow>
                   if references_isDefault R t
                   then Inr (ReferenceType
                          \<lparr> Reference.name = t, path = None, external = None,
                            kind = TypeReferenceKinds_DEFAULT_API, displayName = None \<rparr>
                          tparams)
                   else Inr (ReferenceType (stringified_reference raw) tparams)
               | QualifiedName qraw left right \<Rightarrow>
                   Inr (ReferenceType (stringified_reference raw) tparams))
          | Some smb \<Rightarrow>
              (case typeName of
                 Identifier t \<Rightarrow> Inr (resolveSymbol R (BySymbol smb) tparams None)
               | QualifiedName qraw left right \<Rightarrow>
                   if Symbol.name smb = ''unknown''
                   then Inr (resolveSymbol R (ByName right) tparams
                          (Some (EntityName_getText left)))
                   else Inr (resolveSymbol R (BySymbol smb) tparams None)))"
| "resolveType R (FunctionTypeNode tparams ty params) =
     bind_err (sequence_option (map_option sequence (map_option (map (resolveGenerics R)) tparams)))
       (\<lambda>tps. bind_err (resolveType R ty)
          (\<lambda>ret. bind_err (sequence (map (resolveParameter R) params))
             (\<lambda>ps. Inr (ArrowFunction tps ret ps))))"
| "resolveType R (TypeLiteralNode elems) =
     bind_err (sequence (map (resolveProperty R) elems)) (\<lambda>ps. Inr (ObjectLiteral ps))"
| "resolveType R (UnionTypeNode tys) =
     bind_err (sequence (map (resolveType R) tys)) (\<lambda>ts. Inr (TypeList ts TypeKinds_UNION))"
| "resolveType R (IntersectionTypeNode tys) =
     bind_err (sequence (map (resolveType R) tys))
       (\<lambda>ts. Inr (TypeList ts TypeKinds_INTERSECTION))"
| "resolveType R (TupleTypeNode elements) =
     bind_err (sequence (map (resolveType R) elements)) (\<lambda>ts. Inr (TypeList ts TypeKinds_TUPLE))"
| "resolveType R (TypeOperatorNode operator ty) =
     bind_err (resolveType R ty) (\<lambda>t. Inr (WrappedType (typeOperator_kind operator) t))"
| "resolveType R (ArrayTypeNode elementType) =
     bind_err (resolveType R elementType) (\<lambda>t. Inr (WrappedType (Some TypeKinds_ARRAY_TYPE) t))"
| "resolveType R (ParenthesizedTypeNode ty) = resolveType R ty"
| "resolveType R (ThisTypeNode raw symbol) =
     (case symbol of
        None \<Rightarrow> Inr (BasicType (Some raw) TypeKinds_STRINGIFIED_UNKNOWN)
      | Some smb \<Rightarrow> Inr (resolveSymbol R (BySymbol smb) None None))"
| "resolveType R (LiteralTypeNode literal) = resolveType R literal"
| "resolveType R (OtherNode k raw) = Inr (resolveType_switch k raw)"
| "resolveGenerics R (TypeParameterDeclaration n dflt constraint) =
     bind_err (sequence_option (map_option (resolveType R) dflt))
       (\<lambda>d. bind_err (sequence_option (map_option (resolveType R) constraint))
          (\<lambda>c. Inr (TypeParameter n d c)))"
| "resolveParameter R (ParameterDeclaration n questionToken dotDotDotToken ty init tgs) =
     bind_err (sequence_option (map_option (resolveType R) ty))
       (\<lambda>t. bind_err (sequence_option (map_option (resolveExpressionToType R) init))
          (\<lambda>d. Inr (FunctionParameter
                  (case n of Some i \<Rightarrow> i | None \<Rightarrow> ''__namedParameters'')
                  questionToken dotDotDotToken t d
                  (case tgs of [] \<Rightarrow> None | c # cs \<Rightarrow> c))))"
| "resolveProperty R (PropertySignature n ty questionToken modifiers) =
     bind_err (sequence_option (map_option (resolveType R) ty))
       (\<lambda>t. Inr (InterfaceProperty n t questionToken
                (map_option (\<lambda>ms. ReadonlyKeyword \<in> set ms) modifiers)))"
| "resolveProperty R (SignatureElement params ty start stop) =
     (case params of
        [] \<Rightarrow> Inl (read_of_undefined ''type'')
      | ParameterDeclaration n questionToken dotDotDotToken pty init tgs # ps \<Rightarrow>
          bind_err (sequence_option (map_option (resolveType R) pty))
            (\<lambda>key. case ty of
                      None \<Rightarrow> Inl (read_of_undefined ''kind'')
                    | Some t \<Rightarrow> bind_err (resolveType R t)
                        (\<lambda>r. Inr (IndexSignature key r start stop))))"
| "resolveExpressionToType R (NewExpression raw expression typeArguments) =
     (case expression of
        IdentifierExpression iraw t \<Rightarrow>
          bind_err (sequence_option (map_option sequence
                      (map_option (map (resolveType R)) typeArguments)))
            (\<lambda>tas. Inr (resolveSymbol R (ByName t) tas None))
      | _ \<Rightarrow> Inr (BasicType (Some raw) TypeKinds_STRINGIFIED_UNKNOWN))"
| "resolveExpressionToType R (PropertyAccessExpression raw expression leftSym n) =
     (case leftSym of
        None \<Rightarrow> Inr (BasicType (Some raw) TypeKinds_STRINGIFIED_UNKNOWN)
      | Some smb \<Rightarrow>
          if hasBit (flags smb) SymbolFlags_Module
          then Inr (resolveSymbol R (BySymbol smb) None (Some n))
          else Inr (BasicType (Some raw) TypeKinds_STRINGIFIED_UNKNOWN))"
| "resolveExpressionToType R (IdentifierExpression raw t) =
     Inr (BasicType (Some raw) TypeKinds_STRINGIFIED_UNKNOWN)"
| "resolveExpressionToType R (OtherExpression k raw) = Inr (resolveExpressionToType_switch k raw)"

text \<open>
  \<open>resolveHeritage\<close>, on an \<^verbatim>\<open>ExpressionWithTypeArguments\<close> (raw text, expression, type
  arguments).
\<close>

datatype ExpressionWithTypeArguments =
  ExpressionWithTypeArguments string Expression "TypeNode list option"

fun Expression_getText :: "Expression \<Rightarrow> string" where
  "Expression_getText (NewExpression raw e tas) = raw"
| "Expression_getText (PropertyAccessExpression raw e s n) = raw"
| "Expression_getText (IdentifierExpression raw t) = raw"
| "Expression_getText (OtherExpression k raw) = raw"

definition resolveTypeArguments :: "references \<Rightarrow> TypeNode list option \<Rightarrow> error + Type list option" where
  "resolveTypeArguments R tas = sequence_option (map_option (\<lambda>args. sequence (map (resolveType R) args)) tas)"

fun resolveHeritage :: "references \<Rightarrow> ExpressionWithTypeArguments \<Rightarrow> error + Type" where
  "resolveHeritage R (ExpressionWithTypeArguments raw (PropertyAccessExpression eraw e s n) tas) =
     bind_err (resolveTypeArguments R tas)
       (\<lambda>ts. Inr (resolveSymbol R (ByName (Expression_getText e)) ts (Some n)))"
| "resolveHeritage R (ExpressionWithTypeArguments raw (IdentifierExpression eraw t) tas) =
     bind_err (resolveTypeArguments R tas) (\<lambda>ts. Inr (resolveSymbol R (ByName t) ts None))"
| "resolveHeritage R (ExpressionWithTypeArguments raw e tas) =
     bind_err (resolveTypeArguments R tas)
       (\<lambda>ts. Inr (ReferenceType (stringified_reference (Expression_getText e)) ts))"

text \<open>
  What the checker infers for a declaration without a return type annotation: the symbol
  of the inferred return type, and the symbols of its resolved type arguments. It is
  absent when the checker gives no signature or no return type.
\<close>

datatype InferredType = InferredType "Symbol option" "Symbol option list option"

text \<open>The parts of a function-like declaration that \<open>resolveReturnType\<close> and its callers read.\<close>

record SignatureNode =
  sig_typeParameters :: "TypeParameterDeclaration list option"
  sig_parameters :: "ParameterDeclaration list"
  sig_type :: "TypeNode option"
  sig_inferred :: "InferredType option"

definition resolveReturnType :: "references \<Rightarrow> SignatureNode \<Rightarrow> error + Type option" where
  "resolveReturnType R fn =
     (case sig_type fn of
        Some t \<Rightarrow> bind_err (resolveType R t) (\<lambda>r. Inr (Some r))
      | None \<Rightarrow>
          (case sig_inferred fn of
             None \<Rightarrow> Inr None
           | Some (InferredType None targs) \<Rightarrow> Inr None
           | Some (InferredType (Some smb) targs) \<Rightarrow>
               Inr (Some (resolveSymbol R (BySymbol smb)
                 (map_option (map (\<lambda>t. case t of
                      None \<Rightarrow> BasicType (Some ''any'') TypeKinds_ANY
                    | Some s \<Rightarrow> resolveSymbol R (BySymbol s) None None)) targs)
                 None))))"

definition resolveGenerics_list ::
  "references \<Rightarrow> TypeParameterDeclaration list option \<Rightarrow> error + TypeParameter list option" where
  "resolveGenerics_list R tps =
     sequence_option (map_option (\<lambda>ps. sequence (map (resolveGenerics R) ps)) tps)"

subsection \<open>Documentation comments\<close>

text \<open>
  A JSDoc tag (tag name, comment, the text of its name, its type expression) and a JSDoc
  block (comment, tags). The type expression of a tag is absent when the tag has none,
  and otherwise holds its \<^verbatim>\<open>type\<close>, which is absent for a type expression without one (the
  type literal of a \<^verbatim>\<open>@typedef\<close> tag with property tags). A node without documentation has
  the empty list.
\<close>

datatype JSDocTagNode =
  JSDocTagNode string "string option" "string option" "TypeNode option option"

datatype JSDocNode = JSDocNode "string option" "JSDocTagNode list option"

fun getJSDocData_tag :: "references \<Rightarrow> JSDocTagNode \<Rightarrow> error + JSDocTag" where
  "getJSDocData_tag R (JSDocTagNode tagName c n typeExpression) =
     bind_err
       (case typeExpression of
          None \<Rightarrow> Inr None
        | Some None \<Rightarrow> Inl (read_of_undefined ''kind'')
        | Some (Some ty) \<Rightarrow> bind_err (resolveType R ty) (\<lambda>t. Inr (Some t)))
       (\<lambda>t. Inr \<lparr> JSDocTag.name = tagName, comment = c, arg = n, type = t \<rparr>)"

fun getJSDocData_doc :: "references \<Rightarrow> JSDocNode \<Rightarrow> error + JSDocData" where
  "getJSDocData_doc R (JSDocNode c tgs) =
     bind_err (sequence_option (map_option (\<lambda>ts. sequence (map (getJSDocData_tag R) ts)) tgs))
       (\<lambda>ts. Inr \<lparr> JSDocData.comment = c, tags = ts \<rparr>)"

definition getJSDocData :: "references \<Rightarrow> JSDocNode list \<Rightarrow> error + JSDocData list option" where
  "getJSDocData R docs =
     (if docs = [] then Inr None
      else bind_err (sequence (map (getJSDocData_doc R) docs)) (\<lambda>res. Inr (Some res)))"

section \<open>Declarations and source files\<close>

text \<open>
  Modifiers are the kinds of the modifier nodes, absent when the node has none.
  \<^item> \<open>PropertyDeclaration modifiers name type initializer questionToken start jsDoc\<close>
  \<^item> \<open>MethodDeclaration modifiers name signature start jsDoc\<close>, and the same for
    \<open>GetAccessor\<close> and \<open>SetAccessor\<close>
  \<^item> \<open>ConstructorDeclaration modifiers parameters\<close>
  \<^item> \<open>HeritageClause token types\<close>
  \<^item> \<open>VariableDeclaration name start type initializer\<close>, the initializer by its raw text
  \<^item> \<open>EnumMemberNode name initializer start\<close>
  \<^item> \<open>VariableStatement modifiers declarations jsDoc\<close>
  \<^item> \<open>ClassDeclaration modifiers name typeParameters members heritageClauses start jsDoc\<close>
  \<^item> \<open>InterfaceDeclaration modifiers name typeParameters members heritageClauses start jsDoc\<close>
  \<^item> \<open>FunctionDeclaration modifiers name signature start jsDoc\<close>
  \<^item> \<open>TypeAliasDeclaration modifiers name type start jsDoc\<close>
  \<^item> \<open>EnumDeclaration modifiers name members start jsDoc\<close>
  \<^item> \<open>ModuleDeclaration name body start\<close>, the body being the statements of a module block,
    absent when the declaration has no body or a body that is not a block
  \<^item> \<open>OtherStatement\<close>: any other statement
\<close>

datatype ClassElement =
    PropertyDeclaration "SyntaxKind list option" string "TypeNode option" "Expression option" bool
      LineAndCharacter "JSDocNode list"
  | MethodDeclaration "SyntaxKind list option" string SignatureNode LineAndCharacter "JSDocNode list"
  | GetAccessor "SyntaxKind list option" string SignatureNode LineAndCharacter "JSDocNode list"
  | SetAccessor "SyntaxKind list option" string SignatureNode LineAndCharacter "JSDocNode list"
  | ConstructorDeclaration "SyntaxKind list option" "ParameterDeclaration list"
  | OtherClassElement "SyntaxKind list option"

datatype HeritageClause = HeritageClause SyntaxKind "ExpressionWithTypeArguments list"

datatype VariableDeclaration =
  VariableDeclaration string LineAndCharacter "TypeNode option" "string option"

datatype EnumMemberNode = EnumMemberNode string "Expression option" LineAndCharacter

datatype Statement =
    VariableStatement "SyntaxKind list option" "VariableDeclaration list" "JSDocNode list"
  | ClassDeclaration "SyntaxKind list option" "string option" "TypeParameterDeclaration list option"
      "ClassElement list" "HeritageClause list option" LineAndCharacter "JSDocNode list"
  | InterfaceDeclaration "SyntaxKind list option" string "TypeParameterDeclaration list option"
      "TypeElement list" "HeritageClause list option" LineAndCharacter "JSDocNode list"
  | FunctionDeclaration "SyntaxKind list option" "string option" SignatureNode
      LineAndCharacter "JSDocNode list"
  | TypeAliasDeclaration "SyntaxKind list option" string TypeNode LineAndCharacter "JSDocNode list"
  | EnumDeclaration "SyntaxKind list option" string "EnumMemberNode list" LineAndCharacter
      "JSDocNode list"
  | ModuleDeclaration string "Statement list option" LineAndCharacter
  | OtherStatement

record SourceFile =
  fileName :: string
  statements :: "Statement list"

text \<open>\<^verbatim>\<open>node.modifiers && node.modifiers.some(mod => mod.kind === k)\<close>\<close>

definition has_modifier :: "SyntaxKind list option \<Rightarrow> SyntaxKind \<Rightarrow> bool option" where
  "has_modifier mods k = map_option (\<lambda>ms. k \<in> set ms) mods"

text \<open>The same value where it is tested or passed to \<^verbatim>\<open>Boolean\<close>: absent counts as false.\<close>

definition truthy :: "bool option \<Rightarrow> bool" where
  "truthy b = (b = Some True)"

section \<open>The extractor\<close>

text \<open>
  Module objects are shared: the module tree, the two caches and \<^verbatim>\<open>currentModule\<close> hold
  references to the same objects. The heap is the list of the Module objects created so
  far, and a reference is an index into it. The root module is \<^verbatim>\<open>settings.module\<close>.
\<close>

record TypescriptExtractor =
  heap :: "Module list"
  module :: nat
  baseDir :: string
  currentModule :: "modref option"
  moduleCache :: "(string \<times> modref) list"
  namespaceCache :: "(string \<times> modref) list"

subsection \<open>Plain objects used as dictionaries\<close>

text \<open>
  The two caches are created as \<^verbatim>\<open>{}\<close>, so a key that is not an own property is looked up
  in \<^verbatim>\<open>Object.prototype\<close>. A cache is the list of its own properties. Writing the key
  \<^verbatim>\<open>__proto__\<close> calls the inherited setter: it creates no own property, and writing back
  the prototype itself changes nothing.
\<close>

definition Object_prototype_keys :: "string list" where
  "Object_prototype_keys =
     [''constructor'', ''__defineGetter__'', ''__defineSetter__'', ''hasOwnProperty'',
      ''__lookupGetter__'', ''__lookupSetter__'', ''isPrototypeOf'', ''propertyIsEnumerable'',
      ''toString'', ''valueOf'', ''__proto__'', ''toLocaleString'']"

definition Record_get :: "(string \<times> modref) list \<Rightarrow> string \<Rightarrow> modref option" where
  "Record_get r k =
     (case map_of r k of
        Some v \<Rightarrow> Some v
      | None \<Rightarrow> if k \<in> set Object_prototype_keys then Some (ObjectPrototypeMember k) else None)"

definition Record_set ::
  "(string \<times> modref) list \<Rightarrow> string \<Rightarrow> modref \<Rightarrow> error + (string \<times> modref) list" where
  "Record_set r k v =
     (if k = ''__proto__''
      then (if v = ObjectPrototypeMember ''__proto__'' then Inr r
            else Inl (OutsideModel ''the prototype of a cache is replaced''))
      else Inr (AList.update k v r))"

subsection \<open>Reading the fields of a module\<close>

text \<open>
  \<open>module_fields h r p\<close> is the read of field \<open>p\<close> of the value \<open>r\<close>: it raises on
  \<^verbatim>\<open>undefined\<close>, gives the Module (with its address) for a Module object, and gives
  \<^verbatim>\<open>undefined\<close> for a member of \<^verbatim>\<open>Object.prototype\<close>. \<open>module_collection h r p f\<close> is the
  read of method \<open>f\<close> of that field, which raises when the field is \<^verbatim>\<open>undefined\<close>.
\<close>

definition module_fields ::
  "Module list \<Rightarrow> modref option \<Rightarrow> string \<Rightarrow> error + (nat \<times> Module) option" where
  "module_fields h r p =
     (case r of
        None \<Rightarrow> Inl (read_of_undefined p)
      | Some (ObjectPrototypeMember k) \<Rightarrow> Inr None
      | Some (ModuleObj a) \<Rightarrow>
          if a < length h then Inr (Some (a, h ! a))
          else Inl (OutsideModel ''a reference to no object''))"

definition module_collection ::
  "Module list \<Rightarrow> modref option \<Rightarrow> string \<Rightarrow> string \<Rightarrow> error + (nat \<times> Module)" where
  "module_collection h r p f =
     bind_err (module_fields h r p)
       (\<lambda>x. case x of None \<Rightarrow> Inl (read_of_undefined f) | Some am \<Rightarrow> Inr am)"

definition store_module :: "TypescriptExtractor \<Rightarrow> nat \<Rightarrow> Module \<Rightarrow> TypescriptExtractor" where
  "store_module ext a m = ext\<lparr> heap := (heap ext)[a := m] \<rparr>"

subsection \<open>Locations\<close>

definition line_suffix :: "LineAndCharacter \<Rightarrow> string" where
  "line_suffix p = ''#L'' @ number_toString (line p + 1)"

text \<open>
  \<open>getLOC ext p f includeLine\<close>, for a node that starts at line and character \<open>p\<close> of the
  source file named \<open>f\<close>.
\<close>

definition getLOC :: "TypescriptExtractor \<Rightarrow> LineAndCharacter \<Rightarrow> string \<Rightarrow> bool \<Rightarrow> error + Loc" where
  "getLOC ext p f includeLine =
     bind_err (module_fields (heap ext) (currentModule ext) ''isNamespace'')
       (\<lambda>x. case x of
          None \<Rightarrow> Inr \<lparr> pos = p, sourceFile = None \<rparr>
        | Some (a, m) \<Rightarrow>
            if isNamespace m
            then Inr \<lparr> pos = p, sourceFile = Some (template (repository m) @ line_suffix p) \<rparr>
            else Inr \<lparr> pos = p,
                   sourceFile =
                     (case repository m of
                        None \<Rightarrow> None
                      | Some r \<Rightarrow>
                          if r = [] then Some []
                          else Some (r @ ''/'' @ getLastItemFromPath f 1 @
                                 (if includeLine then line_suffix p else [])) ) \<rparr>)"

subsection \<open>The module of a file\<close>

fun moduleFromFile_loop ::
  "Module list \<Rightarrow> modref \<Rightarrow> string list \<Rightarrow> error + (Module list \<times> modref)" where
  "moduleFromFile_loop h lastModule [] = Inr (h, lastModule)"
| "moduleFromFile_loop h lastModule (pathPart # rest) =
     bind_err (module_collection h (Some lastModule) ''modules'' ''get'')
       (\<lambda>(a, m).
          case Map_get (modules m) pathPart of
            None \<Rightarrow>
              moduleFromFile_loop
                (h[a := m\<lparr> modules := Map_set (modules m) pathPart (ModuleObj (length h)) \<rparr>]
                   @ [createModule pathPart False
                        (Some (template (repository m) @ ''/'' @ pathPart)) False])
                (ModuleObj (length h)) rest
          | Some newLastMod \<Rightarrow> moduleFromFile_loop h newLastMod rest)"

definition moduleFromFile ::
  "TypescriptExtractor \<Rightarrow> SourceFile \<Rightarrow> error + (Module list \<times> modref)" where
  "moduleFromFile ext file =
     (let paths0 = butlast (split (fileName file) (CHR ''/''));
          paths = slice_from paths0 (indexOf paths0 (baseDir ext) + 1)
      in if paths = [] then Inr (heap ext, ModuleObj (module ext))
         else moduleFromFile_loop (heap ext) (ModuleObj (module ext)) paths)"

subsection \<open>The Prepare phase\<close>

text \<open>
  The reference index is consulted with the extractor itself as an argument, so the
  handlers take the index as a function \<open>E\<close> of the extractor. \<open>f\<close> is the name of the source
  file of the node.
\<close>

definition default_name :: "string option \<Rightarrow> string" where
  "default_name n = (case n of Some t \<Rightarrow> t | None \<Rightarrow> ''export default'')"

fun preparer_member ::
  "(TypescriptExtractor \<Rightarrow> references) \<Rightarrow> string \<Rightarrow> TypescriptExtractor \<Rightarrow> EnumMemberNode
     \<Rightarrow> error + EnumMember" where
  "preparer_member E f ext (EnumMemberNode n init start) =
     bind_err (sequence_option (map_option (resolveExpressionToType (E ext)) init))
       (\<lambda>i. bind_err (getLOC ext start f True)
          (\<lambda>l. Inr \<lparr> EnumMember.name = n, initializer = i, loc = l \<rparr>))"

fun preparer :: "(TypescriptExtractor \<Rightarrow> references) \<Rightarrow> string \<Rightarrow> TypescriptExtractor \<Rightarrow> Statement
     \<Rightarrow> error + TypescriptExtractor"
  and preparer_statements ::
    "(TypescriptExtractor \<Rightarrow> references) \<Rightarrow> string \<Rightarrow> TypescriptExtractor \<Rightarrow> Statement list
     \<Rightarrow> error + TypescriptExtractor"
where
  "preparer E f ext (ClassDeclaration mods n tps elems heritage start docs) =
     bind_err (module_collection (heap ext) (currentModule ext) ''classes'' ''set'')
       (\<lambda>(a, m). bind_err (getLOC ext start f True)
          (\<lambda>l. bind_err (getJSDocData (E ext) docs)
             (\<lambda>j. Inr (store_module ext a
                (m\<lparr> classes := Map_set (classes m) (default_name n)
                     \<lparr> ClassDecl.name = default_name n,
                       typeParameters = Some [],
                       properties = [],
                       methods = [],
                       loc = l,
                       constructor = None,
                       isAbstract = has_modifier mods AbstractKeyword,
                       jsDoc = j,
                       isExported = has_modifier mods ExportKeyword,
                       extends = None,
                       implements = None \<rparr> \<rparr>)))))"
| "preparer E f ext (InterfaceDeclaration mods n tps elems heritage start docs) =
     bind_err (module_collection (heap ext) (currentModule ext) ''interfaces'' ''get'')
       (\<lambda>(a, m).
          case Map_get (interfaces m) n of
            Some existing \<Rightarrow>
              bind_err (getLOC ext start f True)
                (\<lambda>l. Inr (store_module ext a
                   (m\<lparr> interfaces := Map_set (interfaces m) n
                        (existing\<lparr> InterfaceDecl.loc := InterfaceDecl.loc existing @ [l] \<rparr>) \<rparr>)))
          | None \<Rightarrow>
              bind_err (getLOC ext start f True)
                (\<lambda>l. bind_err (getJSDocData (E ext) docs)
                   (\<lambda>j. Inr (store_module ext a
                      (m\<lparr> interfaces := Map_set (interfaces m) n
                           \<lparr> InterfaceDecl.name = n,
                             typeParameters = Some [],
                             loc = [l],
                             properties = [],
                             jsDoc = j,
                             isExported = has_modifier mods ExportKeyword,
                             extends = None,
                             implements = None \<rparr> \<rparr>)))))"
| "preparer E f ext (EnumDeclaration mods n elems start docs) =
     bind_err (module_collection (heap ext) (currentModule ext) ''enums'' ''get'')
       (\<lambda>(a, m).
          case Map_get (enums m) n of
            Some existing \<Rightarrow>
              bind_err (getLOC ext start f True)
                (\<lambda>l. bind_err (sequence (map (preparer_member E f ext) elems))
                   (\<lambda>ms. Inr (store_module ext a
                      (m\<lparr> enums := Map_set (enums m) n
                           (existing\<lparr> EnumDecl.loc := EnumDecl.loc existing @ [l],
                                      members := members existing @ ms \<rparr>) \<rparr>))))
          | None \<Rightarrow>
              bind_err (sequence (map (preparer_member E f ext) elems))
                (\<lambda>ms. bind_err (getLOC ext start f True)
                   (\<lambda>l. bind_err (getJSDocData (E ext) docs)
                      (\<lambda>j. Inr (store_module ext a
                         (m\<lparr> enums := Map_set (enums m) n
                              \<lparr> EnumDecl.name = n,
                                const = truthy (has_modifier mods ConstKeyword),
                                members = ms,
                                loc = [l],
                                jsDoc = j,
                                isExported = has_modifier mods ExportKeyword \<rparr> \<rparr>))))))"
| "preparer E f ext (TypeAliasDeclaration mods n ty start docs) =
     bind_err (module_collection (heap ext) (currentModule ext) ''types'' ''set'')
       (\<lambda>(a, m). bind_err (getLOC ext start f True)
          (\<lambda>l. bind_err (getJSDocData (E ext) docs)
             (\<lambda>j. Inr (store_module ext a
                (m\<lparr> types := Map_set (types m) n
                     \<lparr> TypeDecl.name = n,
                       loc = l,
                       jsDoc = j,
                       isExported = has_modifier mods ExportKeyword,
                       value_type = None \<rparr> \<rparr>)))))"
| "preparer E f ext (ModuleDeclaration n (Some body) start) =
     (let currModule = currentModule ext in
      bind_err
        (case Record_get (namespaceCache ext) n of
           Some cached \<Rightarrow> Inr (heap ext, cached)
         | None \<Rightarrow>
             bind_err (getLOC ext start f False)
               (\<lambda>l. Inr (heap ext @ [createModule n False (sourceFile l) True],
                          ModuleObj (length (heap ext)))))
        (\<lambda>(h, cur).
           bind_err (module_collection h currModule ''modules'' ''set'')
             (\<lambda>(a, m).
                bind_err (Record_set (namespaceCache ext) n cur)
                  (\<lambda>cache.
                     bind_err
                       (preparer_statements E f
                          (ext\<lparr> heap := h[a := m\<lparr> modules := Map_set (modules m) n cur \<rparr>],
                                currentModule := Some cur,
                                namespaceCache := cache \<rparr>)
                          body)
                       (\<lambda>ext'. Inr (ext'\<lparr> currentModule := currModule \<rparr>))))))"
| "preparer E f ext (ModuleDeclaration n None start) = Inr ext"
| "preparer E f ext (VariableStatement mods decls docs) = Inr ext"
| "preparer E f ext (FunctionDeclaration mods n sg start docs) = Inr ext"
| "preparer E f ext OtherStatement = Inr ext"
| "preparer_statements E f ext [] = Inr ext"
| "preparer_statements E f ext (stmt # stmts) =
     bind_err (preparer E f ext stmt) (\<lambda>ext'. preparer_statements E f ext' stmts)"

definition runPreparerOnFile ::
  "(TypescriptExtractor \<Rightarrow> references) \<Rightarrow> TypescriptExtractor \<Rightarrow> SourceFile
     \<Rightarrow> error + TypescriptExtractor" where
  "runPreparerOnFile E ext file =
     bind_err (moduleFromFile ext file)
       (\<lambda>(h, cur).
          bind_err (Record_set (moduleCache ext) (fileName file) cur)
            (\<lambda>cache.
               preparer_statements E (fileName file)
                 (ext\<lparr> heap := h, currentModule := Some cur, moduleCache := cache \<rparr>)
                 (statements file)))"

subsection \<open>The Visit phase\<close>

text \<open>
  In an assignment to a property of \<^verbatim>\<open>undefined\<close> the right-hand side is evaluated first
  and the assignment then raises, so an error of the right-hand side is the one raised.
\<close>

definition handleTypeDeclaration ::
  "(TypescriptExtractor \<Rightarrow> references) \<Rightarrow> TypescriptExtractor \<Rightarrow> string \<Rightarrow> TypeNode
     \<Rightarrow> error + TypescriptExtractor" where
  "handleTypeDeclaration E ext n ty =
     bind_err (module_collection (heap ext) (currentModule ext) ''types'' ''get'')
       (\<lambda>(a, m). bind_err (resolveType (E ext) ty)
          (\<lambda>v. case Map_get (types m) n of
                  None \<Rightarrow> Inl (set_of_undefined ''value'')
                | Some decl \<Rightarrow>
                    Inr (store_module ext a
                      (m\<lparr> types := Map_set (types m) n (decl\<lparr> value_type := Some v \<rparr>) \<rparr>))))"

definition handleFunctionDeclaration ::
  "(TypescriptExtractor \<Rightarrow> references) \<Rightarrow> string \<Rightarrow> TypescriptExtractor \<Rightarrow> string option
     \<Rightarrow> SignatureNode \<Rightarrow> LineAndCharacter \<Rightarrow> JSDocNode list \<Rightarrow> error + TypescriptExtractor" where
  "handleFunctionDeclaration E f ext n sg start docs =
     bind_err (module_collection (heap ext) (currentModule ext) ''functions'' ''get'')
       (\<lambda>(a, m).
          bind_err (sequence (map (resolveParameter (E ext)) (sig_parameters sg)))
            (\<lambda>ps. bind_err (resolveGenerics_list (E ext) (sig_typeParameters sg))
               (\<lambda>tps. bind_err (resolveReturnType (E ext) sg)
                  (\<lambda>ret. bind_err (getLOC ext start f True)
                     (\<lambda>l. bind_err (getJSDocData (E ext) docs)
                        (\<lambda>j. let obj = \<lparr> FunctionSignature.name = n, parameters = ps,
                                          typeParameters = tps, returnType = ret, loc = l,
                                          jsDoc = j \<rparr>
                              in case Map_get (functions m) (default_name n) of
                                   Some fn \<Rightarrow>
                                     Inr (store_module ext a
                                       (m\<lparr> functions := Map_set (functions m) (default_name n)
                                            (fn\<lparr> FunctionDecl.signatures := FunctionDecl.signatures fn @ [obj] \<rparr>) \<rparr>))
                                 | None \<Rightarrow>
                                     Inr (store_module ext a
                                       (m\<lparr> functions := Map_set (functions m) (default_name n)
                                            \<lparr> FunctionDecl.name = default_name n,
                                              signatures = [obj],
                                              loc = l,
                                              jsDoc = j \<rparr> \<rparr>))))))))"

text \<open>The stored content of a constant: \<^verbatim>\<open>text.length > 256 ? text.slice(0, 256) + "..." : text\<close>.\<close>

definition constant_content :: "string \<Rightarrow> string" where
  "constant_content txt = (if length txt > 256 then slice txt 0 256 @ ''...'' else txt)"

fun handleVariableDeclaration_loop ::
  "(TypescriptExtractor \<Rightarrow> references) \<Rightarrow> string \<Rightarrow> TypescriptExtractor \<Rightarrow> JSDocNode list
     \<Rightarrow> VariableDeclaration list \<Rightarrow> error + ConstantDecl list" where
  "handleVariableDeclaration_loop E f ext docs [] = Inr []"
| "handleVariableDeclaration_loop E f ext docs (VariableDeclaration n start ty None # ds) =
     handleVariableDeclaration_loop E f ext docs ds"
| "handleVariableDeclaration_loop E f ext docs (VariableDeclaration n start ty (Some txt) # ds) =
     bind_err (getLOC ext start f True)
       (\<lambda>l. bind_err (sequence_option (map_option (resolveType (E ext)) ty))
          (\<lambda>t. bind_err (getJSDocData (E ext) docs)
             (\<lambda>j. bind_err (handleVariableDeclaration_loop E f ext docs ds)
                (\<lambda>rest. Inr (\<lparr> ConstantDecl.name = n, loc = l, type = t,
                               content = constant_content txt, jsDoc = j \<rparr> # rest)))))"

definition handleVariableDeclaration ::
  "(TypescriptExtractor \<Rightarrow> references) \<Rightarrow> string \<Rightarrow> TypescriptExtractor \<Rightarrow> VariableDeclaration list
     \<Rightarrow> JSDocNode list \<Rightarrow> error + TypescriptExtractor" where
  "handleVariableDeclaration E f ext decls docs =
     bind_err (handleVariableDeclaration_loop E f ext docs decls)
       (\<lambda>declarations.
          bind_err (module_collection (heap ext) (currentModule ext) ''constants'' ''push'')
            (\<lambda>(a, m). Inr (store_module ext a (m\<lparr> constants := constants m @ declarations \<rparr>))))"

text \<open>The flag a modifier keyword sets on a class member: \<^verbatim>\<open>true\<close>, or left \<^verbatim>\<open>undefined\<close>.\<close>

definition member_flag :: "SyntaxKind list option \<Rightarrow> SyntaxKind \<Rightarrow> bool option" where
  "member_flag mods k =
     (case mods of None \<Rightarrow> None | Some ms \<Rightarrow> if k \<in> set ms then Some True else None)"

definition method_signature ::
  "(TypescriptExtractor \<Rightarrow> references) \<Rightarrow> string \<Rightarrow> TypescriptExtractor \<Rightarrow> SignatureNode
     \<Rightarrow> LineAndCharacter \<Rightarrow> JSDocNode list \<Rightarrow> error + MethodSignature" where
  "method_signature E f ext sg start docs =
     bind_err (resolveReturnType (E ext) sg)
       (\<lambda>ret. bind_err (resolveGenerics_list (E ext) (sig_typeParameters sg))
          (\<lambda>tps. bind_err (sequence (map (resolveParameter (E ext)) (sig_parameters sg)))
             (\<lambda>ps. bind_err (getLOC ext start f True)
                (\<lambda>l. bind_err (getJSDocData (E ext) docs)
                   (\<lambda>j. Inr \<lparr> MethodSignature.returnType = ret, typeParameters = tps,
                              parameters = Some ps, loc = l, jsDoc = j \<rparr>)))))"

text \<open>
  One iteration of the loop over the members of a class, on the declaration being filled
  and the local map of methods.
\<close>

fun handleClassDeclaration_member ::
  "(TypescriptExtractor \<Rightarrow> references) \<Rightarrow> string \<Rightarrow> TypescriptExtractor
     \<Rightarrow> ClassDecl \<times> (string, ClassMethod) jsmap \<Rightarrow> ClassElement
     \<Rightarrow> error + ClassDecl \<times> (string, ClassMethod) jsmap" where
  "handleClassDeclaration_member E f ext (res, ms) (PropertyDeclaration mods n ty init q start docs) =
     bind_err
       (case ty of
          Some t \<Rightarrow> bind_err (resolveType (E ext) t) (\<lambda>r. Inr (Some r))
        | None \<Rightarrow> sequence_option (map_option (resolveExpressionToType (E ext)) init))
       (\<lambda>t. bind_err (getLOC ext start f True)
          (\<lambda>l. bind_err (getJSDocData (E ext) docs)
             (\<lambda>j. Inr (res\<lparr> ClassDecl.properties := ClassDecl.properties res @
                          [\<lparr> ClassProperty.name = n, type = t, loc = l, isOptional = q,
                             isPrivate = member_flag mods PrivateKeyword,
                             isProtected = member_flag mods ProtectedKeyword,
                             isStatic = member_flag mods StaticKeyword,
                             isReadonly = member_flag mods ReadonlyKeyword,
                             isAbstract = member_flag mods AbstractKeyword,
                             jsDoc = j \<rparr>] \<rparr>, ms))))"
| "handleClassDeclaration_member E f ext (res, ms) (MethodDeclaration mods n sg start docs) =
     (case Map_get ms n of
        Some method \<Rightarrow>
          bind_err (method_signature E f ext sg start docs)
            (\<lambda>s. Inr (res, Map_set ms n
               (method\<lparr> ClassMethod.signatures := ClassMethod.signatures method @ [s] \<rparr>)))
      | None \<Rightarrow>
          bind_err (getLOC ext start f True)
            (\<lambda>l. bind_err (getJSDocData (E ext) docs)
               (\<lambda>j. bind_err (method_signature E f ext sg start docs)
                  (\<lambda>s. Inr (res, Map_set ms n
                     \<lparr> ClassMethod.name = n, loc = l,
                       isPrivate = member_flag mods PrivateKeyword,
                       isProtected = member_flag mods ProtectedKeyword,
                       isStatic = member_flag mods StaticKeyword,
                       isAbstract = member_flag mods AbstractKeyword,
                       jsDoc = j, signatures = [s], isGetter = None, isSetter = None \<rparr>)))))"
| "handleClassDeclaration_member E f ext (res, ms) (GetAccessor mods n sg start docs) =
     bind_err (resolveReturnType (E ext) sg)
       (\<lambda>ret. bind_err (getLOC ext start f True)
          (\<lambda>l. bind_err (getJSDocData (E ext) docs)
             (\<lambda>j. Inr (res, Map_set ms n
                \<lparr> ClassMethod.name = n, loc = l,
                  isPrivate = member_flag mods PrivateKeyword,
                  isProtected = member_flag mods ProtectedKeyword,
                  isStatic = member_flag mods StaticKeyword,
                  isAbstract = member_flag mods AbstractKeyword,
                  jsDoc = j,
                  signatures = [\<lparr> MethodSignature.returnType = ret, typeParameters = None,
                                  parameters = None, loc = l, jsDoc = j \<rparr>],
                  isGetter = Some True, isSetter = None \<rparr>))))"
| "handleClassDeclaration_member E f ext (res, ms) (SetAccessor mods n sg start docs) =
     bind_err (resolveReturnType (E ext) sg)
       (\<lambda>ret. bind_err (sequence (map (resolveParameter (E ext)) (sig_parameters sg)))
          (\<lambda>ps. bind_err (getLOC ext start f True)
             (\<lambda>l. bind_err (getJSDocData (E ext) docs)
                (\<lambda>j. Inr (res, Map_set ms n
                   \<lparr> ClassMethod.name = n, loc = l,
                     isPrivate = member_flag mods PrivateKeyword,
                     isProtected = member_flag mods ProtectedKeyword,
                     isStatic = member_flag mods StaticKeyword,
                     isAbstract = member_flag mods AbstractKeyword,
                     jsDoc = j,
                     signatures = [\<lparr> MethodSignature.returnType = ret, typeParameters = None,
                                     parameters = Some ps, loc = l, jsDoc = j \<rparr>],
                     isGetter = None, isSetter = Some True \<rparr>)))))"
| "handleClassDeclaration_member E f ext (res, ms) (ConstructorDeclaration mods ps) =
     bind_err (sequence (map (resolveParameter (E ext)) ps))
       (\<lambda>rs. Inr (res\<lparr> constructor := Some rs \<rparr>, ms))"
| "handleClassDeclaration_member E f ext (res, ms) (OtherClassElement mods) = Inr (res, ms)"

fun handleClassDeclaration_members ::
  "(TypescriptExtractor \<Rightarrow> references) \<Rightarrow> string \<Rightarrow> TypescriptExtractor
     \<Rightarrow> ClassDecl \<times> (string, ClassMethod) jsmap \<Rightarrow> ClassElement list
     \<Rightarrow> error + ClassDecl \<times> (string, ClassMethod) jsmap" where
  "handleClassDeclaration_members E f ext acc [] = Inr acc"
| "handleClassDeclaration_members E f ext acc (el # els) =
     bind_err (handleClassDeclaration_member E f ext acc el)
       (\<lambda>acc'. handleClassDeclaration_members E f ext acc' els)"

text \<open>\<^verbatim>\<open>heritageClauses.find(clause => clause.token === k)\<close>, by the types of the clause found.\<close>

fun find_clause :: "HeritageClause list \<Rightarrow> SyntaxKind \<Rightarrow> ExpressionWithTypeArguments list option" where
  "find_clause [] k = None"
| "find_clause (HeritageClause token tys # cs) k = (if token = k then Some tys else find_clause cs k)"

text \<open>\<^verbatim>\<open>extendsClause && this.resolveHeritage(extendsClause.types[0])\<close>\<close>

definition resolve_extends ::
  "references \<Rightarrow> ExpressionWithTypeArguments list option \<Rightarrow> error + Type option" where
  "resolve_extends R clause =
     (case clause of
        None \<Rightarrow> Inr None
      | Some [] \<Rightarrow> Inl (read_of_undefined ''expression'')
      | Some (t # ts) \<Rightarrow> bind_err (resolveHeritage R t) (\<lambda>r. Inr (Some r)))"

fun ExpressionWithTypeArguments_getText :: "ExpressionWithTypeArguments \<Rightarrow> string" where
  "ExpressionWithTypeArguments_getText (ExpressionWithTypeArguments raw e tas) = raw"

definition handleClassDeclaration ::
  "(TypescriptExtractor \<Rightarrow> references) \<Rightarrow> string \<Rightarrow> TypescriptExtractor \<Rightarrow> string option
     \<Rightarrow> TypeParameterDeclaration list option \<Rightarrow> ClassElement list \<Rightarrow> HeritageClause list option
     \<Rightarrow> error + TypescriptExtractor" where
  "handleClassDeclaration E f ext n tps elems heritage =
     (let key = (case n of None \<Rightarrow> ''export default''
                 | Some t \<Rightarrow> if t = [] then ''export default'' else t) in
      bind_err (module_collection (heap ext) (currentModule ext) ''classes'' ''get'')
        (\<lambda>(a, m).
           bind_err (resolveGenerics_list (E ext) tps)
             (\<lambda>ps. case Map_get (classes m) key of
                None \<Rightarrow> Inl (set_of_undefined ''typeParameters'')
              | Some res0 \<Rightarrow>
                  bind_err (handleClassDeclaration_members E f ext
                              (res0\<lparr> ClassDecl.typeParameters := ps \<rparr>, []) elems)
                    (\<lambda>(res1, ms).
                       let res2 = res1\<lparr> methods := methods res1 @ Map_values ms \<rparr> in
                       bind_err
                         (case heritage of
                            None \<Rightarrow> Inr res2
                          | Some clauses \<Rightarrow>
                              bind_err (resolve_extends (E ext) (find_clause clauses ExtendsKeyword))
                                (\<lambda>ex. bind_err
                                   (sequence_option (map_option
                                      (\<lambda>tys. sequence (map (resolveHeritage (E ext)) tys))
                                      (find_clause clauses ImplementsKeyword)))
                                   (\<lambda>im. Inr (res2\<lparr> ClassDecl.extends := ex,
                                                   ClassDecl.implements := im \<rparr>))))
                         (\<lambda>res3. Inr (store_module ext a
                            (m\<lparr> classes := Map_set (classes m) key res3 \<rparr>)))))))"

definition handleInterfaceDeclaration ::
  "(TypescriptExtractor \<Rightarrow> references) \<Rightarrow> TypescriptExtractor \<Rightarrow> string
     \<Rightarrow> TypeParameterDeclaration list option \<Rightarrow> TypeElement list \<Rightarrow> HeritageClause list option
     \<Rightarrow> error + TypescriptExtractor" where
  "handleInterfaceDeclaration E ext n tps elems heritage =
     bind_err (module_collection (heap ext) (currentModule ext) ''interfaces'' ''get'')
       (\<lambda>(a, m).
          bind_err (resolveGenerics_list (E ext) tps)
            (\<lambda>ps. case Map_get (interfaces m) n of
               None \<Rightarrow> Inl (set_of_undefined ''typeParameters'')
             | Some res0 \<Rightarrow>
                 bind_err (sequence (map (resolveProperty (E ext)) elems))
                   (\<lambda>props.
                      let res1 = res0\<lparr> InterfaceDecl.typeParameters := ps,
                                      InterfaceDecl.properties :=
                                        InterfaceDecl.properties res0 @ props \<rparr> in
                      bind_err
                        (case heritage of
                           None \<Rightarrow> Inr res1
                         | Some clauses \<Rightarrow>
                             bind_err (resolve_extends (E ext) (find_clause clauses ExtendsKeyword))
                               (\<lambda>ex. bind_err
                                  (sequence_option (map_option
                                     (\<lambda>tys. sequence (map
                                        (\<lambda>impl. resolveType (E ext)
                                           (OtherNode ExpressionWithTypeArgumentsKind
                                              (ExpressionWithTypeArguments_getText impl))) tys))
                                     (find_clause clauses ImplementsKeyword)))
                                  (\<lambda>im. Inr (res1\<lparr> InterfaceDecl.extends := ex,
                                                  InterfaceDecl.implements := im \<rparr>))))
                        (\<lambda>res2. Inr (store_module ext a
                           (m\<lparr> interfaces := Map_set (interfaces m) n res2 \<rparr>))))))"

fun visitor :: "(TypescriptExtractor \<Rightarrow> references) \<Rightarrow> string \<Rightarrow> TypescriptExtractor \<Rightarrow> Statement
     \<Rightarrow> error + TypescriptExtractor"
  and visitor_statements ::
    "(TypescriptExtractor \<Rightarrow> references) \<Rightarrow> string \<Rightarrow> TypescriptExtractor \<Rightarrow> Statement list
     \<Rightarrow> error + TypescriptExtractor"
where
  "visitor E f ext (VariableStatement mods decls docs) =
     (if truthy (has_modifier mods ExportKeyword)
      then handleVariableDeclaration E f ext decls docs else Inr ext)"
| "visitor E f ext (ClassDeclaration mods n tps elems heritage start docs) =
     handleClassDeclaration E f ext n tps elems heritage"
| "visitor E f ext (InterfaceDeclaration mods n tps elems heritage start docs) =
     handleInterfaceDeclaration E ext n tps elems heritage"
| "visitor E f ext (FunctionDeclaration mods n sg start docs) =
     (if truthy (has_modifier mods ExportKeyword)
      then handleFunctionDeclaration E f ext n sg start docs else Inr ext)"
| "visitor E f ext (TypeAliasDeclaration mods n ty start docs) = handleTypeDeclaration E ext n ty"
| "visitor E f ext (ModuleDeclaration n (Some body) start) =
     (let currModule = currentModule ext in
      bind_err
        (visitor_statements E f (ext\<lparr> currentModule := Record_get (namespaceCache ext) n \<rparr>) body)
        (\<lambda>ext'. Inr (ext'\<lparr> currentModule := currModule \<rparr>)))"
| "visitor E f ext (ModuleDeclaration n None start) = Inr ext"
| "visitor E f ext (EnumDeclaration mods n elems start docs) = Inr ext"
| "visitor E f ext OtherStatement = Inr ext"
| "visitor_statements E f ext [] = Inr ext"
| "visitor_statements E f ext (stmt # stmts) =
     bind_err (visitor E f ext stmt) (\<lambda>ext'. visitor_statements E f ext' stmts)"

definition runOnFile ::
  "(TypescriptExtractor \<Rightarrow> references) \<Rightarrow> TypescriptExtractor \<Rightarrow> SourceFile
     \<Rightarrow> error + TypescriptExtractor" where
  "runOnFile E ext file =
     visitor_statements E (fileName file)
       (ext\<lparr> currentModule := Record_get (moduleCache ext) (fileName file) \<rparr>)
       (statements file)"

subsection \<open>Serialization\<close>

text \<open>
  The clone \<open>moduleToJSON\<close> returns: the fields of the module, with every map replaced by an
  array. \<open>ModuleJSON name repository isGlobal isNamespace classes interfaces enums types
  functions constants modules\<close>.
\<close>

datatype ModuleJSON =
  ModuleJSON string "string option" bool bool "ClassDecl list" "InterfaceDecl list"
    "EnumDecl list" "TypeDecl list" "FunctionDecl list" "ConstantDecl list" "ModuleJSON list"

fun json_classes :: "ModuleJSON \<Rightarrow> ClassDecl list" where
  "json_classes (ModuleJSON n r g ns cs is es ts fs ks ms) = cs"

fun json_interfaces :: "ModuleJSON \<Rightarrow> InterfaceDecl list" where
  "json_interfaces (ModuleJSON n r g ns cs is es ts fs ks ms) = is"

fun json_enums :: "ModuleJSON \<Rightarrow> EnumDecl list" where
  "json_enums (ModuleJSON n r g ns cs is es ts fs ks ms) = es"

fun json_types :: "ModuleJSON \<Rightarrow> TypeDecl list" where
  "json_types (ModuleJSON n r g ns cs is es ts fs ks ms) = ts"

fun json_functions :: "ModuleJSON \<Rightarrow> FunctionDecl list" where
  "json_functions (ModuleJSON n r g ns cs is es ts fs ks ms) = fs"

fun json_modules :: "ModuleJSON \<Rightarrow> ModuleJSON list" where
  "json_modules (ModuleJSON n r g ns cs is es ts fs ks ms) = ms"

text \<open>
  The results of the recursive calls of a loop, in order: the loop stops at the first
  call that raises, and does not return when a call before that does not return.
\<close>

fun collect :: "('e + 'a) option list \<Rightarrow> ('e + 'a list) option" where
  "collect [] = Some (Inr [])"
| "collect (None # rs) = None"
| "collect (Some (Inl e) # rs) = Some (Inl e)"
| "collect (Some (Inr v) # rs) =
     (case collect rs of
        None \<Rightarrow> None
      | Some (Inl e) \<Rightarrow> Some (Inl e)
      | Some (Inr vs) \<Rightarrow> Some (Inr (v # vs)))"

text \<open>
  \<open>moduleToJSON\<close> recurses through the modules map, which holds references and can lead
  back to the module itself. The first argument bounds the depth of the recursion: the
  result is \<open>None\<close> when the bound is reached, so a call that recurses without end has the
  result \<open>None\<close> for every bound.
\<close>

fun moduleToJSON :: "nat \<Rightarrow> Module list \<Rightarrow> modref \<Rightarrow> (error + ModuleJSON) option" where
  "moduleToJSON 0 h r = None"
| "moduleToJSON (Suc n) h r =
     (case module_collection h (Some r) ''classes'' ''values'' of
        Inl e \<Rightarrow> Some (Inl e)
      | Inr (a, m) \<Rightarrow>
          (case collect (map (\<lambda>(k, c). moduleToJSON n h c) (modules m)) of
             None \<Rightarrow> None
           | Some (Inl e) \<Rightarrow> Some (Inl e)
           | Some (Inr ms) \<Rightarrow>
               Some (Inr (ModuleJSON (Module.name m) (repository m) (isGlobal m) (isNamespace m)
                 (Map_values (classes m)) (Map_values (interfaces m)) (Map_values (enums m))
                 (Map_values (types m)) (Map_values (functions m)) (constants m) ms))))"

section \<open>Notions used in the statements\<close>

text \<open>The name of an enum member node, and the initializer texts of a declaration list.\<close>

fun EnumMemberNode_name :: "EnumMemberNode \<Rightarrow> string" where
  "EnumMemberNode_name (EnumMemberNode n init start) = n"

fun initializer_texts :: "VariableDeclaration list \<Rightarrow> string list" where
  "initializer_texts [] = []"
| "initializer_texts (VariableDeclaration n start ty None # ds) = initializer_texts ds"
| "initializer_texts (VariableDeclaration n start ty (Some txt) # ds) = txt # initializer_texts ds"

text \<open>
  For the examples: a reference index that resolves no symbol, an extractor whose root
  module is empty and has no repository, the start of a line, and the signature of a
  function without parameters that returns \<^verbatim>\<open>void\<close>.
\<close>

definition no_references :: "TypescriptExtractor \<Rightarrow> references" where
  "no_references ext =
     \<lparr> references_resolveSymbol = (\<lambda>s m. None), references_isDefault = (\<lambda>t. False) \<rparr>"

definition example_extractor :: TypescriptExtractor where
  "example_extractor =
     \<lparr> heap = [createModule ''root'' True None False], module = 0, baseDir = ''src'',
       currentModule = Some (ModuleObj 0), moduleCache = [], namespaceCache = [] \<rparr>"

definition line_start :: "nat \<Rightarrow> LineAndCharacter" where
  "line_start n = \<lparr> line = n, character = 0 \<rparr>"

definition example_signature :: SignatureNode where
  "example_signature =
     \<lparr> sig_typeParameters = None, sig_parameters = [],
       sig_type = Some (OtherNode VoidKeyword ''void''), sig_inferred = None \<rparr>"

text \<open>
  For the statements about \<open>moduleToJSON\<close>. The Module objects below a root are described
  by a tree of addresses: \<open>ModuleTree a ts\<close> is the Module object at the address \<open>a\<close> with
  the trees \<open>ts\<close> of the modules of its modules map. \<open>tree_in_heap h t\<close>: in the heap \<open>h\<close>
  every address of \<open>t\<close> is a Module object, and the values of its modules map are, in the
  order of the map, the roots of the trees below it. A Module object may occur at several
  places of such a tree; it occurs once when the \<open>addresses\<close> are distinct. \<open>depth\<close> is the
  number of Module objects on the longest path.
\<close>

datatype ModuleTree = ModuleTree nat "ModuleTree list"

fun root :: "ModuleTree \<Rightarrow> nat" where
  "root (ModuleTree a ts) = a"

fun addresses :: "ModuleTree \<Rightarrow> nat list" where
  "addresses (ModuleTree a ts) = a # concat (map addresses ts)"

fun depth :: "ModuleTree \<Rightarrow> nat" where
  "depth (ModuleTree a ts) = Suc (foldr max (map depth ts) 0)"

fun tree_in_heap :: "Module list \<Rightarrow> ModuleTree \<Rightarrow> bool" where
  "tree_in_heap h (ModuleTree a ts) \<longleftrightarrow>
     a < length h \<and>
     map snd (modules (h ! a)) = map (\<lambda>t. ModuleObj (root t)) ts \<and>
     list_all (tree_in_heap h) ts"

text \<open>The number of elements of the arrays of a serialized module, at every depth.\<close>

fun count_JSON :: "ModuleJSON \<Rightarrow> nat" where
  "count_JSON (ModuleJSON n r g ns cs is es ts fs ks ms) =
     length cs + length is + length es + length ts + length fs + length ms +
     sum_list (map count_JSON ms)"

text \<open>
  The number of entries of the six maps of a Module object, and the number of entries of
  the maps of the Module objects at the addresses \<open>as\<close>, every object counted once.
\<close>

definition map_entries :: "Module \<Rightarrow> nat" where
  "map_entries m =
     length (classes m) + length (interfaces m) + length (enums m) + length (types m) +
     length (functions m) + length (modules m)"

definition count_declarations :: "Module list \<Rightarrow> nat list \<Rightarrow> nat" where
  "count_declarations h as = sum_list (map (\<lambda>a. map_entries (h ! a)) (remdups as))"

text \<open>
  Following the specification: the Module object at the root of a tree with every map
  replaced by the array of its values, the modules map by the array of the trees below
  it, serialized in the same way.
\<close>

fun json_of :: "Module list \<Rightarrow> ModuleTree \<Rightarrow> ModuleJSON" where
  "json_of h (ModuleTree a ts) =
     ModuleJSON (Module.name (h ! a)) (repository (h ! a)) (isGlobal (h ! a)) (isNamespace (h ! a))
       (Map_values (classes (h ! a))) (Map_values (interfaces (h ! a))) (Map_values (enums (h ! a)))
       (Map_values (types (h ! a))) (Map_values (functions (h ! a))) (constants (h ! a))
       (map (json_of h) ts)"

text \<open>
  For the statements about the order of the two phases. The lookup of
  \<open>handleTypeDeclaration\<close> fails with its own error, \<open>lookup_failure\<close>; the type resolver
  raises \<open>resolver_error\<close>s only.
\<close>

definition resolver_error :: "error \<Rightarrow> bool" where
  "resolver_error e = (e = read_of_undefined ''type'' \<or> e = read_of_undefined ''kind'')"

definition lookup_failure :: error where
  "lookup_failure = set_of_undefined ''value''"

text \<open>\<open>safe r\<close>: the computation did not raise the error of the failed skeleton lookup.\<close>

definition safe :: "error + 'a \<Rightarrow> bool" where
  "safe r = (r \<noteq> Inl lookup_failure)"

text \<open>
  \<open>frame ext ext'\<close>: the step from \<open>ext\<close> to \<open>ext'\<close> created no module, left the current
  module and the caches as they were, and left the keys of every types map as they were.
\<close>

definition frame :: "TypescriptExtractor \<Rightarrow> TypescriptExtractor \<Rightarrow> bool" where
  "frame ext ext' \<longleftrightarrow>
     length (heap ext') = length (heap ext) \<and>
     currentModule ext' = currentModule ext \<and>
     namespaceCache ext' = namespaceCache ext \<and>
     moduleCache ext' = moduleCache ext \<and>
     (\<forall>a < length (heap ext). map fst (types (heap ext' ! a)) = map fst (types (heap ext ! a)))"

text \<open>
  \<open>prepared ext cur stmt\<close>: for every type alias of the statement, also inside namespace
  blocks, the types map of the module the Visit phase will be in has an entry under the
  name of the alias; \<open>cur\<close> is the current module at the statement.
\<close>

fun prepared :: "TypescriptExtractor \<Rightarrow> modref option \<Rightarrow> Statement \<Rightarrow> bool"
  and prepared_statements :: "TypescriptExtractor \<Rightarrow> modref option \<Rightarrow> Statement list \<Rightarrow> bool"
where
  "prepared ext cur (TypeAliasDeclaration mods n ty start docs) =
     (case cur of
        Some (ModuleObj a) \<Rightarrow> a < length (heap ext) \<and> Map_has (types (heap ext ! a)) n
      | _ \<Rightarrow> False)"
| "prepared ext cur (ModuleDeclaration n (Some body) start) =
     prepared_statements ext (Record_get (namespaceCache ext) n) body"
| "prepared ext cur (ModuleDeclaration n None start) = True"
| "prepared ext cur (VariableStatement mods decls docs) = True"
| "prepared ext cur (ClassDeclaration mods n tps elems heritage start docs) = True"
| "prepared ext cur (InterfaceDeclaration mods n tps elems heritage start docs) = True"
| "prepared ext cur (FunctionDeclaration mods n sg start docs) = True"
| "prepared ext cur (EnumDeclaration mods n elems start docs) = True"
| "prepared ext cur OtherStatement = True"
| "prepared_statements ext cur [] = True"
| "prepared_statements ext cur (stmt # stmts) =
     (prepared ext cur stmt \<and> prepared_statements ext cur stmts)"

text \<open>\<open>framed ext r\<close>: when the computation returns an extractor, the step from \<open>ext\<close> is a frame.\<close>

definition framed :: "TypescriptExtractor \<Rightarrow> error + TypescriptExtractor \<Rightarrow> bool" where
  "framed ext r = (\<forall>ext'. r = Inr ext' \<longrightarrow> frame ext ext')"

text \<open>
  \<open>grow ext ext'\<close>: from \<open>ext\<close> to \<open>ext'\<close> the modules of the heap are still there, no types
  map lost a key, and no name of the namespace cache changed its value.
\<close>

definition grow :: "TypescriptExtractor \<Rightarrow> TypescriptExtractor \<Rightarrow> bool" where
  "grow ext ext' \<longleftrightarrow>
     length (heap ext) \<le> length (heap ext') \<and>
     (\<forall>a < length (heap ext).
        set (map fst (types (heap ext ! a))) \<subseteq> set (map fst (types (heap ext' ! a)))) \<and>
     (\<forall>n v. Record_get (namespaceCache ext) n = Some v \<longrightarrow>
        Record_get (namespaceCache ext') n = Some v)"

text \<open>
  A call of one of the two methods a driver runs on a file, and a sequence of such calls
  on one extractor, which ends at the first call that raises.
\<close>

datatype call = RunPreparerOnFile SourceFile | RunOnFile SourceFile

fun run_call ::
  "(TypescriptExtractor \<Rightarrow> references) \<Rightarrow> TypescriptExtractor \<Rightarrow> call \<Rightarrow> error + TypescriptExtractor" where
  "run_call E ext (RunPreparerOnFile file) = runPreparerOnFile E ext file"
| "run_call E ext (RunOnFile file) = runOnFile E ext file"

fun run_calls ::
  "(TypescriptExtractor \<Rightarrow> references) \<Rightarrow> TypescriptExtractor \<Rightarrow> call list
     \<Rightarrow> error + TypescriptExtractor" where
  "run_calls E ext [] = Inr ext"
| "run_calls E ext (c # cs) = bind_err (run_call E ext c) (\<lambda>ext'. run_calls E ext' cs)"

text \<open>\<open>prepares n c\<close>: the call runs the Prepare phase on a file named \<open>n\<close>.\<close>

fun prepares :: "string \<Rightarrow> call \<Rightarrow> bool" where
  "prepares n (RunPreparerOnFile file) = (fileName file = n)"
| "prepares n (RunOnFile file) = False"

text \<open>
  The file \<^verbatim>\<open>src/a.ts\<close> with \<^verbatim>\<open>type A = number\<close> and
  \<^verbatim>\<open>namespace N { type B = string }\<close>.
\<close>

definition example_file :: SourceFile where
  "example_file =
     \<lparr> fileName = ''src/a.ts'',
       statements =
         [TypeAliasDeclaration None ''A'' (OtherNode NumberKeyword ''number'') (line_start 0) [],
          ModuleDeclaration ''N''
            (Some [TypeAliasDeclaration None ''B'' (OtherNode StringKeyword ''string'')
                     (line_start 2) []])
            (line_start 1)] \<rparr>"

text \<open>The file \<^verbatim>\<open>src/lib/b.ts\<close> with \<^verbatim>\<open>type A = string\<close>.\<close>

definition example_other_file :: SourceFile where
  "example_other_file =
     \<lparr> fileName = ''src/lib/b.ts'',
       statements =
         [TypeAliasDeclaration None ''A'' (OtherNode StringKeyword ''string'') (line_start 0) []] \<rparr>"

text \<open>
  The file \<^verbatim>\<open>src/lib/b.ts\<close> with \<^verbatim>\<open>namespace N { type C = string }\<close> on two lines, and the
  file \<^verbatim>\<open>src/a.ts\<close> with \<^verbatim>\<open>namespace N { namespace N { } }\<close>.
\<close>

definition example_shared_file :: SourceFile where
  "example_shared_file =
     \<lparr> fileName = ''src/lib/b.ts'',
       statements =
         [ModuleDeclaration ''N''
            (Some [TypeAliasDeclaration None ''C'' (OtherNode StringKeyword ''string'')
                     (line_start 1) []])
            (line_start 0)] \<rparr>"

definition example_nested_file :: SourceFile where
  "example_nested_file =
     \<lparr> fileName = ''src/a.ts'',
       statements =
         [ModuleDeclaration ''N'' (Some [ModuleDeclaration ''N'' (Some []) (line_start 1)])
            (line_start 0)] \<rparr>"

text \<open>
  The skeleton of a type alias: its name, the line it starts on and its locator. The
  heap with the root module, the namespace \<^verbatim>\<open>N\<close> and the module \<^verbatim>\<open>lib\<close>, where \<^verbatim>\<open>N\<close> is in the
  modules maps of both others, and its serialized form. The heap with the root module
  and a namespace \<^verbatim>\<open>N\<close> that is in its own modules map.
\<close>

definition example_type :: "string \<Rightarrow> nat \<Rightarrow> string option \<Rightarrow> TypeDecl" where
  "example_type n l s =
     \<lparr> TypeDecl.name = n, loc = \<lparr> pos = line_start l, sourceFile = s \<rparr>, jsDoc = None,
       isExported = None, value_type = None \<rparr>"

definition example_shared_heap :: "Module list" where
  "example_shared_heap =
     [(createModule ''root'' True None False)
        \<lparr> types := [(''A'', example_type ''A'' 0 None)],
          modules := [(''N'', ModuleObj 1), (''lib'', ModuleObj 2)] \<rparr>,
      (createModule ''N'' False None True)
        \<lparr> types := [(''B'', example_type ''B'' 2 (Some ''undefined#L3'')),
                    (''C'', example_type ''C'' 1 (Some ''undefined#L2''))] \<rparr>,
      (createModule ''lib'' False (Some ''undefined/lib'') False)
        \<lparr> modules := [(''N'', ModuleObj 1)] \<rparr>]"

definition example_namespace_JSON :: ModuleJSON where
  "example_namespace_JSON =
     ModuleJSON ''N'' None False True [] [] []
       [example_type ''B'' 2 (Some ''undefined#L3''), example_type ''C'' 1 (Some ''undefined#L2'')]
       [] [] []"

definition example_shared_JSON :: ModuleJSON where
  "example_shared_JSON =
     ModuleJSON ''root'' None True False [] [] [] [example_type ''A'' 0 None] [] []
       [example_namespace_JSON,
        ModuleJSON ''lib'' (Some ''undefined/lib'') False False [] [] [] [] [] []
          [example_namespace_JSON]]"

definition example_nested_heap :: "Module list" where
  "example_nested_heap =
     [(createModule ''root'' True None False) \<lparr> modules := [(''N'', ModuleObj 1)] \<rparr>,
      (createModule ''N'' False None True) \<lparr> modules := [(''N'', ModuleObj 1)] \<rparr>]"

section \<open>Properties\<close>

subsection \<open>Auxiliary facts\<close>

lemma bind_err_Inr_iff: "bind_err r g = Inr y \<longleftrightarrow> (\<exists>v. r = Inr v \<and> g v = Inr y)"
  by (cases r) (simp_all add: bind_err_def)

lemma bind_err_Inl_iff: "bind_err r g = Inl e \<longleftrightarrow> r = Inl e \<or> (\<exists>v. r = Inr v \<and> g v = Inl e)"
  by (cases r) (simp_all add: bind_err_def)

lemma bind_err_simps [simp]: "bind_err (Inl e) g = Inl e" "bind_err (Inr v) g = g v"
  by (simp_all add: bind_err_def)

lemma lastIndexOf_absent: "c \<notin> set s \<Longrightarrow> lastIndexOf s c = - 1"
  by (induction s) (auto simp: Let_def)

lemma getLastItemFromPath_no_backslash:
  "backslash \<notin> set p \<Longrightarrow> getLastItemFromPath p 1 = p"
  by (simp add: getLastItemFromPath_def substring_def lastIndexOf_absent)

lemma number_toString_small: "n < 10 \<Longrightarrow> number_toString n = [digit_char n]"
  by (cases n) (simp_all add: number_toString_def)

lemma module_fields_Module:
  "a < length h \<Longrightarrow> module_fields h (Some (ModuleObj a)) p = Inr (Some (a, h ! a))"
  by (simp add: module_fields_def)

lemma module_collection_Module:
  "a < length h \<Longrightarrow> module_collection h (Some (ModuleObj a)) p g = Inr (a, h ! a)"
  by (simp add: module_collection_def module_fields_Module)

lemma module_collection_Inr:
  "module_collection h r p g = Inr (a, m) \<Longrightarrow> r = Some (ModuleObj a) \<and> a < length h \<and> m = h ! a"
  by (auto simp: module_collection_def module_fields_def bind_err_Inr_iff
           split: option.splits modref.splits if_splits)

lemma Map_get_set: "Map_get (Map_set m k v) k' = (if k' = k then Some v else Map_get m k')"
  by (simp add: Map_get_def Map_set_def update_conv')

lemma Map_set_keys:
  "map fst (Map_set m k v) = (if k \<in> set (map fst m) then map fst m else map fst m @ [k])"
  by (simp add: Map_set_def update_keys)

lemma Map_get_Some_key: "Map_get m k = Some v \<Longrightarrow> k \<in> set (map fst m)"
  by (auto simp: Map_get_def dest: map_of_SomeD intro: rev_image_eqI)

lemma Map_get_None_key: "Map_get m k = None \<longleftrightarrow> k \<notin> set (map fst m)"
  by (simp add: Map_get_def map_of_eq_None_iff)

lemma heap_store_module [simp]:
  "heap (store_module ext a m) = (heap ext)[a := m]"
  "currentModule (store_module ext a m) = currentModule ext"
  "namespaceCache (store_module ext a m) = namespaceCache ext"
  "moduleCache (store_module ext a m) = moduleCache ext"
  "module (store_module ext a m) = module ext"
  "baseDir (store_module ext a m) = baseDir ext"
  by (simp_all add: store_module_def)

lemma sequence_map_Inr: "sequence (map Inr vs) = Inr vs"
  by (induction vs) simp_all

lemma sequence_Inr_D: "sequence rs = Inr vs \<Longrightarrow> rs = map Inr vs"
proof (induction rs arbitrary: vs)
  case Nil
  then show ?case by simp
next
  case (Cons r rs)
  from Cons.prems obtain v vs' where "r = Inr v" "sequence rs = Inr vs'" "vs = v # vs'"
    by (simp split: sum.splits)
  with Cons.IH [of vs'] show ?case by simp
qed

lemma sequence_Inr_iff: "sequence rs = Inr vs \<longleftrightarrow> rs = map Inr vs"
  using sequence_Inr_D sequence_map_Inr by blast

lemma sequence_Inl_D: "sequence rs = Inl e \<Longrightarrow> Inl e \<in> set rs"
  by (induction rs) (auto split: sum.splits)

lemma sequence_option_Inr_iff:
  "sequence_option r = Inr v \<longleftrightarrow> r = map_option Inr v"
  by (cases r; cases v) (auto split: sum.splits)

lemma sequence_option_Inl_D: "sequence_option r = Inl e \<Longrightarrow> r = Some (Inl e)"
  by (cases r) (auto split: sum.splits)

lemma preparer_member_name:
  "preparer_member E f ext el = Inr m \<Longrightarrow> EnumMember.name m = EnumMemberNode_name el"
  by (cases el) (auto simp: bind_err_Inr_iff)

lemma preparer_members_names:
  "sequence (map (preparer_member E f ext) elems) = Inr ms \<Longrightarrow>
     map EnumMember.name ms = map EnumMemberNode_name elems"
proof (induction elems arbitrary: ms)
  case Nil
  then show ?case by simp
next
  case (Cons el elems)
  from Cons.prems obtain v vs where v: "preparer_member E f ext el = Inr v"
    and vs: "sequence (map (preparer_member E f ext) elems) = Inr vs" and ms: "ms = v # vs"
    by (simp split: sum.splits)
  show ?case
    using preparer_member_name [OF v] Cons.IH [OF vs] by (simp add: ms)
qed
lemma slice_prefix: "slice s 0 (int k) = take k s"
  by (simp add: slice_def slice_index_def Let_def min_def)

lemma slice_256: "slice s 0 256 = take 256 s"
  using slice_prefix [of s 256] by simp

lemma constant_content_eq:
  "constant_content txt = (if length txt \<le> 256 then txt else take 256 txt @ ''...'')"
  by (simp add: constant_content_def slice_256)

lemma constant_content_length: "length (constant_content txt) \<le> 259"
  by (simp add: constant_content_eq)

lemma handleVariableDeclaration_loop_content:
  "handleVariableDeclaration_loop E f ext docs decls = Inr cs \<Longrightarrow>
     map ConstantDecl.content cs = map constant_content (initializer_texts decls)"
proof (induction E f ext docs decls arbitrary: cs rule: handleVariableDeclaration_loop.induct)
  case (1 E f ext docs)
  then show ?case by simp
next
  case (2 E f ext docs n start ty ds)
  then show ?case by simp
next
  case (3 E f ext docs n start ty s ds)
  from "3.prems" obtain rest where
    rest: "handleVariableDeclaration_loop E f ext docs ds = Inr rest"
    and cs: "map ConstantDecl.content cs = constant_content s # map ConstantDecl.content rest"
    by (auto simp: bind_err_Inr_iff)
  from "3.IH" [OF rest] cs show ?case by simp
qed

lemmas example_simps =
  example_extractor_def line_start_def createModule_def module_collection_def module_fields_def
  getLOC_def getJSDocData_def store_module_def Map_set_def Map_get_def default_name_def
  has_modifier_def truthy_def

subsection \<open>The fallback of the type resolver\<close>

text \<open>
  C1. A node that none of the type guards of \<open>resolveType\<close> recognises, and whose kind is
  none of the kinds named in the final switch, is resolved without an error to the
  stringified-unknown type whose name is the raw source text of the node.
\<close>

theorem resolveType_fallback:
  "k \<notin> {NumberKeyword, StringKeyword, BooleanKeyword, TrueKeyword, FalseKeyword,
          UndefinedKeyword, NullKeyword, VoidKeyword, AnyKeyword, UnknownKeyword,
          BigIntLiteral, NumericLiteral, StringLiteral}
   \<Longrightarrow> resolveType R (OtherNode k raw) = Inr (BasicType (Some raw) TypeKinds_STRINGIFIED_UNKNOWN)"
  by (cases k) simp_all

theorem resolveType_fallback_witness:
  "OtherKind 0 \<notin> {NumberKeyword, StringKeyword, BooleanKeyword, TrueKeyword, FalseKeyword,
          UndefinedKeyword, NullKeyword, VoidKeyword, AnyKeyword, UnknownKeyword,
          BigIntLiteral, NumericLiteral, StringLiteral}
   \<and> resolveType \<lparr> references_resolveSymbol = (\<lambda>s m. None), references_isDefault = (\<lambda>t. False) \<rparr>
         (OtherNode (OtherKind 0) ''A extends B ? C : D'')
       = Inr (BasicType (Some ''A extends B ? C : D'') TypeKinds_STRINGIFIED_UNKNOWN)"
  using resolveType_fallback [of "OtherKind 0"
      "\<lparr> references_resolveSymbol = (\<lambda>s m. None), references_isDefault = (\<lambda>t. False) \<rparr>"
      "''A extends B ? C : D''"]
  by simp

subsection \<open>Locations\<close>

text \<open>
  C8. The specification says that the locator is absent whenever the current module has
  no repository, also when the current module is a namespace. The namespace branch of
  \<open>getLOC\<close> does not test the repository: for a namespace without a repository the
  locator is the text \<^verbatim>\<open>undefined#L1\<close> on the first line. The Prepare phase reaches that
  branch: in the example file the type alias of the top level has no locator, while the
  one inside the namespace \<^verbatim>\<open>N\<close> gets the locator \<^verbatim>\<open>undefined#L3\<close>.
\<close>

theorem getLOC_namespace_without_repository:
  "getLOC \<lparr> heap = [createModule ''root'' False None False, createModule ''N'' False None True],
            module = 0, baseDir = ''src'', currentModule = Some (ModuleObj 1),
            moduleCache = [], namespaceCache = [(''N'', ModuleObj 1)] \<rparr>
     \<lparr> line = 0, character = 0 \<rparr> ''src/a.ts'' True =
   Inr \<lparr> pos = \<lparr> line = 0, character = 0 \<rparr>, sourceFile = Some ''undefined#L1'' \<rparr> \<and>
   (\<exists>ext1. runPreparerOnFile E example_extractor example_file = Inr ext1 \<and>
      map (\<lambda>(k, m). (k, map (\<lambda>(n, d). (n, sourceFile (TypeDecl.loc d))) (types m)))
        (zip [0 ..< 2] (heap ext1)) =
      [(0, [(''A'', None)]), (1, [(''B'', Some ''undefined#L3'')])])"
  by (simp add: runPreparerOnFile_def moduleFromFile_def example_file_def slice_from_def
        slice_index_def Record_set_def Record_get_def Object_prototype_keys_def template_def
        line_suffix_def number_toString_small digit_char_def upt_rec example_simps)

text \<open>
  C9. A path without a backslash is returned unchanged by \<open>getLastItemFromPath\<close> with
  offset 1, so for a module that is not a namespace and has a non-empty repository the
  locator is the repository, a slash, the whole file name, and the line suffix when it
  is asked for.
\<close>

theorem getLastItemFromPath_forward_slashes:
  "backslash \<notin> set p \<Longrightarrow>
     getLastItemFromPath p 1 = p \<and>
     (currentModule ext = Some (ModuleObj a) \<and> a < length (heap ext) \<and>
      \<not> isNamespace (heap ext ! a) \<and> repository (heap ext ! a) = Some r \<and> r \<noteq> []
      \<longrightarrow> getLOC ext q p includeLine =
            Inr \<lparr> pos = q,
                  sourceFile = Some (r @ ''/'' @ p @ (if includeLine then line_suffix q else [])) \<rparr>)"
  by (simp add: getLastItemFromPath_no_backslash getLOC_def module_fields_Module)

theorem getLastItemFromPath_forward_slashes_witness:
  "backslash \<notin> set ''src/lib/a.ts'' \<and>
   getLastItemFromPath ''src/lib/a.ts'' 1 = ''src/lib/a.ts'' \<and>
   getLOC \<lparr> heap = [createModule ''lib'' False (Some ''https://example.org/repo/lib'') False],
            module = 0, baseDir = ''src'', currentModule = Some (ModuleObj 0),
            moduleCache = [], namespaceCache = [] \<rparr>
     \<lparr> line = 4, character = 0 \<rparr> ''src/lib/a.ts'' True =
   Inr \<lparr> pos = \<lparr> line = 4, character = 0 \<rparr>,
         sourceFile = Some ''https://example.org/repo/lib/src/lib/a.ts#L5'' \<rparr>"
proof -
  let ?ext = "\<lparr> heap = [createModule ''lib'' False (Some ''https://example.org/repo/lib'') False],
            module = 0, baseDir = ''src'', currentModule = Some (ModuleObj 0),
            moduleCache = [], namespaceCache = [] \<rparr>"
  have nb: "backslash \<notin> set ''src/lib/a.ts''"
    by (simp add: backslash_def)
  have sfx: "line_suffix \<lparr> line = 4, character = 0 \<rparr> = ''#L5''"
    by (simp add: line_suffix_def number_toString_small digit_char_def)
  from getLastItemFromPath_forward_slashes [OF nb, of ?ext 0 "''https://example.org/repo/lib''"
      "\<lparr> line = 4, character = 0 \<rparr>" True] nb sfx
  show ?thesis
    by (simp add: createModule_def)
qed

subsection \<open>Skeletons of the Prepare phase\<close>

text \<open>
  C10. When the Prepare phase has processed a class declaration, the entry of the classes
  map under the name of the class (\<^verbatim>\<open>export default\<close> for a class without a name) is the
  new skeleton: no type parameters, properties or methods, a single location, the flags
  of this declaration. It does not depend on an entry that was there before; the other
  entries are unchanged, and when the name was present the keys and their order are
  unchanged.
\<close>

theorem preparer_class_overwrites:
  assumes "preparer E f ext (ClassDeclaration mods n tps elems heritage start docs) = Inr ext'"
  shows "\<exists>a l j. currentModule ext = Some (ModuleObj a) \<and> a < length (heap ext) \<and>
     getLOC ext start f True = Inr l \<and> getJSDocData (E ext) docs = Inr j \<and>
     Map_get (classes (heap ext' ! a)) (default_name n) =
       Some \<lparr> ClassDecl.name = default_name n, typeParameters = Some [], properties = [],
              methods = [], loc = l, constructor = None,
              isAbstract = has_modifier mods AbstractKeyword, jsDoc = j,
              isExported = has_modifier mods ExportKeyword, extends = None, implements = None \<rparr> \<and>
     (\<forall>k. k \<noteq> default_name n \<longrightarrow>
        Map_get (classes (heap ext' ! a)) k = Map_get (classes (heap ext ! a)) k) \<and>
     (Map_has (classes (heap ext ! a)) (default_name n) \<longrightarrow>
        map fst (classes (heap ext' ! a)) = map fst (classes (heap ext ! a)))"
proof -
  from assms obtain a m l j where
    mc: "module_collection (heap ext) (currentModule ext) ''classes'' ''set'' = Inr (a, m)"
    and l: "getLOC ext start f True = Inr l"
    and j: "getJSDocData (E ext) docs = Inr j"
    and ext': "ext' = store_module ext a
                (m\<lparr> classes := Map_set (classes m) (default_name n)
                     \<lparr> ClassDecl.name = default_name n, typeParameters = Some [], properties = [],
                       methods = [], loc = l, constructor = None,
                       isAbstract = has_modifier mods AbstractKeyword, jsDoc = j,
                       isExported = has_modifier mods ExportKeyword, extends = None,
                       implements = None \<rparr> \<rparr>)"
    by (auto simp: bind_err_Inr_iff)
  from module_collection_Inr [OF mc]
  have cur: "currentModule ext = Some (ModuleObj a)" and a: "a < length (heap ext)"
    and m: "m = heap ext ! a"
    by simp_all
  have keys: "Map_has (classes m) (default_name n) \<Longrightarrow>
      map fst (Map_set (classes m) (default_name n) v) = map fst (classes m)" for v
    by (simp add: Map_set_keys Map_has_def Map_get_None_key [unfolded Map_get_def])
  show ?thesis
    using cur a l j keys unfolding ext' m
    by (intro exI [of _ a] exI [of _ l] exI [of _ j]) (simp add: Map_get_set)
qed

theorem preparer_class_overwrites_witness:
  "\<exists>ext1 ext2.
     preparer no_references ''src/a.ts'' example_extractor
       (ClassDeclaration (Some [ExportKeyword]) (Some ''Foo'') None [] None (line_start 1) []) = Inr ext1 \<and>
     preparer no_references ''src/a.ts'' ext1
       (ClassDeclaration None (Some ''Foo'') None [] None (line_start 9) []) = Inr ext2 \<and>
     map (\<lambda>(k, c). (k, line (pos (ClassDecl.loc c)), ClassDecl.isExported c)) (classes (heap ext1 ! 0))
       = [(''Foo'', 1, Some True)] \<and>
     map (\<lambda>(k, c). (k, line (pos (ClassDecl.loc c)), ClassDecl.isExported c)) (classes (heap ext2 ! 0))
       = [(''Foo'', 9, None)]"
proof -
  let ?c1 = "ClassDeclaration (Some [ExportKeyword]) (Some ''Foo'') None [] None (line_start 1) []"
  let ?c2 = "ClassDeclaration None (Some ''Foo'') None [] None (line_start 9) []"
  have "\<exists>ext1. preparer no_references ''src/a.ts'' example_extractor ?c1 = Inr ext1"
    by (simp add: example_simps)
  then obtain ext1 where e1: "preparer no_references ''src/a.ts'' example_extractor ?c1 = Inr ext1" ..
  from e1 have ext1: "ext1 = example_extractor
      \<lparr> heap := [(createModule ''root'' True None False)
          \<lparr> classes := [(''Foo'',
               \<lparr> ClassDecl.name = ''Foo'', typeParameters = Some [], properties = [],
                 methods = [], loc = \<lparr> pos = line_start 1, sourceFile = None \<rparr>, constructor = None,
                 isAbstract = Some False, jsDoc = None, isExported = Some True, extends = None,
                 implements = None \<rparr>)] \<rparr>] \<rparr>"
    by (simp add: example_simps)
  have "\<exists>ext2. preparer no_references ''src/a.ts'' ext1 ?c2 = Inr ext2"
    by (simp add: ext1 example_simps)
  then obtain ext2 where e2: "preparer no_references ''src/a.ts'' ext1 ?c2 = Inr ext2" ..
  have l: "getLOC ext1 (line_start 9) ''src/a.ts'' True = Inr \<lparr> pos = line_start 9, sourceFile = None \<rparr>"
    by (simp add: ext1 example_simps)
  from preparer_class_overwrites [OF e2] l
  have "Map_get (classes (heap ext2 ! 0)) ''Foo'' =
      Some \<lparr> ClassDecl.name = ''Foo'', typeParameters = Some [], properties = [],
             methods = [], loc = \<lparr> pos = line_start 9, sourceFile = None \<rparr>, constructor = None,
             isAbstract = None, jsDoc = None, isExported = None, extends = None,
             implements = None \<rparr>"
    and "map fst (classes (heap ext2 ! 0)) = map fst (classes (heap ext1 ! 0))"
    by (auto simp: ext1 example_simps Map_has_def)
  then have "map (\<lambda>(k, c). (k, line (pos (ClassDecl.loc c)), ClassDecl.isExported c)) (classes (heap ext2 ! 0))
       = [(''Foo'', 9, None)]"
    by (cases "classes (heap ext2 ! 0)") (auto simp: ext1 example_simps)
  with e1 e2 show ?thesis
    by (intro exI [of _ ext1] exI [of _ ext2]) (simp add: ext1 example_simps)
qed

text \<open>
  C3. When the Prepare phase processes an enum declaration whose name has an entry in the
  enums map of the current module, the entry stays where it is, the location of the
  new declaration is appended to its locations and the members of the new declaration,
  in order and under their names, are appended to its members. The witness is the enum
  \<^verbatim>\<open>Color\<close> declared with \<^verbatim>\<open>Red\<close> and then with \<^verbatim>\<open>Blue\<close>: one entry, members
  \<^verbatim>\<open>Red\<close>, \<^verbatim>\<open>Blue\<close>, two locations.
\<close>

theorem preparer_enum_merges:
  assumes "preparer E f ext (EnumDeclaration mods n elems start docs) = Inr ext'"
    and "currentModule ext = Some (ModuleObj a)"
    and "Map_get (enums (heap ext ! a)) n = Some existing"
  shows "\<exists>l ms. getLOC ext start f True = Inr l \<and>
     sequence (map (preparer_member E f ext) elems) = Inr ms \<and>
     map EnumMember.name ms = map EnumMemberNode_name elems \<and>
     Map_get (enums (heap ext' ! a)) n =
       Some (existing\<lparr> EnumDecl.loc := EnumDecl.loc existing @ [l],
                       members := members existing @ ms \<rparr>) \<and>
     map fst (enums (heap ext' ! a)) = map fst (enums (heap ext ! a))"
proof -
  from assms(1) obtain a' m where
    mc: "module_collection (heap ext) (currentModule ext) ''enums'' ''get'' = Inr (a', m)"
    by (auto simp: bind_err_Inr_iff)
  from module_collection_Inr [OF mc] assms(2)
  have a: "a < length (heap ext)" and m: "m = heap ext ! a" and a': "a' = a"
    by simp_all
  from assms(1) mc assms(3) obtain l ms where
    l: "getLOC ext start f True = Inr l"
    and ms: "sequence (map (preparer_member E f ext) elems) = Inr ms"
    and ext': "ext' = store_module ext a
        (m\<lparr> enums := Map_set (enums m) n
             (existing\<lparr> EnumDecl.loc := EnumDecl.loc existing @ [l],
                        members := members existing @ ms \<rparr>) \<rparr>)"
    by (auto simp: bind_err_Inr_iff m a')
  have "n \<in> set (map fst (enums m))"
    using assms(3) m by (auto dest: Map_get_Some_key)
  then show ?thesis
    using a l ms preparer_members_names [OF ms] unfolding ext' m
    by (intro exI [of _ l] exI [of _ ms]) (simp add: Map_get_set Map_set_keys)
qed

theorem preparer_enum_merges_witness:
  "\<exists>ext1 ext2.
     preparer no_references ''src/a.ts'' example_extractor
       (EnumDeclaration None ''Color'' [EnumMemberNode ''Red'' None (line_start 1)] (line_start 0) [])
       = Inr ext1 \<and>
     currentModule ext1 = Some (ModuleObj 0) \<and>
     Map_get (enums (heap ext1 ! 0)) ''Color'' \<noteq> None \<and>
     preparer no_references ''src/a.ts'' ext1
       (EnumDeclaration None ''Color'' [EnumMemberNode ''Blue'' None (line_start 4)] (line_start 3) [])
       = Inr ext2 \<and>
     map (\<lambda>(k, e). (k, map EnumMember.name (members e), length (EnumDecl.loc e)))
       (enums (heap ext2 ! 0)) = [(''Color'', [''Red'', ''Blue''], 2)]"
proof -
  let ?e1 = "EnumDeclaration None ''Color'' [EnumMemberNode ''Red'' None (line_start 1)] (line_start 0) []"
  let ?e2 = "EnumDeclaration None ''Color'' [EnumMemberNode ''Blue'' None (line_start 4)] (line_start 3) []"
  let ?red = "\<lparr> EnumDecl.name = ''Color'', const = False,
                 members = [\<lparr> EnumMember.name = ''Red'', initializer = None,
                              loc = \<lparr> pos = line_start 1, sourceFile = None \<rparr> \<rparr>],
                 loc = [\<lparr> pos = line_start 0, sourceFile = None \<rparr>],
                 jsDoc = None, isExported = None \<rparr>"
  have "\<exists>ext1. preparer no_references ''src/a.ts'' example_extractor ?e1 = Inr ext1"
    by (simp add: example_simps)
  then obtain ext1 where e1: "preparer no_references ''src/a.ts'' example_extractor ?e1 = Inr ext1" ..
  from e1 have ext1: "ext1 = example_extractor
      \<lparr> heap := [(createModule ''root'' True None False) \<lparr> enums := [(''Color'', ?red)] \<rparr>] \<rparr>"
    by (simp add: example_simps)
  have cur: "currentModule ext1 = Some (ModuleObj 0)"
    by (simp add: ext1 example_simps)
  have existing: "Map_get (enums (heap ext1 ! 0)) ''Color'' = Some ?red"
    by (simp add: ext1 example_simps)
  have "\<exists>ext2. preparer no_references ''src/a.ts'' ext1 ?e2 = Inr ext2"
    by (simp add: ext1 example_simps)
  then obtain ext2 where e2: "preparer no_references ''src/a.ts'' ext1 ?e2 = Inr ext2" ..
  from preparer_enum_merges [OF e2 cur existing] obtain l ms where
    names0: "map EnumMember.name ms =
       map EnumMemberNode_name [EnumMemberNode ''Blue'' None (line_start 4)]"
    and merged: "Map_get (enums (heap ext2 ! 0)) ''Color'' =
       Some (?red\<lparr> EnumDecl.loc := EnumDecl.loc ?red @ [l], members := members ?red @ ms \<rparr>)"
    and keys: "map fst (enums (heap ext2 ! 0)) = map fst (enums (heap ext1 ! 0))"
    by blast
  from names0 have names: "map EnumMember.name ms = [''Blue'']"
    by simp
  from keys obtain e where es: "enums (heap ext2 ! 0) = [(''Color'', e)]"
    by (cases "enums (heap ext2 ! 0)") (auto simp: ext1 example_simps)
  with merged have "e = ?red\<lparr> EnumDecl.loc := EnumDecl.loc ?red @ [l], members := members ?red @ ms \<rparr>"
    by (simp add: Map_get_def)
  with es names
  have "map (\<lambda>(k, e). (k, map EnumMember.name (members e), length (EnumDecl.loc e)))
       (enums (heap ext2 ! 0)) = [(''Color'', [''Red'', ''Blue''], 2)]"
    by simp
  with e1 e2 cur existing show ?thesis
    by (intro exI [of _ ext1] exI [of _ ext2]) simp
qed

subsection \<open>The Visit phase\<close>

text \<open>
  C5. When an exported variable statement has been visited, the contents of the
  constants appended to the current module are, in order, the initializer texts of the
  declarators that have an initializer: the text itself when it has at most 256
  characters, its first 256 characters followed by the three-character marker
  otherwise. So no stored content is longer than 256 characters plus the marker.
\<close>

theorem visitor_variable_content:
  assumes "visitor E f ext (VariableStatement mods decls docs) = Inr ext'"
    and "truthy (has_modifier mods ExportKeyword)"
  shows "\<exists>a. currentModule ext = Some (ModuleObj a) \<and> a < length (heap ext) \<and>
     map ConstantDecl.content (constants (heap ext' ! a)) =
       map ConstantDecl.content (constants (heap ext ! a)) @
       map (\<lambda>txt. if length txt \<le> 256 then txt else take 256 txt @ ''...'')
         (initializer_texts decls) \<and>
     (\<forall>c \<in> set (drop (length (constants (heap ext ! a))) (constants (heap ext' ! a))).
        length (ConstantDecl.content c) \<le> 256 + length ''...'')"
proof -
  from assms have "handleVariableDeclaration E f ext decls docs = Inr ext'"
    by simp
  then obtain cs am where
    cs: "handleVariableDeclaration_loop E f ext docs decls = Inr cs"
    and mc: "module_collection (heap ext) (currentModule ext) ''constants'' ''push'' = Inr am"
    and ext'0: "(case am of (a, m) \<Rightarrow> Inr (store_module ext a (m\<lparr> constants := constants m @ cs \<rparr>)))
                = (Inr ext' :: error + TypescriptExtractor)"
    unfolding handleVariableDeclaration_def bind_err_Inr_iff by (elim exE conjE) (rule that; assumption)
  obtain a m where am: "am = (a, m)"
    by (cases am)
  from ext'0 have ext': "ext' = store_module ext a (m\<lparr> constants := constants m @ cs \<rparr>)"
    by (simp add: am)
  from module_collection_Inr [OF mc [unfolded am]]
  have cur: "currentModule ext = Some (ModuleObj a)" and a: "a < length (heap ext)"
    and m: "m = heap ext ! a"
    by simp_all
  have contents: "map ConstantDecl.content cs = map constant_content (initializer_texts decls)"
    by (rule handleVariableDeclaration_loop_content [OF cs])
  have bound: "length (ConstantDecl.content c) \<le> 256 + length ''...''" if "c \<in> set cs" for c
  proof -
    from that have "ConstantDecl.content c \<in> set (map ConstantDecl.content cs)"
      by simp
    then obtain s where "ConstantDecl.content c = constant_content s"
      unfolding contents by auto
    then show ?thesis
      using constant_content_length [of s] by simp
  qed
  have eq: "constant_content = (\<lambda>txt. if length txt \<le> 256 then txt else take 256 txt @ ''...'')"
    by (rule ext) (rule constant_content_eq)
  show ?thesis
    using cur a contents bound unfolding ext' m eq
    by (intro exI [of _ a]) simp
qed

theorem visitor_variable_content_witness:
  "\<exists>ext'.
     visitor no_references ''src/a.ts'' example_extractor
       (VariableStatement (Some [ExportKeyword])
          [VariableDeclaration ''a'' (line_start 0) None (Some (replicate 256 (CHR ''x''))),
           VariableDeclaration ''b'' (line_start 1) None (Some (replicate 257 (CHR ''x''))),
           VariableDeclaration ''c'' (line_start 2) None None] []) = Inr ext' \<and>
     truthy (has_modifier (Some [ExportKeyword]) ExportKeyword) \<and>
     map ConstantDecl.content (constants (heap ext' ! 0)) =
       [replicate 256 (CHR ''x''), replicate 256 (CHR ''x'') @ ''...'']"
proof -
  let ?s = "VariableStatement (Some [ExportKeyword])
          [VariableDeclaration ''a'' (line_start 0) None (Some (replicate 256 (CHR ''x''))),
           VariableDeclaration ''b'' (line_start 1) None (Some (replicate 257 (CHR ''x''))),
           VariableDeclaration ''c'' (line_start 2) None None] []"
  have ex: "truthy (has_modifier (Some [ExportKeyword]) ExportKeyword)"
    by (simp add: truthy_def has_modifier_def)
  have "\<exists>ext'. visitor no_references ''src/a.ts'' example_extractor ?s = Inr ext'"
    by (simp add: ex handleVariableDeclaration_def example_extractor_def createModule_def
          module_collection_def module_fields_def getLOC_def getJSDocData_def)
  then obtain ext' where v: "visitor no_references ''src/a.ts'' example_extractor ?s = Inr ext'" ..
  from visitor_variable_content [OF v ex]
  have "map ConstantDecl.content (constants (heap ext' ! 0)) =
       [replicate 256 (CHR ''x''), replicate 256 (CHR ''x'') @ ''...'']"
    by (simp add: example_extractor_def createModule_def)
  with v ex show ?thesis
    by (intro exI [of _ ext']) simp
qed

text \<open>
  C7. When an exported function declaration is visited and the functions map of the
  current module has an entry under its name, that entry gets one more signature, made
  of the resolved parameters, type parameters and return type, the location and the
  documentation of this declaration. No entry is added: the keys are unchanged, they
  stay distinct when they were, and exactly one entry has the name.
\<close>

theorem visitor_function_overload:
  assumes "visitor E f ext (FunctionDeclaration mods n sg start docs) = Inr ext'"
    and "truthy (has_modifier mods ExportKeyword)"
    and "currentModule ext = Some (ModuleObj a)"
    and "Map_get (functions (heap ext ! a)) (default_name n) = Some fn"
    and "distinct (map fst (functions (heap ext ! a)))"
  shows "\<exists>ps tps ret l j.
     sequence (map (resolveParameter (E ext)) (sig_parameters sg)) = Inr ps \<and>
     resolveGenerics_list (E ext) (sig_typeParameters sg) = Inr tps \<and>
     resolveReturnType (E ext) sg = Inr ret \<and>
     getLOC ext start f True = Inr l \<and>
     getJSDocData (E ext) docs = Inr j \<and>
     Map_get (functions (heap ext' ! a)) (default_name n) =
       Some (fn\<lparr> FunctionDecl.signatures := FunctionDecl.signatures fn @
                   [\<lparr> FunctionSignature.name = n, parameters = ps, typeParameters = tps,
                      returnType = ret, loc = l, jsDoc = j \<rparr>] \<rparr>) \<and>
     map fst (functions (heap ext' ! a)) = map fst (functions (heap ext ! a)) \<and>
     distinct (map fst (functions (heap ext' ! a))) \<and>
     length (filter (\<lambda>e. fst e = default_name n) (functions (heap ext' ! a))) = 1"
proof -
  from assms(1,2) have h: "handleFunctionDeclaration E f ext n sg start docs = Inr ext'"
    by simp
  from h obtain a' m where
    mc: "module_collection (heap ext) (currentModule ext) ''functions'' ''get'' = Inr (a', m)"
    by (auto simp: handleFunctionDeclaration_def bind_err_Inr_iff)
  from module_collection_Inr [OF mc] assms(3)
  have a: "a < length (heap ext)" and m: "m = heap ext ! a" and a': "a' = a"
    by simp_all
  from h mc assms(4) obtain ps tps ret l j where
    ps: "sequence (map (resolveParameter (E ext)) (sig_parameters sg)) = Inr ps"
    and tps: "resolveGenerics_list (E ext) (sig_typeParameters sg) = Inr tps"
    and ret: "resolveReturnType (E ext) sg = Inr ret"
    and l: "getLOC ext start f True = Inr l"
    and j: "getJSDocData (E ext) docs = Inr j"
    and ext': "ext' = store_module ext a
        (m\<lparr> functions := Map_set (functions m) (default_name n)
             (fn\<lparr> FunctionDecl.signatures := FunctionDecl.signatures fn @
                   [\<lparr> FunctionSignature.name = n, parameters = ps, typeParameters = tps,
                      returnType = ret, loc = l, jsDoc = j \<rparr>] \<rparr>) \<rparr>)"
    by (auto simp: handleFunctionDeclaration_def bind_err_Inr_iff m a' Let_def)
  have key: "default_name n \<in> set (map fst (functions m))"
    using assms(4) m by (auto dest: Map_get_Some_key)
  have keys: "map fst (functions (heap ext' ! a)) = map fst (functions (heap ext ! a))"
    using a key unfolding ext' m by (simp add: Map_set_keys)
  have count: "length (filter (\<lambda>e. fst e = k) xs) = 1"
    if "distinct (map fst xs)" "k \<in> set (map fst xs)" for k :: string and xs :: "(string \<times> FunctionDecl) list"
    using that by (induction xs) (auto simp: filter_empty_conv rev_image_eqI)
  have "length (filter (\<lambda>e. fst e = default_name n) (functions (heap ext' ! a))) = 1"
    by (rule count) (use keys assms(5) key m in simp_all)
  with keys assms(5) a ps tps ret l j show ?thesis
    unfolding ext' m
    by (intro exI [of _ ps] exI [of _ tps] exI [of _ ret] exI [of _ l] exI [of _ j])
       (simp add: Map_get_set)
qed

theorem visitor_function_overload_witness:
  "\<exists>ext1 ext2 fn.
     visitor no_references ''src/a.ts'' example_extractor
       (FunctionDeclaration (Some [ExportKeyword]) (Some ''f'') example_signature (line_start 2) [])
       = Inr ext1 \<and>
     visitor no_references ''src/a.ts'' ext1
       (FunctionDeclaration (Some [ExportKeyword]) (Some ''f'') example_signature (line_start 5) [])
       = Inr ext2 \<and>
     truthy (has_modifier (Some [ExportKeyword]) ExportKeyword) \<and>
     currentModule ext1 = Some (ModuleObj 0) \<and>
     Map_get (functions (heap ext1 ! 0)) (default_name (Some ''f'')) = Some fn \<and>
     distinct (map fst (functions (heap ext1 ! 0))) \<and>
     map (\<lambda>(k, d). (k, map (\<lambda>s. line (pos (FunctionSignature.loc s))) (FunctionDecl.signatures d)))
       (functions (heap ext2 ! 0)) = [(''f'', [2, 5])]"
proof -
  let ?f1 = "FunctionDeclaration (Some [ExportKeyword]) (Some ''f'') example_signature (line_start 2) []"
  let ?f2 = "FunctionDeclaration (Some [ExportKeyword]) (Some ''f'') example_signature (line_start 5) []"
  let ?sig = "\<lambda>n. \<lparr> FunctionSignature.name = Some ''f'', parameters = [], typeParameters = None,
                    returnType = Some (BasicType (Some ''void'') TypeKinds_VOID),
                    loc = \<lparr> pos = line_start n, sourceFile = None \<rparr>, jsDoc = None \<rparr>"
  let ?fn = "\<lparr> FunctionDecl.name = ''f'', signatures = [?sig 2],
               loc = \<lparr> pos = line_start 2, sourceFile = None \<rparr>, jsDoc = None \<rparr>"
  note defs = handleFunctionDeclaration_def resolveGenerics_list_def resolveReturnType_def
    example_signature_def example_simps
  have ex: "truthy (has_modifier (Some [ExportKeyword]) ExportKeyword)"
    by (simp add: truthy_def has_modifier_def)
  have "\<exists>ext1. visitor no_references ''src/a.ts'' example_extractor ?f1 = Inr ext1"
    by (simp add: defs)
  then obtain ext1 where e1: "visitor no_references ''src/a.ts'' example_extractor ?f1 = Inr ext1" ..
  from e1 have ext1: "ext1 = example_extractor
      \<lparr> heap := [(createModule ''root'' True None False) \<lparr> functions := [(''f'', ?fn)] \<rparr>] \<rparr>"
    by (simp add: defs)
  have cur: "currentModule ext1 = Some (ModuleObj 0)"
    by (simp add: ext1 example_simps)
  have existing: "Map_get (functions (heap ext1 ! 0)) (default_name (Some ''f'')) = Some ?fn"
    by (simp add: ext1 example_simps)
  have dist: "distinct (map fst (functions (heap ext1 ! 0)))"
    by (simp add: ext1 example_simps)
  have "\<exists>ext2. visitor no_references ''src/a.ts'' ext1 ?f2 = Inr ext2"
    by (simp add: ext1 defs)
  then obtain ext2 where e2: "visitor no_references ''src/a.ts'' ext1 ?f2 = Inr ext2" ..
  have l: "getLOC ext1 (line_start 5) ''src/a.ts'' True = Inr \<lparr> pos = line_start 5, sourceFile = None \<rparr>"
    by (simp add: ext1 example_simps)
  from visitor_function_overload [OF e2 ex cur existing dist] obtain ps tps ret l' j where
    l': "getLOC ext1 (line_start 5) ''src/a.ts'' True = Inr l'"
    and merged: "Map_get (functions (heap ext2 ! 0)) (default_name (Some ''f'')) =
       Some (?fn\<lparr> FunctionDecl.signatures := FunctionDecl.signatures ?fn @
                   [\<lparr> FunctionSignature.name = Some ''f'', parameters = ps, typeParameters = tps,
                      returnType = ret, loc = l', jsDoc = j \<rparr>] \<rparr>)"
    and keys: "map fst (functions (heap ext2 ! 0)) = map fst (functions (heap ext1 ! 0))"
    by blast
  from l l' have l'_eq: "l' = \<lparr> pos = line_start 5, sourceFile = None \<rparr>"
    by simp
  from keys obtain d where ds: "functions (heap ext2 ! 0) = [(''f'', d)]"
    by (cases "functions (heap ext2 ! 0)") (auto simp: ext1 example_simps)
  with merged have "d = ?fn\<lparr> FunctionDecl.signatures := FunctionDecl.signatures ?fn @
                   [\<lparr> FunctionSignature.name = Some ''f'', parameters = ps, typeParameters = tps,
                      returnType = ret, loc = l', jsDoc = j \<rparr>] \<rparr>"
    by (simp add: Map_get_def default_name_def)
  with ds l'_eq
  have "map (\<lambda>(k, d). (k, map (\<lambda>s. line (pos (FunctionSignature.loc s))) (FunctionDecl.signatures d)))
       (functions (heap ext2 ! 0)) = [(''f'', [2, 5])]"
    by (simp add: line_start_def)
  with e1 e2 ex cur existing dist show ?thesis
    by (intro exI [of _ ext1] exI [of _ ext2] exI [of _ ?fn]) simp
qed

subsection \<open>Serialization\<close>

text \<open>On Module objects that form a tree in the heap, \<open>moduleToJSON\<close> computes \<open>json_of\<close>.\<close>

lemma collect_map_Inr: "collect (map (\<lambda>v. Some (Inr v)) vs) = Some (Inr vs)"
  by (induction vs) simp_all

lemma foldr_max_ge: "x \<in> set xs \<Longrightarrow> x \<le> foldr max xs (b::nat)"
  by (induction xs) auto

lemma moduleToJSON_json_of:
  "tree_in_heap h t \<Longrightarrow> depth t \<le> n \<Longrightarrow>
     moduleToJSON n h (ModuleObj (root t)) = Some (Inr (json_of h t))"
proof (induction t arbitrary: n)
  case (ModuleTree a ts)
  from ModuleTree.prems(2) obtain m where n: "n = Suc m" and m: "foldr max (map depth ts) 0 \<le> m"
    by (cases n) simp_all
  from ModuleTree.prems(1) have a: "a < length h"
    and kids: "map snd (modules (h ! a)) = map (\<lambda>t. ModuleObj (root t)) ts"
    and trees: "list_all (tree_in_heap h) ts"
    by simp_all
  have "map (\<lambda>(k, c). moduleToJSON m h c) (modules (h ! a)) =
        map (moduleToJSON m h) (map snd (modules (h ! a)))"
    by (simp add: case_prod_unfold comp_def)
  also have "\<dots> = map (\<lambda>t. moduleToJSON m h (ModuleObj (root t))) ts"
    by (simp add: kids comp_def)
  also have "\<dots> = map (\<lambda>t. Some (Inr (json_of h t))) ts"
  proof (rule map_cong [OF refl])
    fix t assume t: "t \<in> set ts"
    with trees have "tree_in_heap h t"
      by (simp add: list_all_iff)
    moreover from t m have "depth t \<le> m"
      using foldr_max_ge [of "depth t" "map depth ts" 0] by simp
    ultimately show "moduleToJSON m h (ModuleObj (root t)) = Some (Inr (json_of h t))"
      using ModuleTree.IH [OF t] by simp
  qed
  also have "\<dots> = map (\<lambda>v. Some (Inr v)) (map (json_of h) ts)"
    by (simp add: comp_def)
  finally have "collect (map (\<lambda>(k, c). moduleToJSON m h c) (modules (h ! a))) =
      Some (Inr (map (json_of h) ts))"
    by (simp only: collect_map_Inr)
  then show ?case
    by (simp add: n module_collection_Module [OF a])
qed

lemma sum_list_map_concat:
  "sum_list (map f (concat xss)) = sum_list (map (\<lambda>xs. sum_list (map f xs)) xss)"
  by (induction xss) simp_all

lemma count_JSON_json_of:
  "tree_in_heap h t \<Longrightarrow>
     count_JSON (json_of h t) = sum_list (map (\<lambda>a. map_entries (h ! a)) (addresses t))"
proof (induction t)
  case (ModuleTree a ts)
  from ModuleTree.prems have kids: "map snd (modules (h ! a)) = map (\<lambda>t. ModuleObj (root t)) ts"
    and trees: "list_all (tree_in_heap h) ts"
    by simp_all
  from arg_cong [OF kids, of length] have len: "length (modules (h ! a)) = length ts"
    by simp
  have "map (count_JSON \<circ> json_of h) ts =
        map (\<lambda>t. sum_list (map (\<lambda>a. map_entries (h ! a)) (addresses t))) ts"
  proof (rule map_cong [OF refl])
    fix t assume t: "t \<in> set ts"
    with trees have "tree_in_heap h t"
      by (simp add: list_all_iff)
    from ModuleTree.IH [OF t this]
    show "(count_JSON \<circ> json_of h) t = sum_list (map (\<lambda>a. map_entries (h ! a)) (addresses t))"
      by simp
  qed
  then have "sum_list (map (count_JSON \<circ> json_of h) ts) =
      sum_list (map (\<lambda>t. sum_list (map (\<lambda>a. map_entries (h ! a)) (addresses t))) ts)"
    by (simp only:)
  also have "\<dots> = sum_list (map (\<lambda>a. map_entries (h ! a)) (concat (map addresses ts)))"
    by (simp add: sum_list_map_concat comp_def)
  finally show ?case
    by (simp add: map_entries_def Map_values_def len)
qed

text \<open>\<open>moduleToJSON\<close> returns a result only for Module objects that form such a tree.\<close>

lemma collect_Inr_D: "collect rs = Some (Inr vs) \<Longrightarrow> rs = map (\<lambda>v. Some (Inr v)) vs"
proof (induction rs arbitrary: vs)
  case Nil
  then show ?case by simp
next
  case (Cons r rs)
  from Cons.prems obtain v where r: "r = Some (Inr v)"
    by (cases "r # rs" rule: collect.cases) auto
  with Cons.prems obtain vs' where "collect rs = Some (Inr vs')" and "vs = v # vs'"
    by (auto split: option.splits sum.splits)
  with Cons.IH [of vs'] r show ?case
    by simp
qed

lemma foldr_max_le: "(\<And>x. x \<in> set xs \<Longrightarrow> x \<le> n) \<Longrightarrow> foldr max xs 0 \<le> (n::nat)"
  by (induction xs) auto

lemma trees_of_children:
  "(\<And>c. c \<in> set cs \<Longrightarrow> \<exists>t. c = ModuleObj (root t) \<and> tree_in_heap h t \<and> depth t \<le> n) \<Longrightarrow>
     \<exists>ts. cs = map (\<lambda>t. ModuleObj (root t)) ts \<and> list_all (tree_in_heap h) ts \<and>
       (\<forall>t \<in> set ts. depth t \<le> n)"
proof (induction cs)
  case Nil
  then show ?case by simp
next
  case (Cons c cs)
  from Cons.prems [of c] obtain t where t: "c = ModuleObj (root t)" "tree_in_heap h t" "depth t \<le> n"
    by auto
  from Cons.IH Cons.prems obtain ts where
    "cs = map (\<lambda>t. ModuleObj (root t)) ts" "list_all (tree_in_heap h) ts" "\<forall>t \<in> set ts. depth t \<le> n"
    by auto
  with t show ?case
    by (intro exI [of _ "t # ts"]) simp
qed

lemma moduleToJSON_returns_tree:
  "moduleToJSON n h r = Some (Inr j) \<Longrightarrow>
     \<exists>t. r = ModuleObj (root t) \<and> tree_in_heap h t \<and> depth t \<le> n"
proof (induction n arbitrary: r j)
  case 0
  then show ?case by simp
next
  case (Suc n)
  from Suc.prems obtain a m ms where
    mc: "module_collection h (Some r) ''classes'' ''values'' = Inr (a, m)"
    and ms: "collect (map (\<lambda>(k, c). moduleToJSON n h c) (modules m)) = Some (Inr ms)"
    by (auto split: sum.splits option.splits)
  from mc have r: "r = ModuleObj a" and a: "a < length h" and m: "m = h ! a"
    by (auto simp: module_collection_def module_fields_def bind_err_Inr_iff
        split: option.splits modref.splits if_splits)
  from collect_Inr_D [OF ms]
  have results: "map (\<lambda>(k, c). moduleToJSON n h c) (modules m) = map (\<lambda>v. Some (Inr v)) ms" .
  have "\<exists>t. c = ModuleObj (root t) \<and> tree_in_heap h t \<and> depth t \<le> n"
    if "c \<in> set (map snd (modules m))" for c
  proof -
    from that obtain k where "(k, c) \<in> set (modules m)"
      by auto
    then have "moduleToJSON n h c \<in> set (map (\<lambda>(k, c). moduleToJSON n h c) (modules m))"
      by force
    with results obtain v where "moduleToJSON n h c = Some (Inr v)"
      by auto
    then show ?thesis
      by (rule Suc.IH)
  qed
  from trees_of_children [of "map snd (modules m)", OF this] obtain ts where
    ts: "map snd (modules m) = map (\<lambda>t. ModuleObj (root t)) ts" "list_all (tree_in_heap h) ts"
      "\<forall>t \<in> set ts. depth t \<le> n"
    by blast
  from ts(3) have "foldr max (map depth ts) 0 \<le> n"
    by (intro foldr_max_le) auto
  with ts r a m show ?case
    by (intro exI [of _ "ModuleTree a ts"]) simp
qed

text \<open>
  A namespace declared inside a namespace of the same name is found in the namespace
  cache, so it is put into its own modules map: for the Module objects the Prepare phase
  builds from \<^verbatim>\<open>namespace N { namespace N { } }\<close> serialization does not return, whatever
  the bound.
\<close>

lemmas run_simps =
  runPreparerOnFile_def moduleFromFile_def slice_from_def slice_index_def Record_set_def
  Record_get_def Object_prototype_keys_def template_def line_suffix_def number_toString_small
  digit_char_def example_simps

lemma moduleToJSON_nested_namespace:
  "runPreparerOnFile no_references example_extractor example_nested_file =
     Inr \<lparr> heap = example_nested_heap, module = 0, baseDir = ''src'',
           currentModule = Some (ModuleObj 0), moduleCache = [(''src/a.ts'', ModuleObj 0)],
           namespaceCache = [(''N'', ModuleObj 1)] \<rparr> \<and>
   moduleToJSON n example_nested_heap (ModuleObj 0) = None"
proof
  show "runPreparerOnFile no_references example_extractor example_nested_file =
     Inr \<lparr> heap = example_nested_heap, module = 0, baseDir = ''src'',
           currentModule = Some (ModuleObj 0), moduleCache = [(''src/a.ts'', ModuleObj 0)],
           namespaceCache = [(''N'', ModuleObj 1)] \<rparr>"
    by (simp add: example_nested_file_def example_nested_heap_def run_simps)
  have inner: "moduleToJSON k example_nested_heap (ModuleObj 1) = None" for k
    by (induction k)
      (simp_all add: example_nested_heap_def module_collection_def module_fields_def)
  show "moduleToJSON n example_nested_heap (ModuleObj 0) = None"
    using inner [of "n - 1"]
    by (cases n) (simp_all add: example_nested_heap_def module_collection_def module_fields_def)
qed

text \<open>
  C6. For Module objects that form a tree in the heap, \<open>moduleToJSON\<close> returns as soon as
  the bound is at least the depth of the tree. In the result the classes, interfaces,
  enums, types and functions are the lists of the values of the maps of the root, in the
  order of the entries; the modules are, in the same order, the serialized modules of
  the modules map, so the same holds for them at every depth. The number of elements of
  all these arrays is the number of entries of the maps of the Module objects, each
  object counted as often as it occurs in the tree; when every Module object occurs
  once, this is the number of entries of the maps of the Module objects of the tree. A
  \<open>ModuleJSON\<close> holds lists only.
\<close>

theorem moduleToJSON_tree:
  "tree_in_heap h t \<Longrightarrow>
     \<exists>j. moduleToJSON (depth t + k) h (ModuleObj (root t)) = Some (Inr j) \<and>
       json_classes j = Map_values (classes (h ! root t)) \<and>
       json_interfaces j = Map_values (interfaces (h ! root t)) \<and>
       json_enums j = Map_values (enums (h ! root t)) \<and>
       json_types j = Map_values (types (h ! root t)) \<and>
       json_functions j = Map_values (functions (h ! root t)) \<and>
       map (\<lambda>c. Some (Inr c)) (json_modules j) =
         map (\<lambda>(n, c). moduleToJSON (depth t + k - 1) h c) (modules (h ! root t)) \<and>
       count_JSON j = sum_list (map (\<lambda>a. map_entries (h ! a)) (addresses t)) \<and>
       (distinct (addresses t) \<longrightarrow> count_JSON j = count_declarations h (addresses t))"
proof -
  assume tree: "tree_in_heap h t"
  obtain a ts where t: "t = ModuleTree a ts"
    by (cases t)
  from tree t have kids: "map snd (modules (h ! a)) = map (\<lambda>t. ModuleObj (root t)) ts"
    and trees: "list_all (tree_in_heap h) ts"
    by simp_all
  have result: "moduleToJSON (depth t + k) h (ModuleObj (root t)) = Some (Inr (json_of h t))"
    by (rule moduleToJSON_json_of [OF tree]) simp
  let ?m = "depth t + k - 1"
  have "map (\<lambda>(n, c). moduleToJSON ?m h c) (modules (h ! a)) =
        map (moduleToJSON ?m h) (map snd (modules (h ! a)))"
    by (simp add: case_prod_unfold comp_def)
  also have "\<dots> = map (\<lambda>t. moduleToJSON ?m h (ModuleObj (root t))) ts"
    by (simp add: kids comp_def)
  also have "\<dots> = map (\<lambda>t. Some (Inr (json_of h t))) ts"
  proof (rule map_cong [OF refl])
    fix c assume c: "c \<in> set ts"
    with trees have "tree_in_heap h c"
      by (simp add: list_all_iff)
    moreover from c have "depth c \<le> ?m"
      using foldr_max_ge [of "depth c" "map depth ts" 0] by (simp add: t)
    ultimately show "moduleToJSON ?m h (ModuleObj (root c)) = Some (Inr (json_of h c))"
      by (rule moduleToJSON_json_of)
  qed
  finally have children: "map (\<lambda>c. Some (Inr c)) (json_modules (json_of h t)) =
      map (\<lambda>(n, c). moduleToJSON ?m h c) (modules (h ! root t))"
    by (simp add: t comp_def)
  have count: "count_JSON (json_of h t) = sum_list (map (\<lambda>a. map_entries (h ! a)) (addresses t))"
    by (rule count_JSON_json_of [OF tree])
  have "count_JSON (json_of h t) = count_declarations h (addresses t)" if "distinct (addresses t)"
    using that count by (simp add: count_declarations_def distinct_remdups_id)
  with result children count show ?thesis
    by (intro exI [of _ "json_of h t"]) (simp add: t)
qed

theorem moduleToJSON_tree_witness:
  "\<exists>ext. runPreparerOnFile no_references example_extractor example_file = Inr ext \<and>
     tree_in_heap (heap ext) (ModuleTree 0 [ModuleTree 1 []]) \<and>
     distinct (addresses (ModuleTree 0 [ModuleTree 1 []])) \<and>
     (\<exists>j. moduleToJSON 2 (heap ext) (ModuleObj 0) = Some (Inr j) \<and>
        map TypeDecl.name (json_types j) = [''A''] \<and>
        map (map TypeDecl.name \<circ> json_types) (json_modules j) = [[''B'']] \<and>
        count_JSON j = 3)"
proof -
  let ?t = "ModuleTree 0 [ModuleTree 1 []]"
  let ?h = "[(createModule ''root'' True None False)
               \<lparr> types := [(''A'', example_type ''A'' 0 None)], modules := [(''N'', ModuleObj 1)] \<rparr>,
             (createModule ''N'' False None True)
               \<lparr> types := [(''B'', example_type ''B'' 2 (Some ''undefined#L3''))] \<rparr>]"
  have "\<exists>ext. runPreparerOnFile no_references example_extractor example_file = Inr ext \<and>
      heap ext = ?h"
    by (simp add: example_file_def example_type_def run_simps)
  then obtain ext where
    run: "runPreparerOnFile no_references example_extractor example_file = Inr ext"
    and h: "heap ext = ?h"
    by blast
  have tree: "tree_in_heap (heap ext) ?t"
    by (simp add: h createModule_def)
  have child: "moduleToJSON 1 (heap ext) (ModuleObj 1) =
      Some (Inr (ModuleJSON ''N'' None False True [] [] []
        [example_type ''B'' 2 (Some ''undefined#L3'')] [] [] []))"
    by (simp add: h createModule_def module_collection_def module_fields_def Map_values_def)
  from moduleToJSON_tree [OF tree, of 0] obtain j where
    j: "moduleToJSON 2 (heap ext) (ModuleObj 0) = Some (Inr j)"
    and ts: "json_types j = Map_values (types (heap ext ! 0))"
    and ms: "map (\<lambda>c. Some (Inr c)) (json_modules j) =
         map (\<lambda>(n, c). moduleToJSON 1 (heap ext) c) (modules (heap ext ! 0))"
    and c: "distinct (addresses ?t) \<longrightarrow> count_JSON j = count_declarations (heap ext) (addresses ?t)"
    by (auto simp: numeral_2_eq_2)
  from ms child have "json_modules j =
      [ModuleJSON ''N'' None False True [] [] [] [example_type ''B'' 2 (Some ''undefined#L3'')] [] [] []]"
    by (cases "json_modules j") (simp_all add: h createModule_def)
  moreover from c have "count_JSON j = 3"
    by (simp add: count_declarations_def map_entries_def h createModule_def)
  ultimately show ?thesis
    using run tree j ts
    by (intro exI [of _ ext] conjI exI [of _ j])
      (simp_all add: h createModule_def Map_values_def example_type_def)
qed

text \<open>
  The Prepare phase puts a namespace into the modules map of the module of every file
  that declares it. The files \<^verbatim>\<open>src/a.ts\<close> and \<^verbatim>\<open>src/lib/b.ts\<close> both declare \<^verbatim>\<open>N\<close>, so the
  namespace is in the modules map of the root module and in that of \<^verbatim>\<open>lib\<close>. It is
  serialized under both: the arrays of the result have 8 elements, and the maps of the
  three Module objects have 6 entries.
\<close>

theorem moduleToJSON_shared_namespace:
  "run_calls no_references example_extractor
     [RunPreparerOnFile example_file, RunPreparerOnFile example_shared_file] =
     Inr \<lparr> heap = example_shared_heap, module = 0, baseDir = ''src'',
           currentModule = Some (ModuleObj 2),
           moduleCache = [(''src/a.ts'', ModuleObj 0), (''src/lib/b.ts'', ModuleObj 2)],
           namespaceCache = [(''N'', ModuleObj 1)] \<rparr> \<and>
   moduleToJSON 3 example_shared_heap (ModuleObj 0) = Some (Inr example_shared_JSON) \<and>
   count_JSON example_shared_JSON = 8 \<and>
   count_declarations example_shared_heap [0, 1, 2] = 6"
proof (intro conjI)
  show "run_calls no_references example_extractor
     [RunPreparerOnFile example_file, RunPreparerOnFile example_shared_file] =
     Inr \<lparr> heap = example_shared_heap, module = 0, baseDir = ''src'',
           currentModule = Some (ModuleObj 2),
           moduleCache = [(''src/a.ts'', ModuleObj 0), (''src/lib/b.ts'', ModuleObj 2)],
           namespaceCache = [(''N'', ModuleObj 1)] \<rparr>"
    by (simp add: example_file_def example_shared_file_def example_shared_heap_def
          example_type_def run_simps)
  have three: "(3::nat) = Suc (Suc (Suc 0))"
    by simp
  show "moduleToJSON 3 example_shared_heap (ModuleObj 0) = Some (Inr example_shared_JSON)"
    unfolding three
    by (simp add: example_shared_heap_def example_shared_JSON_def example_namespace_JSON_def
          module_collection_def module_fields_def Map_values_def createModule_def)
  show "count_JSON example_shared_JSON = 8"
    by (simp add: example_shared_JSON_def example_namespace_JSON_def)
  show "count_declarations example_shared_heap [0, 1, 2] = 6"
    by (simp add: count_declarations_def map_entries_def example_shared_heap_def createModule_def)
qed

subsection \<open>Namespaces\<close>

text \<open>
  C4. The specification says that the first encounter of a namespace name creates a Module and
  later encounters reuse it. The namespace cache is a plain object, so for the name
  \<^verbatim>\<open>toString\<close> the first lookup finds the function inherited from \<^verbatim>\<open>Object.prototype\<close>:
  no Module is created, the function is stored in the modules map of the parent and in
  the cache, and a type alias inside the block makes the Prepare phase raise a
  \<^verbatim>\<open>TypeError\<close>.
\<close>

theorem preparer_namespace_toString:
  "preparer E ''src/a.ts'' example_extractor
     (ModuleDeclaration ''toString'' (Some []) (line_start 0)) =
     Inr (example_extractor
       \<lparr> heap := [(createModule ''root'' True None False)
                    \<lparr> modules := [(''toString'', ObjectPrototypeMember ''toString'')] \<rparr>],
         namespaceCache := [(''toString'', ObjectPrototypeMember ''toString'')] \<rparr>) \<and>
   preparer E ''src/a.ts'' example_extractor
     (ModuleDeclaration ''toString''
        (Some [TypeAliasDeclaration None ''T'' (OtherNode NumberKeyword ''number'') (line_start 1) []])
        (line_start 0)) =
     Inl (read_of_undefined ''set'')"
  by (simp add: Record_get_def Record_set_def Object_prototype_keys_def example_simps)

subsection \<open>The order of the two phases\<close>

lemma sequence_map_Inl:
  "sequence (map g xs) = Inl e \<Longrightarrow> \<exists>x \<in> set xs. g x = Inl e"
  using sequence_Inl_D [of "map g xs" e] by auto

lemma sequence_option_map_Inl:
  "sequence_option (map_option g x) = Inl e \<Longrightarrow> \<exists>y. x = Some y \<and> g y = Inl e"
  using sequence_option_Inl_D [of "map_option g x" e] by (cases x) auto

lemma sequence_list_option_Inl:
  "sequence_option (map_option sequence (map_option (map g) x)) = Inl e \<Longrightarrow>
     \<exists>ys y. x = Some ys \<and> y \<in> set ys \<and> g y = Inl e"
proof -
  assume "sequence_option (map_option sequence (map_option (map g) x)) = Inl e"
  then obtain ys where "x = Some ys" "sequence (map g ys) = Inl e"
    by (cases x) (auto split: sum.splits)
  then show ?thesis
    using sequence_map_Inl [of g ys e] by auto
qed

lemma resolver_errors:
  "(\<forall>e. resolveType R t = Inl e \<longrightarrow> resolver_error e)"
  "(\<forall>e. resolveGenerics R tp = Inl e \<longrightarrow> resolver_error e)"
  "(\<forall>e. resolveParameter R p = Inl e \<longrightarrow> resolver_error e)"
  "(\<forall>e. resolveProperty R el = Inl e \<longrightarrow> resolver_error e)"
  "(\<forall>e. resolveExpressionToType R ex = Inl e \<longrightarrow> resolver_error e)"
proof (induction R t and R tp and R p and R el and R ex
    rule: resolveType_resolveGenerics_resolveParameter_resolveProperty_resolveExpressionToType.induct)
  case (1 R raw typeName symbol typeArguments)
  show ?case
  proof (intro allI impI)
    fix e assume "resolveType R (TypeReferenceNode raw typeName symbol typeArguments) = Inl e"
    then have "sequence_option (map_option sequence (map_option (map (resolveType R)) typeArguments)) = Inl e"
      by (auto simp: bind_err_Inl_iff split: option.splits EntityName.splits if_splits)
    from sequence_list_option_Inl [OF this] "1.IH" show "resolver_error e"
      by blast
  qed
next
  case (2 R tparams ty params)
  show ?case
  proof (intro allI impI)
    fix e assume "resolveType R (FunctionTypeNode tparams ty params) = Inl e"
    then consider
      "sequence_option (map_option sequence (map_option (map (resolveGenerics R)) tparams)) = Inl e"
      | "resolveType R ty = Inl e"
      | "sequence (map (resolveParameter R) params) = Inl e"
      by (auto simp: bind_err_Inl_iff)
    then show "resolver_error e"
    proof cases
      case 1
      from sequence_list_option_Inl [OF this] "2.IH"(1) show ?thesis by blast
    next
      case 2
      with "2.IH"(2) show ?thesis by blast
    next
      case 3
      from sequence_map_Inl [OF this] "2.IH"(3) show ?thesis by blast
    qed
  qed
next
  case (3 R elems)
  show ?case
  proof (intro allI impI)
    fix e assume "resolveType R (TypeLiteralNode elems) = Inl e"
    then have "sequence (map (resolveProperty R) elems) = Inl e"
      by (auto simp: bind_err_Inl_iff)
    from sequence_map_Inl [OF this] "3.IH" show "resolver_error e" by blast
  qed
next
  case (4 R tys)
  show ?case
  proof (intro allI impI)
    fix e assume "resolveType R (UnionTypeNode tys) = Inl e"
    then have "sequence (map (resolveType R) tys) = Inl e"
      by (auto simp: bind_err_Inl_iff)
    from sequence_map_Inl [OF this] "4.IH" show "resolver_error e" by blast
  qed
next
  case (5 R tys)
  show ?case
  proof (intro allI impI)
    fix e assume "resolveType R (IntersectionTypeNode tys) = Inl e"
    then have "sequence (map (resolveType R) tys) = Inl e"
      by (auto simp: bind_err_Inl_iff)
    from sequence_map_Inl [OF this] "5.IH" show "resolver_error e" by blast
  qed
next
  case (6 R elements)
  show ?case
  proof (intro allI impI)
    fix e assume "resolveType R (TupleTypeNode elements) = Inl e"
    then have "sequence (map (resolveType R) elements) = Inl e"
      by (auto simp: bind_err_Inl_iff)
    from sequence_map_Inl [OF this] "6.IH" show "resolver_error e" by blast
  qed
next
  case (7 R operator ty)
  then show ?case by (auto simp: bind_err_Inl_iff)
next
  case (8 R elementType)
  then show ?case by (auto simp: bind_err_Inl_iff)
next
  case (9 R ty)
  then show ?case by simp
next
  case (10 R raw symbol)
  then show ?case by (simp split: option.splits)
next
  case (11 R literal)
  then show ?case by simp
next
  case (12 R k raw)
  then show ?case by simp
next
  case (13 R n dflt constraint)
  show ?case
  proof (intro allI impI)
    fix e assume "resolveGenerics R (TypeParameterDeclaration n dflt constraint) = Inl e"
    then consider "sequence_option (map_option (resolveType R) dflt) = Inl e"
      | "sequence_option (map_option (resolveType R) constraint) = Inl e"
      by (auto simp: bind_err_Inl_iff)
    then show "resolver_error e"
    proof cases
      case 1
      from sequence_option_map_Inl [OF this] "13.IH"(1) show ?thesis by blast
    next
      case 2
      from sequence_option_map_Inl [OF this] "13.IH"(2) show ?thesis by blast
    qed
  qed
next
  case (14 R n questionToken dotDotDotToken ty init tgs)
  show ?case
  proof (intro allI impI)
    fix e assume "resolveParameter R (ParameterDeclaration n questionToken dotDotDotToken ty init tgs) = Inl e"
    then consider "sequence_option (map_option (resolveType R) ty) = Inl e"
      | "sequence_option (map_option (resolveExpressionToType R) init) = Inl e"
      by (auto simp: bind_err_Inl_iff)
    then show "resolver_error e"
    proof cases
      case 1
      from sequence_option_map_Inl [OF this] "14.IH"(1) show ?thesis by blast
    next
      case 2
      from sequence_option_map_Inl [OF this] "14.IH"(2) show ?thesis by blast
    qed
  qed
next
  case (15 R n ty questionToken modifiers)
  show ?case
  proof (intro allI impI)
    fix e assume "resolveProperty R (PropertySignature n ty questionToken modifiers) = Inl e"
    then have "sequence_option (map_option (resolveType R) ty) = Inl e"
      by (auto simp: bind_err_Inl_iff)
    from sequence_option_map_Inl [OF this] "15.IH" show "resolver_error e" by blast
  qed
next
  case (16 R params ty start stop)
  show ?case
  proof (intro allI impI)
    fix e assume a: "resolveProperty R (SignatureElement params ty start stop) = Inl e"
    show "resolver_error e"
    proof (cases params)
      case Nil
      with a show ?thesis by (simp add: resolver_error_def)
    next
      case (Cons p ps)
      obtain n q d pty init tgs where p: "p = ParameterDeclaration n q d pty init tgs"
        by (cases p)
      from a Cons p consider "sequence_option (map_option (resolveType R) pty) = Inl e"
        | "ty = None" "e = read_of_undefined ''kind''"
        | t where "ty = Some t" "resolveType R t = Inl e"
        by (auto simp: bind_err_Inl_iff split: option.splits)
      then show ?thesis
      proof cases
        case 1
        from sequence_option_map_Inl [OF this] "16.IH"(1) [OF Cons p] show ?thesis by blast
      next
        case 2
        then show ?thesis by (simp add: resolver_error_def)
      next
        case 3
        with "16.IH"(2) [OF Cons p] show ?thesis by blast
      qed
    qed
  qed
next
  case (17 R raw expression typeArguments)
  show ?case
  proof (intro allI impI)
    fix e assume a: "resolveExpressionToType R (NewExpression raw expression typeArguments) = Inl e"
    then obtain iraw t where ex: "expression = IdentifierExpression iraw t"
      by (cases expression) simp_all
    from a ex have "sequence_option (map_option sequence
        (map_option (map (resolveType R)) typeArguments)) = Inl e"
      by (auto simp: bind_err_Inl_iff)
    from sequence_list_option_Inl [OF this] "17.IH" [OF ex] show "resolver_error e" by blast
  qed
next
  case (18 R raw expression leftSym n)
  then show ?case by (simp split: option.splits)
next
  case (19 R raw t)
  then show ?case by simp
next
  case (20 R k raw)
  then show ?case by simp
qed

lemma safe_Inr [simp]: "safe (Inr v)"
  by (simp add: safe_def)

lemma safe_bind: "safe r \<Longrightarrow> (\<And>v. r = Inr v \<Longrightarrow> safe (g v)) \<Longrightarrow> safe (bind_err r g)"
  by (cases r) (simp_all add: safe_def)

lemma resolver_error_safe: "resolver_error e \<Longrightarrow> e \<noteq> lookup_failure"
  by (auto simp: resolver_error_def lookup_failure_def read_of_undefined_def set_of_undefined_def)

lemma read_of_undefined_safe [simp]: "safe (Inl (read_of_undefined p))"
  by (simp add: safe_def lookup_failure_def read_of_undefined_def set_of_undefined_def)

lemma OutsideModel_safe [simp]: "safe (Inl (OutsideModel s))"
  by (simp add: safe_def lookup_failure_def set_of_undefined_def)

lemma set_typeParameters_safe [simp]: "safe (Inl (set_of_undefined ''typeParameters''))"
  by (simp add: safe_def lookup_failure_def set_of_undefined_def)

lemma safe_resolveType [simp]: "safe (resolveType R t)"
  using resolver_errors(1) [of R t] resolver_error_safe by (auto simp: safe_def)

lemma safe_resolveGenerics [simp]: "safe (resolveGenerics R t)"
  using resolver_errors(2) [of R t] resolver_error_safe by (auto simp: safe_def)

lemma safe_resolveParameter [simp]: "safe (resolveParameter R t)"
  using resolver_errors(3) [of R t] resolver_error_safe by (auto simp: safe_def)

lemma safe_resolveProperty [simp]: "safe (resolveProperty R t)"
  using resolver_errors(4) [of R t] resolver_error_safe by (auto simp: safe_def)

lemma safe_resolveExpressionToType [simp]: "safe (resolveExpressionToType R t)"
  using resolver_errors(5) [of R t] resolver_error_safe by (auto simp: safe_def)

lemma safe_sequence_map [simp]: "(\<And>x. safe (g x)) \<Longrightarrow> safe (sequence (map g xs))"
  unfolding safe_def using sequence_map_Inl [of g xs lookup_failure] by auto

lemma safe_sequence_option_map [simp]: "(\<And>x. safe (g x)) \<Longrightarrow> safe (sequence_option (map_option g x))"
  unfolding safe_def using sequence_option_map_Inl [of g x lookup_failure] by auto

lemma safe_resolveTypeArguments [simp]: "safe (resolveTypeArguments R tas)"
  by (simp add: resolveTypeArguments_def)

lemma safe_resolveGenerics_list [simp]: "safe (resolveGenerics_list R tps)"
  by (simp add: resolveGenerics_list_def)

lemma safe_resolveHeritage [simp]: "safe (resolveHeritage R t)"
  by (induction R t rule: resolveHeritage.induct) (simp_all add: safe_bind)

lemma safe_resolveReturnType [simp]: "safe (resolveReturnType R sg)"
  by (auto simp: resolveReturnType_def intro!: safe_bind split: option.splits InferredType.splits)

lemma safe_getJSDocData_tag [simp]: "safe (getJSDocData_tag R t)"
  by (cases t) (auto intro!: safe_bind split: option.splits)

lemma safe_getJSDocData_doc [simp]: "safe (getJSDocData_doc R d)"
  by (cases d) (simp add: safe_bind)

lemma safe_getJSDocData [simp]: "safe (getJSDocData R docs)"
  by (simp add: getJSDocData_def safe_bind)

lemma safe_module_fields [simp]: "safe (module_fields h r p)"
  by (simp add: module_fields_def split: option.splits modref.splits)

lemma safe_module_collection [simp]: "safe (module_collection h r p g)"
  by (auto simp: module_collection_def intro!: safe_bind split: option.splits)

lemma safe_getLOC [simp]: "safe (getLOC ext p f b)"
  by (auto simp: getLOC_def intro!: safe_bind split: option.splits)

lemma safe_resolve_extends [simp]: "safe (resolve_extends R c)"
  by (auto simp: resolve_extends_def intro!: safe_bind split: option.splits list.splits)

lemma safe_method_signature [simp]: "safe (method_signature E f ext sg start docs)"
  by (simp add: method_signature_def safe_bind)

lemma safe_handleClassDeclaration_member [simp]:
  "safe (handleClassDeclaration_member E f ext acc el)"
proof (cases acc)
  case (Pair res ms)
  show ?thesis
    unfolding Pair
    by (cases el) (auto intro!: safe_bind split: option.splits)
qed

lemma safe_handleClassDeclaration_members [simp]:
  "safe (handleClassDeclaration_members E f ext acc els)"
  by (induction els arbitrary: acc) (simp_all add: safe_bind)

lemma safe_handleVariableDeclaration_loop [simp]:
  "safe (handleVariableDeclaration_loop E f ext docs ds)"
  by (induction E f ext docs ds rule: handleVariableDeclaration_loop.induct) (simp_all add: safe_bind)

lemma safe_handleVariableDeclaration: "safe (handleVariableDeclaration E f ext decls docs)"
  by (auto simp: handleVariableDeclaration_def intro!: safe_bind)

lemma safe_handleFunctionDeclaration: "safe (handleFunctionDeclaration E f ext n sg start docs)"
  by (auto simp: handleFunctionDeclaration_def Let_def intro!: safe_bind split: option.splits)

lemma safe_handleClassDeclaration: "safe (handleClassDeclaration E f ext n tps elems heritage)"
  by (auto simp: handleClassDeclaration_def Let_def intro!: safe_bind split: option.splits)

lemma safe_handleInterfaceDeclaration: "safe (handleInterfaceDeclaration E ext n tps elems heritage)"
  by (auto simp: handleInterfaceDeclaration_def Let_def intro!: safe_bind split: option.splits)

lemma safe_handleTypeDeclaration:
  "currentModule ext = Some (ModuleObj a) \<Longrightarrow> Map_has (types (heap ext ! a)) n \<Longrightarrow>
     safe (handleTypeDeclaration E ext n ty)"
  by (auto simp: handleTypeDeclaration_def Map_has_def Map_get_def intro!: safe_bind
           split: option.splits dest!: module_collection_Inr)

lemma frame_refl [simp]: "frame ext ext"
  by (simp add: frame_def)

lemma frame_trans: "frame ext ext1 \<Longrightarrow> frame ext1 ext2 \<Longrightarrow> frame ext ext2"
  by (simp add: frame_def)

lemma frame_store_module:
  assumes "module_collection (heap ext) (currentModule ext) p g = Inr (a, m)"
    and "map fst (types m') = map fst (types m)"
  shows "frame ext (store_module ext a m')"
proof -
  from module_collection_Inr [OF assms(1)] have a: "a < length (heap ext)" and m: "m = heap ext ! a"
    by simp_all
  show ?thesis
    using a assms(2) unfolding m frame_def
    by (auto simp: nth_list_update)
qed

lemma Map_has_keys: "Map_has m k \<longleftrightarrow> k \<in> set (map fst m)"
  by (simp add: Map_has_def map_of_eq_None_iff)

lemma prepared_frame:
  "frame ext ext' \<Longrightarrow> prepared ext cur stmt \<Longrightarrow> prepared ext' cur stmt"
  "frame ext ext' \<Longrightarrow> prepared_statements ext cur stmts \<Longrightarrow> prepared_statements ext' cur stmts"
proof (induction ext cur stmt and ext cur stmts rule: prepared_prepared_statements.induct)
  case (1 ext cur mods n ty start docs)
  from "1.prems"(2) obtain a where cur: "cur = Some (ModuleObj a)" and a: "a < length (heap ext)"
    and n: "Map_has (types (heap ext ! a)) n"
    by (auto split: option.splits modref.splits)
  from "1.prems"(1) a have "map fst (types (heap ext' ! a)) = map fst (types (heap ext ! a))"
    and "length (heap ext') = length (heap ext)"
    by (simp_all add: frame_def)
  with a n show ?case
    by (simp add: cur Map_has_keys)
next
  case (2 ext cur n body start)
  then show ?case
    by (simp add: frame_def)
qed simp_all

lemma prepared_currentModule [simp]:
  "prepared (ext\<lparr> currentModule := c \<rparr>) cur stmt = prepared ext cur stmt"
  "prepared_statements (ext\<lparr> currentModule := c \<rparr>) cur stmts = prepared_statements ext cur stmts"
  by (induction ext cur stmt and ext cur stmts rule: prepared_prepared_statements.induct)
     (simp_all split: option.splits modref.splits)

lemma framed_Inl [simp]: "framed ext (Inl e)"
  by (simp add: framed_def)

lemma framed_Inr [simp]: "framed ext (Inr ext') = frame ext ext'"
  by (simp add: framed_def)

lemma framed_bind: "(\<And>v. r = Inr v \<Longrightarrow> framed ext (g v)) \<Longrightarrow> framed ext (bind_err r g)"
  by (cases r) (simp_all add: framed_def)

lemma framedD: "framed ext r \<Longrightarrow> r = Inr ext' \<Longrightarrow> frame ext ext'"
  by (simp add: framed_def)

lemma frame_store:
  "a < length (heap ext) \<Longrightarrow> map fst (types m') = map fst (types (heap ext ! a)) \<Longrightarrow>
     frame ext (store_module ext a m')"
  by (auto simp: frame_def nth_list_update)

lemma framed_handleVariableDeclaration: "framed ext (handleVariableDeclaration E f ext decls docs)"
  unfolding handleVariableDeclaration_def
  by (auto intro!: framed_bind frame_store dest!: module_collection_Inr)

lemma framed_handleFunctionDeclaration:
  "framed ext (handleFunctionDeclaration E f ext n sg start docs)"
  unfolding handleFunctionDeclaration_def Let_def
  by (auto intro!: framed_bind frame_store dest!: module_collection_Inr split: option.splits)

lemma framed_handleTypeDeclaration: "framed ext (handleTypeDeclaration E ext n ty)"
  unfolding framed_def
proof (intro allI impI)
  fix ext' assume "handleTypeDeclaration E ext n ty = Inr ext'"
  then obtain a m v decl where
    mc: "module_collection (heap ext) (currentModule ext) ''types'' ''get'' = Inr (a, m)"
    and decl: "Map_get (types m) n = Some decl"
    and ext': "ext' = store_module ext a
                 (m\<lparr> types := Map_set (types m) n (decl\<lparr> value_type := Some v \<rparr>) \<rparr>)"
    by (auto simp: handleTypeDeclaration_def bind_err_Inr_iff split: option.splits)
  from module_collection_Inr [OF mc] have a: "a < length (heap ext)" and m: "m = heap ext ! a"
    by simp_all
  from Map_get_Some_key [OF decl] have "n \<in> set (map fst (types m))" .
  then show "frame ext ext'"
    unfolding ext' using a m by (intro frame_store) (simp_all add: Map_set_keys)
qed

lemma framed_handleInterfaceDeclaration:
  "framed ext (handleInterfaceDeclaration E ext n tps elems heritage)"
  unfolding handleInterfaceDeclaration_def Let_def
  by (auto intro!: framed_bind frame_store dest!: module_collection_Inr split: option.splits)

lemma framed_handleClassDeclaration:
  "framed ext (handleClassDeclaration E f ext n tps elems heritage)"
  unfolding handleClassDeclaration_def Let_def
  by (auto intro!: framed_bind frame_store dest!: module_collection_Inr split: option.splits)

lemma visitor_framed:
  "framed ext (visitor E f ext stmt)"
  "framed ext (visitor_statements E f ext stmts)"
proof (induction E f ext stmt and E f ext stmts rule: visitor_visitor_statements.induct)
  case (1 E f ext mods decls docs)
  then show ?case
    by (simp add: framed_handleVariableDeclaration)
next
  case (2 E f ext mods n tps elems heritage start docs)
  then show ?case
    by (simp add: framed_handleClassDeclaration)
next
  case (3 E f ext mods n tps elems heritage start docs)
  then show ?case
    by (simp add: framed_handleInterfaceDeclaration)
next
  case (4 E f ext mods n sg start docs)
  then show ?case
    by (simp add: framed_handleFunctionDeclaration)
next
  case (5 E f ext mods n ty start docs)
  then show ?case
    by (simp add: framed_handleTypeDeclaration)
next
  case (6 E f ext n body start)
  let ?inner = "ext\<lparr> currentModule := Record_get (namespaceCache ext) n \<rparr>"
  from "6.IH" [OF refl] have fr: "framed ?inner (visitor_statements E f ?inner body)" .
  show ?case
    unfolding framed_def
  proof (intro allI impI)
    fix ext' assume "visitor E f ext (ModuleDeclaration n (Some body) start) = Inr ext'"
    then obtain ext'' where r: "visitor_statements E f ?inner body = Inr ext''"
      and ext': "ext' = ext''\<lparr> currentModule := currentModule ext \<rparr>"
      by (auto simp: Let_def bind_err_Inr_iff)
    from framedD [OF fr r] show "frame ext ext'"
      by (simp add: ext' frame_def)
  qed
next
  case (11 E f ext stmt stmts)
  show ?case
    unfolding framed_def
  proof (intro allI impI)
    fix ext' assume "visitor_statements E f ext (stmt # stmts) = Inr ext'"
    then obtain ext1 where r: "visitor E f ext stmt = Inr ext1"
      and r2: "visitor_statements E f ext1 stmts = Inr ext'"
      by (auto simp: bind_err_Inr_iff)
    from framedD [OF "11.IH"(1) r] framedD [OF "11.IH"(2) r2] show "frame ext ext'"
      by (rule frame_trans)
  qed
qed simp_all

lemma visitor_safe:
  "prepared ext (currentModule ext) stmt \<Longrightarrow> safe (visitor E f ext stmt)"
  "prepared_statements ext (currentModule ext) stmts \<Longrightarrow> safe (visitor_statements E f ext stmts)"
proof (induction E f ext stmt and E f ext stmts rule: visitor_visitor_statements.induct)
  case (1 E f ext mods decls docs)
  then show ?case
    by (simp add: safe_handleVariableDeclaration)
next
  case (2 E f ext mods n tps elems heritage start docs)
  then show ?case
    by (simp add: safe_handleClassDeclaration)
next
  case (3 E f ext mods n tps elems heritage start docs)
  then show ?case
    by (simp add: safe_handleInterfaceDeclaration)
next
  case (4 E f ext mods n sg start docs)
  then show ?case
    by (simp add: safe_handleFunctionDeclaration)
next
  case (5 E f ext mods n ty start docs)
  from "5.prems" obtain a where "currentModule ext = Some (ModuleObj a)"
    "Map_has (types (heap ext ! a)) n"
    by (auto split: option.splits modref.splits)
  then show ?case
    by (simp add: safe_handleTypeDeclaration)
next
  case (6 E f ext n body start)
  let ?inner = "ext\<lparr> currentModule := Record_get (namespaceCache ext) n \<rparr>"
  from "6.prems" have "prepared_statements ?inner (currentModule ?inner) body"
    by simp
  from "6.IH" [OF refl this] show ?case
    by (simp add: Let_def safe_bind)
next
  case (11 E f ext stmt stmts)
  from "11.prems" have p: "prepared ext (currentModule ext) stmt"
    and ps: "prepared_statements ext (currentModule ext) stmts"
    by simp_all
  have "safe (visitor_statements E f ext1 stmts)" if r: "visitor E f ext stmt = Inr ext1" for ext1
  proof -
    from framedD [OF visitor_framed(1) r] have f1: "frame ext ext1" .
    then have "currentModule ext1 = currentModule ext"
      by (simp add: frame_def)
    with prepared_frame(2) [OF f1 ps]
    have "prepared_statements ext1 (currentModule ext1) stmts"
      by simp
    then show ?thesis
      by (rule "11.IH"(2))
  qed
  with "11.IH"(1) [OF p] show ?case
    by (simp add: safe_bind)
qed simp_all

lemma grow_refl [simp]: "grow ext ext"
  by (simp add: grow_def)

lemma grow_trans:
  assumes "grow ext ext1" and "grow ext1 ext2"
  shows "grow ext ext2"
proof -
  have "set (map fst (types (heap ext ! a))) \<subseteq> set (map fst (types (heap ext2 ! a)))"
    if a: "a < length (heap ext)" for a
  proof -
    from a assms(1) have "a < length (heap ext1)"
      by (simp add: grow_def)
    with a assms show ?thesis
      unfolding grow_def by blast
  qed
  moreover have "length (heap ext) \<le> length (heap ext2)"
    using assms by (simp add: grow_def)
  moreover have "Record_get (namespaceCache ext2) n = Some v"
    if "Record_get (namespaceCache ext) n = Some v" for n v
    using that assms by (simp add: grow_def)
  ultimately show ?thesis
    unfolding grow_def by blast
qed

lemma frame_grow: "frame ext ext' \<Longrightarrow> grow ext ext'"
  by (simp add: frame_def grow_def)

lemma grow_currentModule [simp]: "grow ext (ext'\<lparr> currentModule := c \<rparr>) = grow ext ext'"
  by (simp add: grow_def)

lemma prepared_None:
  "prepared ext None stmt \<Longrightarrow> prepared ext cur stmt"
  "prepared_statements ext None stmts \<Longrightarrow> prepared_statements ext cur stmts"
  by (induction ext "None :: modref option" stmt and ext "None :: modref option" stmts
      rule: prepared_prepared_statements.induct) simp_all

lemma prepared_grow:
  "grow ext ext' \<Longrightarrow> prepared ext cur stmt \<Longrightarrow> prepared ext' cur stmt"
  "grow ext ext' \<Longrightarrow> prepared_statements ext cur stmts \<Longrightarrow> prepared_statements ext' cur stmts"
proof (induction ext cur stmt and ext cur stmts rule: prepared_prepared_statements.induct)
  case (1 ext cur mods n ty start docs)
  from "1.prems"(2) obtain a where cur: "cur = Some (ModuleObj a)" and a: "a < length (heap ext)"
    and n: "Map_has (types (heap ext ! a)) n"
    by (auto split: option.splits modref.splits)
  from "1.prems"(1) a
  have "set (map fst (types (heap ext ! a))) \<subseteq> set (map fst (types (heap ext' ! a)))"
    and "length (heap ext) \<le> length (heap ext')"
    by (simp_all add: grow_def)
  with a n show ?case
    by (auto simp: cur Map_has_keys)
next
  case (2 ext cur n body start)
  from "2.prems"(2) have p: "prepared_statements ext (Record_get (namespaceCache ext) n) body"
    by simp
  from "2.IH" [OF "2.prems"(1) p]
  have p': "prepared_statements ext' (Record_get (namespaceCache ext) n) body" .
  show ?case
  proof (cases "Record_get (namespaceCache ext) n")
    case None
    with p' have "prepared_statements ext' (Record_get (namespaceCache ext') n) body"
      by (simp add: prepared_None(2))
    then show ?thesis by simp
  next
    case (Some v)
    with "2.prems"(1) have "Record_get (namespaceCache ext') n = Some v"
      by (simp add: grow_def)
    with p' Some show ?thesis by simp
  qed
qed simp_all

lemma Record_set_get:
  assumes "Record_set r k v = Inr r'"
    and "Record_get r k = Some v \<or> Record_get r k = None"
  shows "Record_get r' k = Some v"
    and "Record_get r k' = Some v' \<Longrightarrow> Record_get r' k' = Some v'"
proof -
  show "Record_get r' k = Some v"
  proof (cases "k = ''__proto__''")
    case True
    with assms(1) have r': "r' = r" and v: "v = ObjectPrototypeMember ''__proto__''"
      by (auto simp: Record_set_def split: if_splits)
    from assms(2) True show ?thesis
      unfolding r' v by (auto simp: Record_get_def Object_prototype_keys_def split: option.splits)
  next
    case False
    with assms(1) have "r' = AList.update k v r"
      by (simp add: Record_set_def)
    then show ?thesis
      by (simp add: Record_get_def update_conv')
  qed
  show "Record_get r' k' = Some v'" if g: "Record_get r k' = Some v'"
  proof (cases "k = ''__proto__''")
    case True
    with assms(1) have "r' = r"
      by (auto simp: Record_set_def split: if_splits)
    with g show ?thesis by simp
  next
    case False
    with assms(1) have r': "r' = AList.update k v r"
      by (simp add: Record_set_def)
    show ?thesis
    proof (cases "k' = k")
      case True
      with g assms(2) have "v' = v" by auto
      then show ?thesis
        by (simp add: r' True Record_get_def update_conv')
    next
      case False
      with g show ?thesis
        by (simp add: r' Record_get_def update_conv')
    qed
  qed
qed

lemma preparer_store_frame:
  assumes "module_collection (heap ext) (currentModule ext) p g = Inr (a, m)"
    and "types m' = types m"
  shows "grow ext (store_module ext a m')"
    and "currentModule (store_module ext a m') = currentModule ext"
proof -
  from assms(2) have "map fst (types m') = map fst (types m)"
    by simp
  from frame_store_module [OF assms(1) this] show "grow ext (store_module ext a m')"
    by (rule frame_grow)
  show "currentModule (store_module ext a m') = currentModule ext"
    by simp
qed

lemma preparer_prepares:
  "preparer E f ext stmt = Inr ext' \<Longrightarrow>
     grow ext ext' \<and> currentModule ext' = currentModule ext \<and>
     moduleCache ext' = moduleCache ext \<and>
     prepared ext' (currentModule ext) stmt"
  "preparer_statements E f ext stmts = Inr ext' \<Longrightarrow>
     grow ext ext' \<and> currentModule ext' = currentModule ext \<and>
     moduleCache ext' = moduleCache ext \<and>
     prepared_statements ext' (currentModule ext) stmts"
proof (induction E f ext stmt and E f ext stmts arbitrary: ext' and ext'
    rule: preparer_preparer_statements.induct)
  case (1 E f ext mods n tps elems heritage start docs)
  from "1.prems" obtain a m m' where
    "module_collection (heap ext) (currentModule ext) ''classes'' ''set'' = Inr (a, m)"
    "ext' = store_module ext a m'" "types m' = types m"
    by (auto simp: bind_err_Inr_iff)
  with preparer_store_frame [of ext "''classes''" "''set''" a m m'] show ?case
    by simp
next
  case (2 E f ext mods n tps elems heritage start docs)
  from "2.prems" obtain a m m' where
    "module_collection (heap ext) (currentModule ext) ''interfaces'' ''get'' = Inr (a, m)"
    "ext' = store_module ext a m'" "types m' = types m"
    by (auto simp: bind_err_Inr_iff split: option.splits)
  with preparer_store_frame [of ext "''interfaces''" "''get''" a m m'] show ?case
    by simp
next
  case (3 E f ext mods n elems start docs)
  from "3.prems" obtain a m m' where
    "module_collection (heap ext) (currentModule ext) ''enums'' ''get'' = Inr (a, m)"
    "ext' = store_module ext a m'" "types m' = types m"
    by (auto simp: bind_err_Inr_iff split: option.splits)
  with preparer_store_frame [of ext "''enums''" "''get''" a m m'] show ?case
    by simp
next
  case (4 E f ext mods n ty start docs)
  from "4.prems" obtain a m decl where
    mc: "module_collection (heap ext) (currentModule ext) ''types'' ''set'' = Inr (a, m)"
    and ext': "ext' = store_module ext a (m\<lparr> types := Map_set (types m) n decl \<rparr>)"
    by (auto simp: bind_err_Inr_iff)
  from module_collection_Inr [OF mc] have cur: "currentModule ext = Some (ModuleObj a)"
    and a: "a < length (heap ext)" and m: "m = heap ext ! a"
    by simp_all
  have "set (map fst (types m)) \<subseteq> set (map fst (Map_set (types m) n decl))"
    by (simp add: Map_set_keys subset_insertI)
  then have "grow ext ext'"
    unfolding grow_def ext' using a m
    by (simp add: nth_list_update)
  moreover have "prepared ext' (currentModule ext) (TypeAliasDeclaration mods n ty start docs)"
    unfolding ext' cur using a
    by (simp add: Map_has_keys Map_set_keys)
  ultimately show ?case
    by (simp add: ext')
next
  case (5 E f ext n body start)
  let ?init = "case Record_get (namespaceCache ext) n of
           Some cached \<Rightarrow> Inr (heap ext, cached)
         | None \<Rightarrow>
             bind_err (getLOC ext start f False)
               (\<lambda>l. Inr (heap ext @ [createModule n False (sourceFile l) True],
                          ModuleObj (length (heap ext))))"
  from "5.prems" obtain h cur a m cache ext'' where
    init: "?init = Inr (h, cur)"
    and mc: "module_collection h (currentModule ext) ''modules'' ''set'' = Inr (a, m)"
    and rs: "Record_set (namespaceCache ext) n cur = Inr cache"
    and body: "preparer_statements E f
                 (ext\<lparr> heap := h[a := m\<lparr> modules := Map_set (modules m) n cur \<rparr>],
                       currentModule := Some cur, namespaceCache := cache \<rparr>) body = Inr ext''"
    and ext': "ext' = ext''\<lparr> currentModule := currentModule ext \<rparr>"
    by (auto simp: Let_def bind_err_Inr_iff)
  let ?inner = "ext\<lparr> heap := h[a := m\<lparr> modules := Map_set (modules m) n cur \<rparr>],
                     currentModule := Some cur, namespaceCache := cache \<rparr>"
  from init have h_len: "length (heap ext) \<le> length h"
    and h_nth: "\<And>b. b < length (heap ext) \<Longrightarrow> h ! b = heap ext ! b"
    and lookup: "Record_get (namespaceCache ext) n = Some cur \<or> Record_get (namespaceCache ext) n = None"
    by (auto simp: bind_err_Inr_iff nth_append split: option.splits)
  from module_collection_Inr [OF mc] have a: "a < length h" and m: "m = h ! a"
    by simp_all
  have grow_inner: "grow ext ?inner"
    unfolding grow_def
  proof (intro conjI allI impI)
    show "length (heap ext) \<le> length (heap ?inner)"
      using h_len by simp
    show "set (map fst (types (heap ext ! b))) \<subseteq> set (map fst (types (heap ?inner ! b)))"
      if "b < length (heap ext)" for b
      using that h_nth [OF that] a m by (cases "b = a") (simp_all add: nth_list_update)
    show "Record_get (namespaceCache ?inner) k = Some v"
      if "Record_get (namespaceCache ext) k = Some v" for k v
      using Record_set_get(2) [OF rs lookup that] by simp
  qed
  from "5.IH" [OF refl body]
  have g2: "grow ?inner ext''" and cur'': "currentModule ext'' = Some cur"
    and mc'': "moduleCache ext'' = moduleCache ext"
    and p: "prepared_statements ext'' (Some cur) body"
    by simp_all
  have "Record_get (namespaceCache ?inner) n = Some cur"
    using Record_set_get(1) [OF rs lookup] by simp
  with g2 have "Record_get (namespaceCache ext'') n = Some cur"
    by (simp add: grow_def)
  with p have "prepared ext' (currentModule ext) (ModuleDeclaration n (Some body) start)"
    by (simp add: ext')
  moreover have "grow ext ext'"
    using grow_trans [OF grow_inner g2] by (simp add: ext')
  ultimately show ?case
    by (simp add: ext' mc'')
next
  case (11 E f ext stmt stmts)
  from "11.prems" obtain ext1 where r1: "preparer E f ext stmt = Inr ext1"
    and r2: "preparer_statements E f ext1 stmts = Inr ext'"
    by (auto simp: bind_err_Inr_iff)
  from "11.IH"(1) [OF r1] have g1: "grow ext ext1" and c1: "currentModule ext1 = currentModule ext"
    and m1: "moduleCache ext1 = moduleCache ext"
    and p1: "prepared ext1 (currentModule ext) stmt"
    by simp_all
  from "11.IH"(2) [OF r2] have g2: "grow ext1 ext'" and c2: "currentModule ext' = currentModule ext1"
    and m2: "moduleCache ext' = moduleCache ext1"
    and p2: "prepared_statements ext' (currentModule ext1) stmts"
    by simp_all
  from prepared_grow(1) [OF g2 p1] p2 c1 c2 m1 m2 grow_trans [OF g1 g2] show ?case
    by simp
qed simp_all

lemma preparer_moduleCache:
  "preparer_statements E f ext stmts = Inr ext' \<Longrightarrow> moduleCache ext' = moduleCache ext"
  using preparer_prepares(2) [of E f ext stmts ext'] by simp

lemma moduleFromFile_loop_grow:
  "moduleFromFile_loop h r paths = Inr (h', r') \<Longrightarrow>
     length h \<le> length h' \<and> (\<forall>a < length h. types (h' ! a) = types (h ! a))"
proof (induction paths arbitrary: h r)
  case Nil
  then show ?case by simp
next
  case (Cons pathPart rest)
  from Cons.prems obtain a m where
    mc: "module_collection h (Some r) ''modules'' ''get'' = Inr (a, m)"
    by (auto simp: bind_err_Inr_iff)
  from module_collection_Inr [OF mc] have a: "a < length h" and m: "m = h ! a"
    by simp_all
  show ?case
  proof (cases "Map_get (modules m) pathPart")
    case None
    let ?h1 = "h[a := m\<lparr> modules := Map_set (modules m) pathPart (ModuleObj (length h)) \<rparr>]
                 @ [createModule pathPart False (Some (template (repository m) @ ''/'' @ pathPart)) False]"
    from Cons.prems mc None have "moduleFromFile_loop ?h1 (ModuleObj (length h)) rest = Inr (h', r')"
      by simp
    from Cons.IH [OF this]
    have len: "length ?h1 \<le> length h'" and keep: "\<forall>b < length ?h1. types (h' ! b) = types (?h1 ! b)"
      by simp_all
    have "types (h' ! b) = types (h ! b)" if b: "b < length h" for b
    proof -
      from b keep have "types (h' ! b) = types (?h1 ! b)"
        by simp
      also from b a m have "types (?h1 ! b) = types (h ! b)"
        by (cases "b = a") (simp_all add: nth_append nth_list_update)
      finally show ?thesis .
    qed
    with len show ?thesis
      by simp
  next
    case (Some newLastMod)
    with Cons.prems mc have "moduleFromFile_loop h newLastMod rest = Inr (h', r')"
      by simp
    from Cons.IH [OF this] show ?thesis .
  qed
qed

lemma moduleFromFile_grow:
  "moduleFromFile ext file = Inr (h, cur) \<Longrightarrow>
     length (heap ext) \<le> length h \<and> (\<forall>a < length (heap ext). types (h ! a) = types (heap ext ! a))"
  using moduleFromFile_loop_grow [of "heap ext" "ModuleObj (module ext)" _ h cur]
  by (auto simp: moduleFromFile_def Let_def split: if_splits)

lemma Record_set_other:
  "Record_set r k v = Inr r' \<Longrightarrow> k' \<noteq> k \<Longrightarrow> Record_get r' k' = Record_get r k'"
  by (auto simp: Record_set_def Record_get_def update_conv' split: if_splits)

lemma runPreparerOnFile_grow:
  assumes "runPreparerOnFile E ext file = Inr ext'"
  shows "grow ext ext'"
    and "k \<noteq> fileName file \<Longrightarrow> Record_get (moduleCache ext') k = Record_get (moduleCache ext) k"
proof -
  from assms obtain h cur cache where
    mf: "moduleFromFile ext file = Inr (h, cur)"
    and rs: "Record_set (moduleCache ext) (fileName file) cur = Inr cache"
    and prep: "preparer_statements E (fileName file)
                 (ext\<lparr> heap := h, currentModule := Some cur, moduleCache := cache \<rparr>)
                 (statements file) = Inr ext'"
    by (auto simp: runPreparerOnFile_def bind_err_Inr_iff)
  let ?start = "ext\<lparr> heap := h, currentModule := Some cur, moduleCache := cache \<rparr>"
  from moduleFromFile_grow [OF mf] have g1: "grow ext ?start"
    by (simp add: grow_def)
  from preparer_prepares(2) [OF prep] have g2: "grow ?start ext'"
    and mc: "moduleCache ext' = cache"
    by simp_all
  from g1 g2 show "grow ext ext'"
    by (rule grow_trans)
  show "Record_get (moduleCache ext') k = Record_get (moduleCache ext) k" if "k \<noteq> fileName file"
    using Record_set_other [OF rs that] by (simp add: mc)
qed

lemma runOnFile_grow:
  assumes "runOnFile E ext file = Inr ext'"
  shows "grow ext ext'" and "moduleCache ext' = moduleCache ext"
proof -
  let ?start = "ext\<lparr> currentModule := Record_get (moduleCache ext) (fileName file) \<rparr>"
  from assms have "visitor_statements E (fileName file) ?start (statements file) = Inr ext'"
    by (simp add: runOnFile_def)
  from framedD [OF visitor_framed(2) this] have fr: "frame ?start ext'" .
  then have "grow ?start ext'"
    by (rule frame_grow)
  then show "grow ext ext'"
    by (simp add: grow_def)
  from fr show "moduleCache ext' = moduleCache ext"
    by (simp add: frame_def)
qed

lemma run_calls_grow:
  "run_calls E ext cs = Inr ext' \<Longrightarrow> \<not> list_ex (prepares n) cs \<Longrightarrow>
     grow ext ext' \<and> Record_get (moduleCache ext') n = Record_get (moduleCache ext) n"
proof (induction cs arbitrary: ext)
  case Nil
  then show ?case by simp
next
  case (Cons c cs)
  from Cons.prems(1) obtain ext1 where r1: "run_call E ext c = Inr ext1"
    and r2: "run_calls E ext1 cs = Inr ext'"
    by (auto simp: bind_err_Inr_iff)
  from Cons.prems(2) have np: "\<not> prepares n c" and nps: "\<not> list_ex (prepares n) cs"
    by simp_all
  have step: "grow ext ext1 \<and> Record_get (moduleCache ext1) n = Record_get (moduleCache ext) n"
  proof (cases c)
    case (RunPreparerOnFile fl)
    with r1 have r: "runPreparerOnFile E ext fl = Inr ext1"
      by simp
    from np RunPreparerOnFile have "n \<noteq> fileName fl"
      by auto
    from runPreparerOnFile_grow(1) [OF r] runPreparerOnFile_grow(2) [OF r this]
    show ?thesis
      by simp
  next
    case (RunOnFile fl)
    with r1 have r: "runOnFile E ext fl = Inr ext1"
      by simp
    from runOnFile_grow(1) [OF r] runOnFile_grow(2) [OF r] show ?thesis
      by simp
  qed
  with Cons.IH [OF r2 nps] show ?case
    by (auto intro: grow_trans)
qed

text \<open>
  C2. When the current module is a Module whose types map has no entry under the name of
  a type alias, \<open>handleTypeDeclaration\<close> raises: the error of the type resolver when the
  right-hand side cannot be resolved, and otherwise the \<^verbatim>\<open>TypeError\<close> of the assignment
  to the missing skeleton; no extractor is returned. When the map has an entry, the
  lookup finds it, and the value of the entry is set to the resolved type unless the
  resolver raises. When the Prepare phase has run on a file and returned, then after any
  calls of the two phases on files that returned, none of them the Prepare phase on a
  file of the same name, the module cache has the module of the file, every type alias
  of the file, also inside namespace blocks, has its skeleton in the types map of the
  module the Visit phase is in at that alias, and the Visit phase on that file does not
  raise the \<^verbatim>\<open>TypeError\<close> of the missing skeleton.
\<close>

theorem handleTypeDeclaration_lookup:
  "(currentModule ext = Some (ModuleObj a) \<and> a < length (heap ext) \<and>
    Map_get (types (heap ext ! a)) n = None \<longrightarrow>
      handleTypeDeclaration E ext n ty =
        (case resolveType (E ext) ty of
           Inl e \<Rightarrow> Inl e
         | Inr v \<Rightarrow> Inl (set_of_undefined ''value''))) \<and>
   (currentModule ext' = Some (ModuleObj a') \<and> a' < length (heap ext') \<and>
    Map_get (types (heap ext' ! a')) n' = Some d \<longrightarrow>
      handleTypeDeclaration E' ext' n' ty' =
        (case resolveType (E' ext') ty' of
           Inl e \<Rightarrow> Inl e
         | Inr v \<Rightarrow>
             Inr (store_module ext' a'
               ((heap ext' ! a')
                  \<lparr> types := Map_set (types (heap ext' ! a')) n' (d\<lparr> value_type := Some v \<rparr>) \<rparr>)))) \<and>
   (runPreparerOnFile E0 ext0 file = Inr ext1 \<and> run_calls E1 ext1 cs = Inr ext2 \<and>
    \<not> list_ex (prepares (fileName file)) cs \<longrightarrow>
      (\<exists>cur. Record_get (moduleCache ext2) (fileName file) = Some cur \<and>
         prepared_statements ext2 (Some cur) (statements file)) \<and>
      runOnFile E2 ext2 file \<noteq> Inl (set_of_undefined ''value''))"
proof (intro conjI impI)
  assume "currentModule ext = Some (ModuleObj a) \<and> a < length (heap ext) \<and>
    Map_get (types (heap ext ! a)) n = None"
  then show "handleTypeDeclaration E ext n ty =
        (case resolveType (E ext) ty of
           Inl e \<Rightarrow> Inl e
         | Inr v \<Rightarrow> Inl (set_of_undefined ''value''))"
    by (simp add: handleTypeDeclaration_def module_collection_Module split: sum.splits)
next
  assume "currentModule ext' = Some (ModuleObj a') \<and> a' < length (heap ext') \<and>
    Map_get (types (heap ext' ! a')) n' = Some d"
  then show "handleTypeDeclaration E' ext' n' ty' =
        (case resolveType (E' ext') ty' of
           Inl e \<Rightarrow> Inl e
         | Inr v \<Rightarrow>
             Inr (store_module ext' a'
               ((heap ext' ! a')
                  \<lparr> types := Map_set (types (heap ext' ! a')) n' (d\<lparr> value_type := Some v \<rparr>) \<rparr>)))"
    by (simp add: handleTypeDeclaration_def module_collection_Module split: sum.splits)
next
  assume asm: "runPreparerOnFile E0 ext0 file = Inr ext1 \<and> run_calls E1 ext1 cs = Inr ext2 \<and>
    \<not> list_ex (prepares (fileName file)) cs"
  then have run: "runPreparerOnFile E0 ext0 file = Inr ext1"
    and calls: "run_calls E1 ext1 cs = Inr ext2"
    and others: "\<not> list_ex (prepares (fileName file)) cs"
    by simp_all
  from run obtain h cur cache where
    mf: "moduleFromFile ext0 file = Inr (h, cur)"
    and rs: "Record_set (moduleCache ext0) (fileName file) cur = Inr cache"
    and prep: "preparer_statements E0 (fileName file)
                 (ext0\<lparr> heap := h, currentModule := Some cur, moduleCache := cache \<rparr>)
                 (statements file) = Inr ext1"
    by (auto simp: runPreparerOnFile_def bind_err_Inr_iff)
  from preparer_prepares(2) [OF prep]
  have p: "prepared_statements ext1 (Some cur) (statements file)"
    and mc: "moduleCache ext1 = cache"
    by simp_all
  have "Record_get cache (fileName file) = Some cur"
  proof (cases "fileName file = ''__proto__''")
    case True
    with rs have "cur = ObjectPrototypeMember ''__proto__''"
      by (auto simp: Record_set_def split: if_splits)
    moreover from mf True have "cur = ModuleObj (module ext0)"
      by (simp add: moduleFromFile_def slice_from_def)
    ultimately show ?thesis by simp
  next
    case False
    with rs have "cache = AList.update (fileName file) cur (moduleCache ext0)"
      by (simp add: Record_set_def)
    then show ?thesis
      by (simp add: Record_get_def update_conv')
  qed
  with mc have "Record_get (moduleCache ext1) (fileName file) = Some cur"
    by simp
  with run_calls_grow [OF calls others]
  have g: "grow ext1 ext2" and c2: "Record_get (moduleCache ext2) (fileName file) = Some cur"
    by simp_all
  from prepared_grow(2) [OF g p] have p2: "prepared_statements ext2 (Some cur) (statements file)" .
  with c2 show "\<exists>cur. Record_get (moduleCache ext2) (fileName file) = Some cur \<and>
         prepared_statements ext2 (Some cur) (statements file)"
    by blast
  let ?start = "ext2\<lparr> currentModule := Some cur \<rparr>"
  from prepared_grow(2) [OF g p] have "prepared_statements ?start (currentModule ?start) (statements file)"
    by simp
  from visitor_safe(2) [OF this, of E2 "fileName file"] c2
  show "runOnFile E2 ext2 file \<noteq> Inl (set_of_undefined ''value'')"
    by (simp add: runOnFile_def safe_def lookup_failure_def)
qed


theorem handleTypeDeclaration_lookup_witness:
  "currentModule example_extractor = Some (ModuleObj 0) \<and> 0 < length (heap example_extractor) \<and>
   Map_get (types (heap example_extractor ! 0)) ''A'' = None \<and>
   handleTypeDeclaration no_references example_extractor ''A'' (OtherNode NumberKeyword ''number'')
     = Inl (set_of_undefined ''value'') \<and>
   (\<exists>ext1 ext2 d.
      runPreparerOnFile no_references example_extractor example_file = Inr ext1 \<and>
      currentModule ext1 = Some (ModuleObj 0) \<and> 0 < length (heap ext1) \<and>
      Map_get (types (heap ext1 ! 0)) ''A'' = Some d \<and>
      handleTypeDeclaration no_references ext1 ''A'' (OtherNode NumberKeyword ''number'') =
        Inr (store_module ext1 0
          ((heap ext1 ! 0)
             \<lparr> types := Map_set (types (heap ext1 ! 0)) ''A''
                 (d\<lparr> value_type := Some (BasicType (Some ''number'') TypeKinds_NUMBER) \<rparr>) \<rparr>)) \<and>
      run_calls no_references ext1
        [RunPreparerOnFile example_other_file, RunOnFile example_other_file] = Inr ext2 \<and>
      \<not> list_ex (prepares (fileName example_file))
        [RunPreparerOnFile example_other_file, RunOnFile example_other_file] \<and>
      Record_get (moduleCache ext2) (fileName example_file) = Some (ModuleObj 0) \<and>
      prepared_statements ext2 (Some (ModuleObj 0)) (statements example_file) \<and>
      runOnFile no_references ext2 example_file \<noteq> Inl (set_of_undefined ''value''))"
proof -
  let ?cs = "[RunPreparerOnFile example_other_file, RunOnFile example_other_file]"
  let ?ty = "OtherNode NumberKeyword ''number''"
  have pre: "currentModule example_extractor = Some (ModuleObj 0) \<and>
      0 < length (heap example_extractor) \<and>
      Map_get (types (heap example_extractor ! 0)) ''A'' = None"
    by (simp add: example_simps)
  have "\<exists>ext1 ext2 d. runPreparerOnFile no_references example_extractor example_file = Inr ext1 \<and>
      run_calls no_references ext1 ?cs = Inr ext2 \<and>
      (currentModule ext1 = Some (ModuleObj 0) \<and> 0 < length (heap ext1) \<and>
       Map_get (types (heap ext1 ! 0)) ''A'' = Some d) \<and>
      Record_get (moduleCache ext2) ''src/a.ts'' = Some (ModuleObj 0)"
    by (simp add: runPreparerOnFile_def runOnFile_def moduleFromFile_def example_file_def
          example_other_file_def handleTypeDeclaration_def slice_from_def slice_index_def
          Record_set_def Record_get_def Object_prototype_keys_def template_def example_simps)
  then obtain ext1 ext2 d where
    run: "runPreparerOnFile no_references example_extractor example_file = Inr ext1"
    and calls: "run_calls no_references ext1 ?cs = Inr ext2"
    and found: "currentModule ext1 = Some (ModuleObj 0) \<and> 0 < length (heap ext1) \<and>
       Map_get (types (heap ext1 ! 0)) ''A'' = Some d"
    and cache: "Record_get (moduleCache ext2) ''src/a.ts'' = Some (ModuleObj 0)"
    by blast
  have others: "\<not> list_ex (prepares (fileName example_file)) ?cs"
    by (simp add: example_file_def example_other_file_def)
  have name: "fileName example_file = ''src/a.ts''"
    by (simp add: example_file_def)
  from handleTypeDeclaration_lookup [of example_extractor 0 "''A''" no_references ?ty
      ext1 0 "''A''" d no_references ?ty
      no_references example_extractor example_file ext1 no_references ?cs ext2 no_references]
    pre found run calls others
  have missing: "handleTypeDeclaration no_references example_extractor ''A'' ?ty
     = Inl (set_of_undefined ''value'')"
    and present: "handleTypeDeclaration no_references ext1 ''A'' ?ty =
        Inr (store_module ext1 0
          ((heap ext1 ! 0)
             \<lparr> types := Map_set (types (heap ext1 ! 0)) ''A''
                 (d\<lparr> value_type := Some (BasicType (Some ''number'') TypeKinds_NUMBER) \<rparr>) \<rparr>))"
    and prepared: "\<exists>cur. Record_get (moduleCache ext2) (fileName example_file) = Some cur \<and>
         prepared_statements ext2 (Some cur) (statements example_file)"
    and visit: "runOnFile no_references ext2 example_file \<noteq> Inl (set_of_undefined ''value'')"
    by (simp_all add: no_references_def)
  from prepared cache have "prepared_statements ext2 (Some (ModuleObj 0)) (statements example_file)"
    by (auto simp: name)
  with pre run calls others found missing present cache visit show ?thesis
    unfolding name by blast
qed

end
